theory Spec2Isabelle
  imports Main "HOL-Library.Word"
begin

unbundle bit_operations_syntax

section \<open>Machine types, status codes and header definitions\<close>

type_synonym u8 = "8 word"
type_synonym u16 = "16 word"
type_synonym u32 = "32 word"
type_synonym u64 = "64 word"

text \<open>
  Functions of \<^verbatim>\<open>ice_ptp_hw.c\<close> return a C \<^verbatim>\<open>int\<close> status: zero on success, a negative
  errno value on failure. The errno numbers are those of the Linux headers.
\<close>

definition EIO :: int where "EIO = 5"
definition EBUSY :: int where "EBUSY = 16"
definition EINVAL :: int where "EINVAL = 22"
definition EOPNOTSUPP :: int where "EOPNOTSUPP = 95"

text \<open>
  The macros of \<^verbatim>\<open>ice_ptp_hw.h\<close>, \<^verbatim>\<open>ice_cgu_regs.h\<close> and \<^verbatim>\<open>ice_type.h\<close> that the
  modelled functions use as values (masks, opcodes, shift amounts, enumerators used as
  numbers). The headers are not among the sources, so every function takes the values as a
  parameter \<open>H\<close>, a table from the macro's name to its value: \<open>H ''TS_CMD_MASK''\<close> is
  the value of \<^verbatim>\<open>TS_CMD_MASK\<close>.
\<close>

type_synonym macros = "string \<Rightarrow> u32"

datatype ice_phy_model = ICE_PHY_UNSUP | ICE_PHY_E810 | ICE_PHY_E822 | ICE_PHY_ETH56G

text \<open>
  \<^verbatim>\<open>enum ice_ptp_tmr_cmd\<close>. A C enum can hold a value that is none of its enumerators;
  the \<^verbatim>\<open>default:\<close> branches of the source handle it, so the model has a constructor for it.
\<close>

datatype ice_ptp_tmr_cmd =
    ICE_PTP_INIT_TIME | ICE_PTP_INIT_INCVAL | ICE_PTP_ADJ_TIME | ICE_PTP_ADJ_TIME_AT_TIME
  | ICE_PTP_READ_TIME | ICE_PTP_NOP | ICE_PTP_TMR_CMD_OUT_OF_RANGE

datatype ice_cgu_state =
    ICE_CGU_STATE_UNKNOWN | ICE_CGU_STATE_INVALID | ICE_CGU_STATE_FREERUN
  | ICE_CGU_STATE_LOCKED | ICE_CGU_STATE_LOCKED_HO_ACQ | ICE_CGU_STATE_HOLDOVER

section \<open>Registers, the device and the register transport\<close>

text \<open>
  Registers are named as the source names them; the numeric addresses are in headers that
  are not among the sources and no claim depends on them. Registers with different names,
  or the same name at a different index, are different registers.
\<close>

datatype mmio_reg =
    GLTSYN_CMD | GLTSYN_CMD_SYNC
  | PFTSYN_SEM u8
  | GLTSYN_INCVAL_L u8 | GLTSYN_INCVAL_H u8
  | GLTSYN_SHTIME_0 u8 | GLTSYN_SHTIME_L u8 | GLTSYN_SHTIME_H u8
  | GLTSYN_SHADJ_L u8 | GLTSYN_SHADJ_H u8
  | PF_SB_ATQBAL | PF_SB_ATQBAH

datatype e822_reg64 =
    P_REG_PAR_PCS_TX_OFFSET | P_REG_PAR_PCS_RX_OFFSET | P_REG_PAR_TX_TIME | P_REG_PAR_RX_TIME
  | P_REG_TOTAL_TX_OFFSET | P_REG_TOTAL_RX_OFFSET | P_REG_UIX66_10G_40G | P_REG_UIX66_25G_100G
  | P_REG_TX_CAPTURE | P_REG_RX_CAPTURE | P_REG_TX_TIMER_INC_PRE | P_REG_RX_TIMER_INC_PRE

datatype e822_reg40 =
    P_REG_TIMETUS | P_REG_PAR_RX_TUS | P_REG_PAR_TX_TUS | P_REG_PCS_RX_TUS | P_REG_PCS_TX_TUS
  | P_REG_DESK_PAR_RX_TUS | P_REG_DESK_PAR_TX_TUS | P_REG_DESK_PCS_RX_TUS
  | P_REG_DESK_PCS_TX_TUS

text \<open>
  The two halves \<^verbatim>\<open>X_L\<close> and \<^verbatim>\<open>X_U\<close> of a 64-bit register \<^verbatim>\<open>X\<close> are written
  \<open>REG64_L X\<close> and \<open>REG64_U X\<close>, those of a 40-bit register \<open>REG40_L X\<close> and
  \<open>REG40_U X\<close>.
\<close>

datatype e822_reg =
    P_REG_TX_TMR_CMD | P_REG_RX_TMR_CMD
  | P_REG_TX_OR | P_REG_RX_OR | P_REG_TX_OV_STATUS | P_REG_RX_OV_STATUS
  | P_REG_LINK_SPEED | P_REG_PMD_ALIGNMENT
  | P_REG_RX_40_TO_160_CNT | P_REG_RX_80_TO_160_CNT
  | REG64_L e822_reg64 | REG64_U e822_reg64
  | REG40_L e822_reg40 | REG40_U e822_reg40

datatype e822_quad_reg = TS_L u8 | TS_H u8

datatype e810_reg =
    E810_ETH_GLTSYN_CMD
  | ETH_GLTSYN_SHADJ_L u8 | ETH_GLTSYN_SHADJ_H u8
  | TS_EXT_LOW u8 u8 | TS_EXT_HIGH u8 u8

datatype eth56g_res_type = ETH56G_PHY_REG | ETH56G_PHY_MEM

datatype eth56g_reg64 =
    PHY_REG_TX_TIMER_INC_PRE | PHY_REG_RX_TIMER_INC_PRE | PHY_REG_TX_CAPTURE
  | PHY_REG_RX_CAPTURE | PHY_REG_TOTAL_TX_OFFSET | PHY_REG_TOTAL_RX_OFFSET
  | PHY_REG_TX_MEMORY_STATUS

datatype eth56g_reg =
    PHY_REG_TX_TMR_CMD | PHY_REG_RX_TMR_CMD
  | PHY_REG_TX_OFFSET_READY | PHY_REG_RX_OFFSET_READY
  | PHY_REG64_L eth56g_reg64 | PHY_REG64_U eth56g_reg64
  | PHY_REG_TIMETUS_L | PHY_REG_TIMETUS_U
  | PHY_TSTAMP_L u8 | PHY_TSTAMP_U u8

datatype cgu_reg =
    NAC_CGU_DWORD9 | NAC_CGU_DWORD19 | NAC_CGU_DWORD22 | NAC_CGU_DWORD23_E825C
  | NAC_CGU_DWORD24 | TSPLL_RO_BWM_LF | TSPLL_RO_LOCK_E825C

text \<open>
  The target of a sideband message, as the message-filling code of each family selects it:
  \<^verbatim>\<open>ice_fill_phy_msg_e822\<close> from a port and an offset, \<^verbatim>\<open>ice_fill_quad_msg_e822\<close> from a
  quad and an offset, the E810 accessors from an address of the external PHY, the ETH56G
  accessors from a PHY index, a port of that PHY, a resource type and an offset, and the
  CGU accessors from a CGU register address.
\<close>

datatype sbq_addr =
    E822_PORT u8 e822_reg
  | E822_QUAD u8 e822_quad_reg
  | E810_PHY e810_reg
  | ETH56G u8 u8 eth56g_res_type eth56g_reg
  | CGU cgu_reg

text \<open>Everything the driver does to the device, in the order it does it.\<close>

datatype event =
    Wr32 mmio_reg u32
  | Rd32 mmio_reg u32
  | Flush
  | SbqWr sbq_addr u32 int
  | SbqRd sbq_addr int
  | Usleep_range nat nat
  | Udelay nat
  | Msleep nat

text \<open>Reply of the firmware to the "get CGU DPLL status" admin command.\<close>

record dpll_status =
  aq_status :: int
  ref_state :: u8
  dpll_state :: u16
  ph_offset :: u64
  eec_mode :: u8

text \<open>
  \<^verbatim>\<open>struct ice_hw\<close>, reduced to the fields the modelled functions read, together with the
  device behind it: the memory-mapped registers, the registers reached over the sideband
  queue, what the environment will answer (a script of values for the coming memory-mapped
  reads, a schedule of statuses for the coming sideband transactions, the firmware's
  replies), and the trace of what has been done so far (latest event last).
\<close>

record ice_hw =
  phy_model :: ice_phy_model
  phy_ports :: u8
  max_phy_port :: u8
  pf_id :: u8
  tmr_index_owned :: u8
  tmr_index_assoc :: u8
  time_ref :: u32
  ts_ll_read :: bool
  mmio :: "mmio_reg \<Rightarrow> u32"
  rd32_script :: "u32 list"
  sbq_regs :: "sbq_addr \<Rightarrow> u32"
  sbq_faults :: "int list"
  aq_dpll :: "u8 \<Rightarrow> dpll_status"
  trace :: "event list"

definition log_event :: "event \<Rightarrow> ice_hw \<Rightarrow> ice_hw" where
  "log_event e hw = hw\<lparr>trace := trace hw @ [e]\<rparr>"

text \<open>
  Modelled from the spec: the register transport (\<^verbatim>\<open>rd32\<close>, \<^verbatim>\<open>wr32\<close>, \<^verbatim>\<open>ice_flush\<close>,
  \<^verbatim>\<open>ice_sbq_rw_reg_lp\<close>) and the delay primitives are outside the sources; the spec gives
  them as \<open>read_register(address) -> u32\<close>, \<open>write_register(address, value)\<close>,
  \<open>sideband_transact(device, address, opcode, data, lock) -> Result<u32>\<close> and
  \<open>sleep(duration)\<close>. A memory-mapped write stores the value. A memory-mapped read returns
  the next value of the script when there is one (hardware changes registers on its own:
  the semaphore, the captured time), and the stored value otherwise. A sideband
  transaction takes the next status of the fault schedule (success when the schedule is
  empty); on success a write stores the value and a read returns the stored value, on
  failure nothing is stored and no data comes back.
\<close>

definition wr32 :: "ice_hw \<Rightarrow> mmio_reg \<Rightarrow> u32 \<Rightarrow> ice_hw" where
  "wr32 hw r v = log_event (Wr32 r v) (hw\<lparr>mmio := (mmio hw)(r := v)\<rparr>)"

definition rd32 :: "ice_hw \<Rightarrow> mmio_reg \<Rightarrow> u32 \<times> ice_hw" where
  "rd32 hw r =
     (case rd32_script hw of
        [] \<Rightarrow> (mmio hw r, log_event (Rd32 r (mmio hw r)) hw)
      | v # vs \<Rightarrow> (v, log_event (Rd32 r v) (hw\<lparr>rd32_script := vs\<rparr>)))"

definition ice_flush :: "ice_hw \<Rightarrow> ice_hw" where
  "ice_flush hw = log_event Flush hw"

definition usleep_range :: "ice_hw \<Rightarrow> nat \<Rightarrow> nat \<Rightarrow> ice_hw" where
  "usleep_range hw lo hi = log_event (Usleep_range lo hi) hw"

definition udelay :: "ice_hw \<Rightarrow> nat \<Rightarrow> ice_hw" where
  "udelay hw n = log_event (Udelay n) hw"

definition msleep :: "ice_hw \<Rightarrow> nat \<Rightarrow> ice_hw" where
  "msleep hw n = log_event (Msleep n) hw"

definition next_status :: "ice_hw \<Rightarrow> int \<times> ice_hw" where
  "next_status hw =
     (case sbq_faults hw of
        [] \<Rightarrow> (0, hw)
      | s # ss \<Rightarrow> (s, hw\<lparr>sbq_faults := ss\<rparr>))"

definition sbq_write :: "ice_hw \<Rightarrow> sbq_addr \<Rightarrow> u32 \<Rightarrow> bool \<Rightarrow> int \<times> ice_hw" where
  "sbq_write hw a v lock_sbq =
     (case next_status hw of (status, hw1) \<Rightarrow>
        if status \<noteq> 0 then (status, log_event (SbqWr a v status) hw1)
        else (0, log_event (SbqWr a v 0) (hw1\<lparr>sbq_regs := (sbq_regs hw1)(a := v)\<rparr>)))"

definition sbq_read :: "ice_hw \<Rightarrow> sbq_addr \<Rightarrow> bool \<Rightarrow> (int + u32) \<times> ice_hw" where
  "sbq_read hw a lock_sbq =
     (case next_status hw of (status, hw1) \<Rightarrow>
        if status \<noteq> 0 then (Inl status, log_event (SbqRd a status) hw1)
        else (Inr (sbq_regs hw1 a), log_event (SbqRd a 0) hw1))"


section \<open>The DPLL state reported by the CGU\<close>

text \<open>
  \<^verbatim>\<open>ice_get_cgu_state\<close>. The firmware command \<^verbatim>\<open>ice_aq_get_cgu_dpll_status\<close> is outside the
  sources; its reply is the field \<open>aq_dpll\<close> of the device. The two output pointers may be
  null: \<open>pin\<close> and \<open>phase_offset\<close> say whether they are given, and the outputs are the
  values stored through them, if any.
\<close>

definition ice_get_cgu_state ::
  "macros \<Rightarrow> ice_hw \<Rightarrow> u8 \<Rightarrow> bool \<Rightarrow> bool \<Rightarrow> ice_cgu_state \<Rightarrow>
     ice_cgu_state \<times> u8 option \<times> u64 option" where
  "ice_get_cgu_state H hw dpll_idx pin phase_offset last_dpll_state =
     (if (ucast dpll_idx :: u32) \<ge> H ''ICE_CGU_DPLL_MAX'' then (ICE_CGU_STATE_INVALID, None, None)
      else
        let r = aq_dpll hw dpll_idx in
        if aq_status r \<noteq> 0 then (ICE_CGU_STATE_INVALID, None, None)
        else
          let st = (ucast (dpll_state r) :: u32);
              pin_out =
                (if pin then
                   Some (ucast (drop_bit
                     (unat (H ''ICE_AQC_GET_CGU_DPLL_STATUS_STATE_CLK_REF_SHIFT''))
                     (st AND H ''ICE_AQC_GET_CGU_DPLL_STATUS_STATE_CLK_REF_SEL'')) :: u8)
                 else None);
              ph_out = (if phase_offset then Some (ph_offset r) else None)
          in
            if st AND H ''ICE_AQC_GET_CGU_DPLL_STATUS_STATE_LOCK'' \<noteq> 0 then
              (if st AND H ''ICE_AQC_GET_CGU_DPLL_STATUS_STATE_HO_READY'' \<noteq> 0
               then (ICE_CGU_STATE_LOCKED_HO_ACQ, pin_out, ph_out)
               else (ICE_CGU_STATE_LOCKED, pin_out, ph_out))
            else if last_dpll_state = ICE_CGU_STATE_LOCKED_HO_ACQ \<or>
                    last_dpll_state = ICE_CGU_STATE_HOLDOVER
              then (ICE_CGU_STATE_HOLDOVER, pin_out, ph_out)
              else (ICE_CGU_STATE_FREERUN, pin_out, ph_out))"

section \<open>Fixed-point time math of the E822 family\<close>

text \<open>
  \<^verbatim>\<open>enum ice_ptp_link_spd\<close>; the last enumerator is the count, which the source's
  "unknown link speed" branch would see.
\<close>

datatype ice_ptp_link_spd =
    ICE_PTP_LNK_SPD_1G | ICE_PTP_LNK_SPD_10G | ICE_PTP_LNK_SPD_25G | ICE_PTP_LNK_SPD_25G_RS
  | ICE_PTP_LNK_SPD_40G | ICE_PTP_LNK_SPD_50G | ICE_PTP_LNK_SPD_50G_RS
  | ICE_PTP_LNK_SPD_100G_RS | NUM_ICE_PTP_LNK_SPD

text \<open>
  The constant tables of \<^verbatim>\<open>ice_ptp_consts.h\<close> (not among the sources) are a parameter
  \<open>T\<close>: the rows of \<^verbatim>\<open>e822_vernier\<close> (the fields the modelled functions read), the PLL
  frequency that \<^verbatim>\<open>ice_e822_pll_freq\<close> looks up for a time reference, the rows of
  \<^verbatim>\<open>e822_cgu_params\<close>. So are the function-like macros \<^verbatim>\<open>TS_LL_READ_TS_IDX\<close> and
  \<^verbatim>\<open>P_REG_LINK_SPEED_FEC_MODE\<close>, and the layout of the bit fields of the CGU register
  unions of \<^verbatim>\<open>ice_cgu_regs.h\<close>: \<open>field_get T ''dw24.ts_pll_enable'' v\<close> reads the field
  \<^verbatim>\<open>ts_pll_enable\<close> of a \<^verbatim>\<open>union nac_cgu_dword24\<close> whose \<^verbatim>\<open>val\<close> is \<open>v\<close>, and
  \<open>field_set\<close> gives the \<^verbatim>\<open>val\<close> after an assignment to the field.
\<close>

record vernier_info =
  tx_fixed_delay :: u32
  pmd_adj_divisor :: u32
  rx_fixed_delay :: u32

record ice_cgu_pll_params_e822 =
  refclk_pre_div :: u32
  feedback_div :: u32
  frac_n_div :: u32
  post_pll_div :: u32

record ice_tables =
  e822_vernier :: "ice_ptp_link_spd \<Rightarrow> vernier_info"
  ice_e822_pll_freq :: "u32 \<Rightarrow> u64"
  e822_cgu_params :: "u32 \<Rightarrow> ice_cgu_pll_params_e822"
  TS_LL_READ_TS_IDX :: "u8 \<Rightarrow> u32"
  P_REG_LINK_SPEED_FEC_MODE :: "u32 \<Rightarrow> u32"
  field_get :: "string \<Rightarrow> u32 \<Rightarrow> u32"
  field_set :: "string \<Rightarrow> u32 \<Rightarrow> u32 \<Rightarrow> u32"

definition ice_get_ptp_src_clock_index :: "ice_hw \<Rightarrow> u8" where
  "ice_get_ptp_src_clock_index hw = tmr_index_assoc hw"

definition ice_ptp_read_src_incval :: "macros \<Rightarrow> ice_hw \<Rightarrow> u64 \<times> ice_hw" where
  "ice_ptp_read_src_incval H hw =
     (let tmr_idx = ice_get_ptp_src_clock_index hw in
      case rd32 hw (GLTSYN_INCVAL_L tmr_idx) of (lo, hw1) \<Rightarrow>
      case rd32 hw1 (GLTSYN_INCVAL_H tmr_idx) of (hi, hw2) \<Rightarrow>
        (push_bit 32 (ucast (hi AND H ''INCVAL_HIGH_M'') :: u64) OR ucast lo, hw2))"

definition div64_u64 :: "u64 \<Rightarrow> u64 \<Rightarrow> u64" where
  "div64_u64 dividend divisor = dividend div divisor"

definition ice_calc_fixed_tx_offset_e822 ::
  "ice_tables \<Rightarrow> macros \<Rightarrow> ice_hw \<Rightarrow> ice_ptp_link_spd \<Rightarrow> u64 \<times> ice_hw" where
  "ice_calc_fixed_tx_offset_e822 T H hw link_spd =
     (let cur_freq = ice_e822_pll_freq T (time_ref hw) in
      case ice_ptp_read_src_incval H hw of (clk_incval, hw1) \<Rightarrow>
        let tu_per_sec = cur_freq * clk_incval;
            fixed_offset = div64_u64 tu_per_sec 10000;
            fixed_offset = fixed_offset * ucast (tx_fixed_delay (e822_vernier T link_spd));
            fixed_offset = div64_u64 fixed_offset 10000000
        in (fixed_offset, hw1))"

definition ice_calc_fixed_rx_offset_e822 ::
  "ice_tables \<Rightarrow> macros \<Rightarrow> ice_hw \<Rightarrow> ice_ptp_link_spd \<Rightarrow> u64 \<times> ice_hw" where
  "ice_calc_fixed_rx_offset_e822 T H hw link_spd =
     (let cur_freq = ice_e822_pll_freq T (time_ref hw) in
      case ice_ptp_read_src_incval H hw of (clk_incval, hw1) \<Rightarrow>
        let tu_per_sec = cur_freq * clk_incval;
            fixed_offset = div64_u64 tu_per_sec 10000;
            fixed_offset = fixed_offset * ucast (rx_fixed_delay (e822_vernier T link_spd));
            fixed_offset = div64_u64 fixed_offset 10000000
        in (fixed_offset, hw1))"


section \<open>Register access of the three PHY families\<close>

subsection \<open>E822: port and quad registers\<close>

definition ice_read_phy_reg_e822_lp ::
  "ice_hw \<Rightarrow> u8 \<Rightarrow> e822_reg \<Rightarrow> bool \<Rightarrow> (int + u32) \<times> ice_hw" where
  "ice_read_phy_reg_e822_lp hw port offset lock_sbq = sbq_read hw (E822_PORT port offset) lock_sbq"

definition ice_read_phy_reg_e822 :: "ice_hw \<Rightarrow> u8 \<Rightarrow> e822_reg \<Rightarrow> (int + u32) \<times> ice_hw" where
  "ice_read_phy_reg_e822 hw port offset = ice_read_phy_reg_e822_lp hw port offset True"

definition ice_write_phy_reg_e822_lp ::
  "ice_hw \<Rightarrow> u8 \<Rightarrow> e822_reg \<Rightarrow> u32 \<Rightarrow> bool \<Rightarrow> int \<times> ice_hw" where
  "ice_write_phy_reg_e822_lp hw port offset val lock_sbq =
     sbq_write hw (E822_PORT port offset) val lock_sbq"

definition ice_write_phy_reg_e822 :: "ice_hw \<Rightarrow> u8 \<Rightarrow> e822_reg \<Rightarrow> u32 \<Rightarrow> int \<times> ice_hw" where
  "ice_write_phy_reg_e822 hw port offset val = ice_write_phy_reg_e822_lp hw port offset val True"

text \<open>
  \<^verbatim>\<open>ice_is_64b_phy_reg_e822\<close> and \<^verbatim>\<open>ice_is_40b_phy_reg_e822\<close>: the switch maps the low half
  of each known wide register to its high half and rejects every other offset.
\<close>

definition ice_is_64b_phy_reg_e822 :: "e822_reg \<Rightarrow> e822_reg option" where
  "ice_is_64b_phy_reg_e822 low_addr =
     (case low_addr of REG64_L r \<Rightarrow> Some (REG64_U r) | _ \<Rightarrow> None)"

definition ice_is_40b_phy_reg_e822 :: "e822_reg \<Rightarrow> e822_reg option" where
  "ice_is_40b_phy_reg_e822 low_addr =
     (case low_addr of REG40_L r \<Rightarrow> Some (REG40_U r) | _ \<Rightarrow> None)"

definition lower_32_bits :: "u64 \<Rightarrow> u32" where
  "lower_32_bits v = ucast v"

definition upper_32_bits :: "u64 \<Rightarrow> u32" where
  "upper_32_bits v = ucast (drop_bit 32 v)"

definition ice_read_64b_phy_reg_e822 ::
  "ice_hw \<Rightarrow> u8 \<Rightarrow> e822_reg \<Rightarrow> (int + u64) \<times> ice_hw" where
  "ice_read_64b_phy_reg_e822 hw port low_addr =
     (case ice_is_64b_phy_reg_e822 low_addr of
        None \<Rightarrow> (Inl (- EINVAL), hw)
      | Some high_addr \<Rightarrow>
          (case ice_read_phy_reg_e822 hw port low_addr of
             (Inl status, hw1) \<Rightarrow> (Inl status, hw1)
           | (Inr low, hw1) \<Rightarrow>
               (case ice_read_phy_reg_e822 hw1 port high_addr of
                  (Inl status, hw2) \<Rightarrow> (Inl status, hw2)
                | (Inr high, hw2) \<Rightarrow>
                    (Inr (push_bit 32 (ucast high :: u64) OR ucast low), hw2))))"

definition ice_write_64b_phy_reg_e822 ::
  "ice_hw \<Rightarrow> u8 \<Rightarrow> e822_reg \<Rightarrow> u64 \<Rightarrow> int \<times> ice_hw" where
  "ice_write_64b_phy_reg_e822 hw port low_addr val =
     (case ice_is_64b_phy_reg_e822 low_addr of
        None \<Rightarrow> (- EINVAL, hw)
      | Some high_addr \<Rightarrow>
          (case ice_write_phy_reg_e822 hw port low_addr (lower_32_bits val) of (status, hw1) \<Rightarrow>
             if status \<noteq> 0 then (status, hw1)
             else
               (case ice_write_phy_reg_e822 hw1 port high_addr (upper_32_bits val) of
                  (status, hw2) \<Rightarrow> if status \<noteq> 0 then (status, hw2) else (0, hw2))))"

definition ice_write_40b_phy_reg_e822 ::
  "macros \<Rightarrow> ice_hw \<Rightarrow> u8 \<Rightarrow> e822_reg \<Rightarrow> u64 \<Rightarrow> int \<times> ice_hw" where
  "ice_write_40b_phy_reg_e822 H hw port low_addr val =
     (case ice_is_40b_phy_reg_e822 low_addr of
        None \<Rightarrow> (- EINVAL, hw)
      | Some high_addr \<Rightarrow>
          (let low = (ucast (val AND ucast (H ''P_REG_40B_LOW_M'')) :: u32);
               high = (ucast (drop_bit (unat (H ''P_REG_40B_HIGH_S'')) val) :: u32)
           in case ice_write_phy_reg_e822 hw port low_addr low of (status, hw1) \<Rightarrow>
             if status \<noteq> 0 then (status, hw1)
             else
               (case ice_write_phy_reg_e822 hw1 port high_addr high of
                  (status, hw2) \<Rightarrow> if status \<noteq> 0 then (status, hw2) else (0, hw2))))"

text \<open>
  \<^verbatim>\<open>ice_fill_quad_msg_e822\<close> rejects a quad that is not below \<^verbatim>\<open>ICE_MAX_QUAD\<close> before any
  message is sent.
\<close>

definition ice_read_quad_reg_e822_lp ::
  "macros \<Rightarrow> ice_hw \<Rightarrow> u8 \<Rightarrow> e822_quad_reg \<Rightarrow> bool \<Rightarrow> (int + u32) \<times> ice_hw" where
  "ice_read_quad_reg_e822_lp H hw quad offset lock_sbq =
     (if (ucast quad :: u32) \<ge> H ''ICE_MAX_QUAD'' then (Inl (- EINVAL), hw)
      else sbq_read hw (E822_QUAD quad offset) lock_sbq)"

definition ice_read_quad_reg_e822 ::
  "macros \<Rightarrow> ice_hw \<Rightarrow> u8 \<Rightarrow> e822_quad_reg \<Rightarrow> (int + u32) \<times> ice_hw" where
  "ice_read_quad_reg_e822 H hw quad offset = ice_read_quad_reg_e822_lp H hw quad offset True"

subsection \<open>E810: registers of the external PHY\<close>

definition ice_read_phy_reg_e810_lp ::
  "ice_hw \<Rightarrow> e810_reg \<Rightarrow> bool \<Rightarrow> (int + u32) \<times> ice_hw" where
  "ice_read_phy_reg_e810_lp hw addr lock_sbq = sbq_read hw (E810_PHY addr) lock_sbq"

definition ice_read_phy_reg_e810 :: "ice_hw \<Rightarrow> e810_reg \<Rightarrow> (int + u32) \<times> ice_hw" where
  "ice_read_phy_reg_e810 hw addr = ice_read_phy_reg_e810_lp hw addr True"

definition ice_write_phy_reg_e810_lp ::
  "ice_hw \<Rightarrow> e810_reg \<Rightarrow> u32 \<Rightarrow> bool \<Rightarrow> int \<times> ice_hw" where
  "ice_write_phy_reg_e810_lp hw addr val lock_sbq = sbq_write hw (E810_PHY addr) val lock_sbq"

definition ice_write_phy_reg_e810 :: "ice_hw \<Rightarrow> e810_reg \<Rightarrow> u32 \<Rightarrow> int \<times> ice_hw" where
  "ice_write_phy_reg_e810 hw addr val = ice_write_phy_reg_e810_lp hw addr val True"

subsection \<open>ETH56G: port registers and port memory\<close>

text \<open>
  \<^verbatim>\<open>ice_write_phy_port_eth56g_lp\<close> and \<^verbatim>\<open>ice_read_phy_port_eth56g_lp\<close> compute the PHY index
  \<^verbatim>\<open>port / hw->phy_ports\<close> and the port of that PHY \<^verbatim>\<open>port % hw->phy_ports\<close>, and answer
  \<^verbatim>\<open>-EIO\<close> for a port that is not below \<^verbatim>\<open>hw->max_phy_port\<close>. In C the division traps when
  \<^verbatim>\<open>hw->phy_ports\<close> is zero; every property of an ETH56G function below assumes it is not.
\<close>

definition ice_write_phy_port_eth56g_lp ::
  "ice_hw \<Rightarrow> u8 \<Rightarrow> eth56g_reg \<Rightarrow> u32 \<Rightarrow> eth56g_res_type \<Rightarrow> bool \<Rightarrow> int \<times> ice_hw" where
  "ice_write_phy_port_eth56g_lp hw port reg_offs val res_type lock_sbq =
     (let phy_index = port div phy_ports hw;
          phy_port = port mod phy_ports hw
      in if port \<ge> max_phy_port hw then (- EIO, hw)
         else sbq_write hw (ETH56G phy_index phy_port res_type reg_offs) val lock_sbq)"

definition ice_read_phy_port_eth56g_lp ::
  "ice_hw \<Rightarrow> u8 \<Rightarrow> eth56g_reg \<Rightarrow> eth56g_res_type \<Rightarrow> bool \<Rightarrow> (int + u32) \<times> ice_hw" where
  "ice_read_phy_port_eth56g_lp hw port reg_offs res_type lock_sbq =
     (let phy_index = port div phy_ports hw;
          phy_port = port mod phy_ports hw
      in if port \<ge> max_phy_port hw then (Inl (- EIO), hw)
         else sbq_read hw (ETH56G phy_index phy_port res_type reg_offs) lock_sbq)"

definition ice_write_phy_reg_eth56g_lp ::
  "ice_hw \<Rightarrow> u8 \<Rightarrow> eth56g_reg \<Rightarrow> u32 \<Rightarrow> bool \<Rightarrow> int \<times> ice_hw" where
  "ice_write_phy_reg_eth56g_lp hw port offset val lock_sbq =
     ice_write_phy_port_eth56g_lp hw port offset val ETH56G_PHY_REG lock_sbq"

definition ice_write_phy_reg_eth56g :: "ice_hw \<Rightarrow> u8 \<Rightarrow> eth56g_reg \<Rightarrow> u32 \<Rightarrow> int \<times> ice_hw" where
  "ice_write_phy_reg_eth56g hw port offset val = ice_write_phy_reg_eth56g_lp hw port offset val True"

definition ice_read_phy_reg_eth56g_lp ::
  "ice_hw \<Rightarrow> u8 \<Rightarrow> eth56g_reg \<Rightarrow> bool \<Rightarrow> (int + u32) \<times> ice_hw" where
  "ice_read_phy_reg_eth56g_lp hw port offset lock_sbq =
     ice_read_phy_port_eth56g_lp hw port offset ETH56G_PHY_REG lock_sbq"

definition ice_read_phy_reg_eth56g :: "ice_hw \<Rightarrow> u8 \<Rightarrow> eth56g_reg \<Rightarrow> (int + u32) \<times> ice_hw" where
  "ice_read_phy_reg_eth56g hw port offset = ice_read_phy_reg_eth56g_lp hw port offset True"

definition ice_phy_port_mem_read_eth56g_lp ::
  "ice_hw \<Rightarrow> u8 \<Rightarrow> eth56g_reg \<Rightarrow> bool \<Rightarrow> (int + u32) \<times> ice_hw" where
  "ice_phy_port_mem_read_eth56g_lp hw port offset lock_sbq =
     ice_read_phy_port_eth56g_lp hw port offset ETH56G_PHY_MEM lock_sbq"

definition ice_phy_port_mem_read_eth56g ::
  "ice_hw \<Rightarrow> u8 \<Rightarrow> eth56g_reg \<Rightarrow> (int + u32) \<times> ice_hw" where
  "ice_phy_port_mem_read_eth56g hw port offset = ice_phy_port_mem_read_eth56g_lp hw port offset True"

definition ice_phy_port_mem_write_eth56g_lp ::
  "ice_hw \<Rightarrow> u8 \<Rightarrow> eth56g_reg \<Rightarrow> u32 \<Rightarrow> bool \<Rightarrow> int \<times> ice_hw" where
  "ice_phy_port_mem_write_eth56g_lp hw port offset val lock_sbq =
     ice_write_phy_port_eth56g_lp hw port offset val ETH56G_PHY_MEM lock_sbq"

definition ice_phy_port_mem_write_eth56g ::
  "ice_hw \<Rightarrow> u8 \<Rightarrow> eth56g_reg \<Rightarrow> u32 \<Rightarrow> int \<times> ice_hw" where
  "ice_phy_port_mem_write_eth56g hw port offset val =
     ice_phy_port_mem_write_eth56g_lp hw port offset val True"

definition ice_is_64b_phy_reg_eth56g :: "eth56g_reg \<Rightarrow> eth56g_reg option" where
  "ice_is_64b_phy_reg_eth56g low_addr =
     (case low_addr of PHY_REG64_L r \<Rightarrow> Some (PHY_REG64_U r) | _ \<Rightarrow> None)"

definition ice_is_40b_phy_reg_eth56g :: "eth56g_reg \<Rightarrow> eth56g_reg option" where
  "ice_is_40b_phy_reg_eth56g low_addr =
     (case low_addr of PHY_REG_TIMETUS_L \<Rightarrow> Some PHY_REG_TIMETUS_U | _ \<Rightarrow> None)"

definition ice_write_40b_phy_reg_eth56g ::
  "macros \<Rightarrow> ice_hw \<Rightarrow> u8 \<Rightarrow> eth56g_reg \<Rightarrow> u64 \<Rightarrow> int \<times> ice_hw" where
  "ice_write_40b_phy_reg_eth56g H hw port low_addr val =
     (case ice_is_40b_phy_reg_eth56g low_addr of
        None \<Rightarrow> (- EINVAL, hw)
      | Some high_addr \<Rightarrow>
          (let lo = (ucast (val AND ucast (H ''P_REG_40B_LOW_M'')) :: u32);
               hi = (ucast (drop_bit (unat (H ''P_REG_40B_HIGH_S'')) val) :: u32)
           in case ice_write_phy_reg_eth56g hw port low_addr lo of (status, hw1) \<Rightarrow>
             if status \<noteq> 0 then (status, hw1)
             else
               (case ice_write_phy_reg_eth56g hw1 port high_addr hi of
                  (status, hw2) \<Rightarrow> if status \<noteq> 0 then (status, hw2) else (0, hw2))))"

definition ice_write_64b_phy_reg_eth56g ::
  "ice_hw \<Rightarrow> u8 \<Rightarrow> eth56g_reg \<Rightarrow> u64 \<Rightarrow> int \<times> ice_hw" where
  "ice_write_64b_phy_reg_eth56g hw port low_addr val =
     (case ice_is_64b_phy_reg_eth56g low_addr of
        None \<Rightarrow> (- EINVAL, hw)
      | Some high_addr \<Rightarrow>
          (case ice_write_phy_reg_eth56g hw port low_addr (lower_32_bits val) of (status, hw1) \<Rightarrow>
             if status \<noteq> 0 then (status, hw1)
             else
               (case ice_write_phy_reg_eth56g hw1 port high_addr (upper_32_bits val) of
                  (status, hw2) \<Rightarrow> if status \<noteq> 0 then (status, hw2) else (0, hw2))))"


section \<open>Timer commands\<close>

definition ice_ptp_src_cmd :: "macros \<Rightarrow> ice_hw \<Rightarrow> ice_ptp_tmr_cmd \<Rightarrow> ice_hw" where
  "ice_ptp_src_cmd H hw cmd =
     (let tmr_idx = ice_get_ptp_src_clock_index hw;
          cmd_val = push_bit (unat (H ''SEL_CPK_SRC'')) (ucast tmr_idx :: u32)
      in case cmd of
           ICE_PTP_INIT_TIME \<Rightarrow> wr32 hw GLTSYN_CMD (cmd_val OR H ''GLTSYN_CMD_INIT_TIME'')
         | ICE_PTP_INIT_INCVAL \<Rightarrow> wr32 hw GLTSYN_CMD (cmd_val OR H ''GLTSYN_CMD_INIT_INCVAL'')
         | ICE_PTP_ADJ_TIME \<Rightarrow> wr32 hw GLTSYN_CMD (cmd_val OR H ''GLTSYN_CMD_ADJ_TIME'')
         | ICE_PTP_ADJ_TIME_AT_TIME \<Rightarrow>
             wr32 hw GLTSYN_CMD (cmd_val OR H ''GLTSYN_CMD_ADJ_INIT_TIME'')
         | ICE_PTP_READ_TIME \<Rightarrow> wr32 hw GLTSYN_CMD (cmd_val OR H ''GLTSYN_CMD_READ_TIME'')
         | ICE_PTP_NOP \<Rightarrow> wr32 hw GLTSYN_CMD cmd_val
         | ICE_PTP_TMR_CMD_OUT_OF_RANGE \<Rightarrow> hw)"

definition ice_ptp_exec_tmr_cmd :: "macros \<Rightarrow> ice_hw \<Rightarrow> ice_hw" where
  "ice_ptp_exec_tmr_cmd H hw = ice_flush (wr32 hw GLTSYN_CMD_SYNC (H ''SYNC_EXEC_CMD''))"

definition ice_ptp_clean_cmd :: "ice_hw \<Rightarrow> ice_hw" where
  "ice_ptp_clean_cmd hw = ice_flush (wr32 hw GLTSYN_CMD 0)"

text \<open>
  The opcode switch shared by \<^verbatim>\<open>ice_ptp_one_port_cmd_eth56g\<close> and
  \<^verbatim>\<open>ice_ptp_one_port_cmd_e822\<close>: \<open>None\<close> is the \<^verbatim>\<open>default:\<close> branch, which returns
  \<^verbatim>\<open>-EINVAL\<close>. \<^verbatim>\<open>ICE_PTP_NOP\<close> has no case of its own there.
\<close>

definition phy_cmd_val :: "macros \<Rightarrow> ice_hw \<Rightarrow> ice_ptp_tmr_cmd \<Rightarrow> u32 option" where
  "phy_cmd_val H hw cmd =
     (let tmr_idx = ice_get_ptp_src_clock_index hw;
          cmd_val = push_bit (unat (H ''SEL_PHY_SRC'')) (ucast tmr_idx :: u32)
      in case cmd of
           ICE_PTP_INIT_TIME \<Rightarrow> Some (cmd_val OR H ''PHY_CMD_INIT_TIME'')
         | ICE_PTP_INIT_INCVAL \<Rightarrow> Some (cmd_val OR H ''PHY_CMD_INIT_INCVAL'')
         | ICE_PTP_ADJ_TIME \<Rightarrow> Some (cmd_val OR H ''PHY_CMD_ADJ_TIME'')
         | ICE_PTP_ADJ_TIME_AT_TIME \<Rightarrow> Some (cmd_val OR H ''PHY_CMD_ADJ_TIME_AT_TIME'')
         | ICE_PTP_READ_TIME \<Rightarrow> Some (cmd_val OR H ''PHY_CMD_READ_TIME'')
         | _ \<Rightarrow> None)"

definition ice_ptp_one_port_cmd_eth56g ::
  "macros \<Rightarrow> ice_hw \<Rightarrow> u8 \<Rightarrow> ice_ptp_tmr_cmd \<Rightarrow> bool \<Rightarrow> int \<times> ice_hw" where
  "ice_ptp_one_port_cmd_eth56g H hw port cmd lock_sbq =
     (case phy_cmd_val H hw cmd of
        None \<Rightarrow> (- EINVAL, hw)
      | Some cmd_val \<Rightarrow>
     (case ice_read_phy_reg_eth56g_lp hw port PHY_REG_TX_TMR_CMD lock_sbq of
        (Inl status, hw1) \<Rightarrow> (status, hw1)
      | (Inr val, hw1) \<Rightarrow>
     (case ice_write_phy_reg_eth56g_lp hw1 port PHY_REG_TX_TMR_CMD
             ((val AND NOT (H ''TS_CMD_MASK'')) OR cmd_val) lock_sbq of
        (status, hw2) \<Rightarrow>
     if status \<noteq> 0 then (status, hw2) else
     (case ice_read_phy_reg_eth56g_lp hw2 port PHY_REG_RX_TMR_CMD lock_sbq of
        (Inl status, hw3) \<Rightarrow> (status, hw3)
      | (Inr val, hw3) \<Rightarrow>
     (case ice_write_phy_reg_eth56g_lp hw3 port PHY_REG_RX_TMR_CMD
             ((val AND NOT (H ''TS_CMD_MASK'')) OR cmd_val) lock_sbq of
        (status, hw4) \<Rightarrow>
     if status \<noteq> 0 then (status, hw4) else (0, hw4))))))"

definition ice_ptp_one_port_cmd_e822 ::
  "macros \<Rightarrow> ice_hw \<Rightarrow> u8 \<Rightarrow> ice_ptp_tmr_cmd \<Rightarrow> bool \<Rightarrow> int \<times> ice_hw" where
  "ice_ptp_one_port_cmd_e822 H hw port cmd lock_sbq =
     (case phy_cmd_val H hw cmd of
        None \<Rightarrow> (- EINVAL, hw)
      | Some cmd_val \<Rightarrow>
     (case ice_read_phy_reg_e822_lp hw port P_REG_TX_TMR_CMD lock_sbq of
        (Inl status, hw1) \<Rightarrow> (status, hw1)
      | (Inr val, hw1) \<Rightarrow>
     (case ice_write_phy_reg_e822_lp hw1 port P_REG_TX_TMR_CMD
             ((val AND NOT (H ''TS_CMD_MASK'')) OR cmd_val) lock_sbq of
        (status, hw2) \<Rightarrow>
     if status \<noteq> 0 then (status, hw2) else
     (case ice_read_phy_reg_e822_lp hw2 port P_REG_RX_TMR_CMD lock_sbq of
        (Inl status, hw3) \<Rightarrow> (status, hw3)
      | (Inr val, hw3) \<Rightarrow>
     (case ice_write_phy_reg_e822_lp hw3 port P_REG_RX_TMR_CMD
             ((val AND NOT (H ''TS_CMD_MASK'')) OR cmd_val) lock_sbq of
        (status, hw4) \<Rightarrow>
     if status \<noteq> 0 then (status, hw4) else (0, hw4))))))"

text \<open>
  The loops \<^verbatim>\<open>for (port = 0; port < n; port++)\<close> over the ports of the device, with their
  early return on the first nonzero status: \<open>for_each_port\<close> runs the loop body on the
  ports of a list, \<open>port_range n\<close> is the list of ports the loop visits. The counter is a
  \<^verbatim>\<open>u8\<close> and so is the bound, hence the counter never wraps.
\<close>

fun for_each_port :: "(ice_hw \<Rightarrow> u8 \<Rightarrow> int \<times> ice_hw) \<Rightarrow> u8 list \<Rightarrow> ice_hw \<Rightarrow> int \<times> ice_hw" where
  "for_each_port body [] hw = (0, hw)"
| "for_each_port body (port # ports) hw =
     (case body hw port of (status, hw1) \<Rightarrow>
        if status \<noteq> 0 then (status, hw1) else for_each_port body ports hw1)"

definition port_range :: "u8 \<Rightarrow> u8 list" where
  "port_range n = map of_nat [0..<unat n]"

definition ice_ptp_port_cmd_eth56g ::
  "macros \<Rightarrow> ice_hw \<Rightarrow> ice_ptp_tmr_cmd \<Rightarrow> bool \<Rightarrow> int \<times> ice_hw" where
  "ice_ptp_port_cmd_eth56g H hw cmd lock_sbq =
     for_each_port (\<lambda>hw port. ice_ptp_one_port_cmd_eth56g H hw port cmd lock_sbq)
       (port_range (max_phy_port hw)) hw"

definition ice_ptp_port_cmd_e822 ::
  "macros \<Rightarrow> ice_hw \<Rightarrow> ice_ptp_tmr_cmd \<Rightarrow> bool \<Rightarrow> int \<times> ice_hw" where
  "ice_ptp_port_cmd_e822 H hw cmd lock_sbq =
     for_each_port (\<lambda>hw port. ice_ptp_one_port_cmd_e822 H hw port cmd lock_sbq)
       (port_range (phy_ports hw)) hw"

definition ice_ptp_port_cmd ::
  "macros \<Rightarrow> ice_hw \<Rightarrow> ice_ptp_tmr_cmd \<Rightarrow> bool \<Rightarrow> e810_reg \<Rightarrow> int \<times> ice_hw" where
  "ice_ptp_port_cmd H hw cmd lock_sbq eth_gltsyn_cmd_addr =
     (case (case cmd of
              ICE_PTP_INIT_TIME \<Rightarrow> Some (H ''GLTSYN_CMD_INIT_TIME'')
            | ICE_PTP_INIT_INCVAL \<Rightarrow> Some (H ''GLTSYN_CMD_INIT_INCVAL'')
            | ICE_PTP_ADJ_TIME \<Rightarrow> Some (H ''GLTSYN_CMD_ADJ_TIME'')
            | ICE_PTP_ADJ_TIME_AT_TIME \<Rightarrow> Some (H ''GLTSYN_CMD_ADJ_INIT_TIME'')
            | ICE_PTP_READ_TIME \<Rightarrow> Some (H ''GLTSYN_CMD_READ_TIME'')
            | _ \<Rightarrow> None) of
        None \<Rightarrow> (- EINVAL, hw)
      | Some cmd_val \<Rightarrow>
     (case ice_read_phy_reg_e810_lp hw eth_gltsyn_cmd_addr lock_sbq of
        (Inl status, hw1) \<Rightarrow> (status, hw1)
      | (Inr val, hw1) \<Rightarrow>
     (case ice_write_phy_reg_e810_lp hw1 eth_gltsyn_cmd_addr
             ((val AND NOT (H ''TS_CMD_MASK_E810'')) OR cmd_val) lock_sbq of
        (status, hw2) \<Rightarrow>
     if status \<noteq> 0 then (status, hw2) else (0, hw2))))"

definition ice_ptp_port_cmd_e810 ::
  "macros \<Rightarrow> ice_hw \<Rightarrow> ice_ptp_tmr_cmd \<Rightarrow> bool \<Rightarrow> int \<times> ice_hw" where
  "ice_ptp_port_cmd_e810 H hw cmd lock_sbq = ice_ptp_port_cmd H hw cmd lock_sbq E810_ETH_GLTSYN_CMD"

text \<open>
  \<^verbatim>\<open>ice_ptp_tmr_cmd\<close>. Its switch on the PHY model, which stages the command in the ports,
  is \<open>tmr_cmd_prepare_ports\<close>.
\<close>

definition tmr_cmd_prepare_ports ::
  "macros \<Rightarrow> ice_hw \<Rightarrow> ice_ptp_tmr_cmd \<Rightarrow> bool \<Rightarrow> int \<times> ice_hw" where
  "tmr_cmd_prepare_ports H hw cmd lock_sbq =
     (case phy_model hw of
        ICE_PHY_ETH56G \<Rightarrow> ice_ptp_port_cmd_eth56g H hw cmd lock_sbq
      | ICE_PHY_E810 \<Rightarrow> ice_ptp_port_cmd_e810 H hw cmd lock_sbq
      | ICE_PHY_E822 \<Rightarrow> ice_ptp_port_cmd_e822 H hw cmd lock_sbq
      | _ \<Rightarrow> (- EOPNOTSUPP, hw))"

definition ice_ptp_tmr_cmd ::
  "macros \<Rightarrow> ice_hw \<Rightarrow> ice_ptp_tmr_cmd \<Rightarrow> bool \<Rightarrow> int \<times> ice_hw" where
  "ice_ptp_tmr_cmd H hw cmd lock_sbq =
     (let hw1 = ice_ptp_src_cmd H hw cmd in
      case tmr_cmd_prepare_ports H hw1 cmd lock_sbq of (status, hw2) \<Rightarrow>
        if status \<noteq> 0 then (status, hw2)
        else (0, ice_ptp_clean_cmd (ice_ptp_exec_tmr_cmd H hw2)))"

definition ice_ptp_one_port_cmd ::
  "macros \<Rightarrow> ice_hw \<Rightarrow> u8 \<Rightarrow> ice_ptp_tmr_cmd \<Rightarrow> bool \<Rightarrow> int \<times> ice_hw" where
  "ice_ptp_one_port_cmd H hw port cmd lock_sbq =
     (case phy_model hw of
        ICE_PHY_ETH56G \<Rightarrow> ice_ptp_one_port_cmd_eth56g H hw port ICE_PTP_READ_TIME True
      | ICE_PHY_E822 \<Rightarrow> ice_ptp_one_port_cmd_e822 H hw port ICE_PTP_READ_TIME True
      | _ \<Rightarrow> (- EOPNOTSUPP, hw))"

section \<open>The global PTP semaphore\<close>

text \<open>
  \<^verbatim>\<open>ice_ptp_lock\<close>: \<open>lock_tries n\<close> is the loop with \<open>n\<close> of the \<^verbatim>\<open>MAX_TRIES\<close> iterations
  left. When none is left every read has shown the busy bit, so \<^verbatim>\<open>!hw_lock\<close> is false.
\<close>

definition MAX_TRIES :: nat where "MAX_TRIES = 15"

fun lock_tries :: "macros \<Rightarrow> nat \<Rightarrow> ice_hw \<Rightarrow> bool \<times> ice_hw" where
  "lock_tries H 0 hw = (False, hw)"
| "lock_tries H (Suc n) hw =
     (case rd32 hw (PFTSYN_SEM (pf_id hw)) of (hw_lock, hw1) \<Rightarrow>
        if hw_lock AND H ''PFTSYN_SEM_BUSY_M'' = 0 then (True, hw1)
        else lock_tries H n (usleep_range hw1 5000 6000))"

definition ice_ptp_lock :: "macros \<Rightarrow> ice_hw \<Rightarrow> bool \<times> ice_hw" where
  "ice_ptp_lock H hw = lock_tries H MAX_TRIES hw"

definition ice_ptp_unlock :: "ice_hw \<Rightarrow> ice_hw" where
  "ice_ptp_unlock hw = wr32 hw (PFTSYN_SEM (pf_id hw)) 0"


section \<open>Timestamps of the PHY blocks\<close>

definition ice_read_phy_tstamp_eth56g ::
  "macros \<Rightarrow> ice_hw \<Rightarrow> u8 \<Rightarrow> u8 \<Rightarrow> (int + u64) \<times> ice_hw" where
  "ice_read_phy_tstamp_eth56g H hw port idx =
     (case ice_phy_port_mem_read_eth56g hw port (PHY_TSTAMP_L idx) of
        (Inl status, hw1) \<Rightarrow> (Inl status, hw1)
      | (Inr lo, hw1) \<Rightarrow>
     (case ice_phy_port_mem_read_eth56g hw1 port (PHY_TSTAMP_U idx) of
        (Inl status, hw2) \<Rightarrow> (Inl status, hw2)
      | (Inr hi, hw2) \<Rightarrow>
          (Inr (push_bit (unat (H ''TS_PHY_HIGH_S'')) (ucast hi :: u64) OR
                ((ucast lo :: u64) AND ucast (H ''TS_PHY_LOW_M''))), hw2)))"

text \<open>
  \<^verbatim>\<open>ice_clear_phy_tstamp_eth56g\<close> only logs a failure of the read and goes on to the write.
\<close>

definition ice_clear_phy_tstamp_eth56g :: "macros \<Rightarrow> ice_hw \<Rightarrow> u8 \<Rightarrow> u8 \<Rightarrow> int \<times> ice_hw" where
  "ice_clear_phy_tstamp_eth56g H hw port idx =
     (case ice_read_phy_tstamp_eth56g H hw port idx of (unused_tstamp, hw1) \<Rightarrow>
      case ice_phy_port_mem_write_eth56g hw1 port (PHY_TSTAMP_L idx) 0 of (status, hw2) \<Rightarrow>
        if status \<noteq> 0 then (status, hw2) else (0, hw2))"

definition ice_read_phy_tstamp_e822 ::
  "macros \<Rightarrow> ice_hw \<Rightarrow> u8 \<Rightarrow> u8 \<Rightarrow> (int + u64) \<times> ice_hw" where
  "ice_read_phy_tstamp_e822 H hw quad idx =
     (case ice_read_quad_reg_e822 H hw quad (TS_L idx) of
        (Inl status, hw1) \<Rightarrow> (Inl status, hw1)
      | (Inr lo, hw1) \<Rightarrow>
     (case ice_read_quad_reg_e822 H hw1 quad (TS_H idx) of
        (Inl status, hw2) \<Rightarrow> (Inl status, hw2)
      | (Inr hi, hw2) \<Rightarrow>
          (Inr (push_bit (unat (H ''TS_PHY_HIGH_S'')) (ucast hi :: u64) OR
                ((ucast lo :: u64) AND ucast (H ''TS_PHY_LOW_M''))), hw2)))"

definition ice_clear_phy_tstamp_e822 :: "macros \<Rightarrow> ice_hw \<Rightarrow> u8 \<Rightarrow> u8 \<Rightarrow> int \<times> ice_hw" where
  "ice_clear_phy_tstamp_e822 H hw quad idx =
     (case ice_read_phy_tstamp_e822 H hw quad idx of
        (Inl status, hw1) \<Rightarrow> (status, hw1)
      | (Inr unused_tstamp, hw1) \<Rightarrow> (0, hw1))"

text \<open>
  \<^verbatim>\<open>ice_read_phy_tstamp_ll_e810\<close>: \<open>ll_read_tries n\<close> is the polling loop with \<open>n\<close>
  iterations left; the loop counter is a \<^verbatim>\<open>u8\<close> that starts at \<^verbatim>\<open>TS_LL_READ_RETRIES\<close>.
  The result is the pair \<^verbatim>\<open>(hi, lo)\<close>.
\<close>

fun ll_read_tries :: "macros \<Rightarrow> nat \<Rightarrow> ice_hw \<Rightarrow> (int + u8 \<times> u32) \<times> ice_hw" where
  "ll_read_tries H 0 hw = (Inl (- EBUSY), hw)"
| "ll_read_tries H (Suc n) hw =
     (case rd32 hw PF_SB_ATQBAL of (val, hw1) \<Rightarrow>
        if val AND H ''TS_LL_READ_TS'' = 0 then
          (case rd32 hw1 PF_SB_ATQBAH of (lo, hw2) \<Rightarrow>
             (Inr (ucast (drop_bit (unat (H ''TS_LL_READ_TS_HIGH_S'')) val) :: u8,
                   lo OR H ''TS_VALID''), hw2))
        else ll_read_tries H n (udelay hw1 10))"

definition ice_read_phy_tstamp_ll_e810 ::
  "ice_tables \<Rightarrow> macros \<Rightarrow> ice_hw \<Rightarrow> u8 \<Rightarrow> (int + u8 \<times> u32) \<times> ice_hw" where
  "ice_read_phy_tstamp_ll_e810 T H hw idx =
     ll_read_tries H (unat (ucast (H ''TS_LL_READ_RETRIES'') :: u8))
       (wr32 hw PF_SB_ATQBAL (TS_LL_READ_TS_IDX T idx))"

definition ice_read_phy_tstamp_sbq_e810 ::
  "ice_hw \<Rightarrow> u8 \<Rightarrow> u8 \<Rightarrow> (int + u8 \<times> u32) \<times> ice_hw" where
  "ice_read_phy_tstamp_sbq_e810 hw lport idx =
     (case ice_read_phy_reg_e810 hw (TS_EXT_LOW lport idx) of
        (Inl status, hw1) \<Rightarrow> (Inl status, hw1)
      | (Inr lo_val, hw1) \<Rightarrow>
     (case ice_read_phy_reg_e810 hw1 (TS_EXT_HIGH lport idx) of
        (Inl status, hw2) \<Rightarrow> (Inl status, hw2)
      | (Inr hi_val, hw2) \<Rightarrow> (Inr (ucast hi_val :: u8, lo_val), hw2)))"

definition ice_read_phy_tstamp_e810 ::
  "ice_tables \<Rightarrow> macros \<Rightarrow> ice_hw \<Rightarrow> u8 \<Rightarrow> u8 \<Rightarrow> (int + u64) \<times> ice_hw" where
  "ice_read_phy_tstamp_e810 T H hw lport idx =
     (case (if ts_ll_read hw then ice_read_phy_tstamp_ll_e810 T H hw idx
            else ice_read_phy_tstamp_sbq_e810 hw lport idx) of
        (Inl status, hw1) \<Rightarrow> (Inl status, hw1)
      | (Inr (hi, lo), hw1) \<Rightarrow>
          (Inr (push_bit (unat (H ''TS_HIGH_S'')) (ucast hi :: u64) OR
                ((ucast lo :: u64) AND ucast (H ''TS_LOW_M''))), hw1))"

definition ice_clear_phy_tstamp_e810 ::
  "ice_tables \<Rightarrow> macros \<Rightarrow> ice_hw \<Rightarrow> u8 \<Rightarrow> u8 \<Rightarrow> int \<times> ice_hw" where
  "ice_clear_phy_tstamp_e810 T H hw lport idx =
     (case ice_read_phy_tstamp_e810 T H hw lport idx of
        (Inl status, hw1) \<Rightarrow> (status, hw1)
      | (Inr unused_tstamp, hw1) \<Rightarrow>
     (case ice_write_phy_reg_e810 hw1 (TS_EXT_LOW lport idx) 0 of (status, hw2) \<Rightarrow>
     if status \<noteq> 0 then (status, hw2) else
     (case ice_write_phy_reg_e810 hw2 (TS_EXT_HIGH lport idx) 0 of (status, hw3) \<Rightarrow>
     if status \<noteq> 0 then (status, hw3) else (0, hw3))))"

definition ice_clear_phy_tstamp ::
  "ice_tables \<Rightarrow> macros \<Rightarrow> ice_hw \<Rightarrow> u8 \<Rightarrow> u8 \<Rightarrow> int \<times> ice_hw" where
  "ice_clear_phy_tstamp T H hw block idx =
     (case phy_model hw of
        ICE_PHY_ETH56G \<Rightarrow> ice_clear_phy_tstamp_eth56g H hw block idx
      | ICE_PHY_E810 \<Rightarrow> ice_clear_phy_tstamp_e810 T H hw block idx
      | ICE_PHY_E822 \<Rightarrow> ice_clear_phy_tstamp_e822 H hw block idx
      | _ \<Rightarrow> (- EOPNOTSUPP, hw))"


section \<open>Vernier offsets\<close>

subsection \<open>E822\<close>

text \<open>
  \<^verbatim>\<open>ice_phy_get_speed_and_fec_e822\<close>. The FEC mode is kept as the number the macro
  \<^verbatim>\<open>P_REG_LINK_SPEED_FEC_MODE\<close> extracts. \<open>link_spd_of_serdes\<close> is the pair of switches on
  the serdes mode; \<open>None\<close> is their \<^verbatim>\<open>default:\<close> branch, which returns \<^verbatim>\<open>-EIO\<close>.
\<close>

definition link_spd_of_serdes :: "macros \<Rightarrow> u32 \<Rightarrow> u32 \<Rightarrow> ice_ptp_link_spd option" where
  "link_spd_of_serdes H fec serdes =
     (if fec = H ''ICE_PTP_FEC_MODE_RS_FEC'' then
        (if serdes = H ''ICE_PTP_SERDES_25G'' then Some ICE_PTP_LNK_SPD_25G_RS
         else if serdes = H ''ICE_PTP_SERDES_50G'' then Some ICE_PTP_LNK_SPD_50G_RS
         else if serdes = H ''ICE_PTP_SERDES_100G'' then Some ICE_PTP_LNK_SPD_100G_RS
         else None)
      else
        (if serdes = H ''ICE_PTP_SERDES_1G'' then Some ICE_PTP_LNK_SPD_1G
         else if serdes = H ''ICE_PTP_SERDES_10G'' then Some ICE_PTP_LNK_SPD_10G
         else if serdes = H ''ICE_PTP_SERDES_25G'' then Some ICE_PTP_LNK_SPD_25G
         else if serdes = H ''ICE_PTP_SERDES_40G'' then Some ICE_PTP_LNK_SPD_40G
         else if serdes = H ''ICE_PTP_SERDES_50G'' then Some ICE_PTP_LNK_SPD_50G
         else None))"

definition ice_phy_get_speed_and_fec_e822 ::
  "ice_tables \<Rightarrow> macros \<Rightarrow> ice_hw \<Rightarrow> u8 \<Rightarrow> (int + ice_ptp_link_spd \<times> u32) \<times> ice_hw" where
  "ice_phy_get_speed_and_fec_e822 T H hw port =
     (case ice_read_phy_reg_e822 hw port P_REG_LINK_SPEED of
        (Inl status, hw1) \<Rightarrow> (Inl status, hw1)
      | (Inr serdes, hw1) \<Rightarrow>
          (let fec = P_REG_LINK_SPEED_FEC_MODE T serdes;
               serdes = serdes AND H ''P_REG_LINK_SPEED_SERDES_M''
           in case link_spd_of_serdes H fec serdes of
                None \<Rightarrow> (Inl (- EIO), hw1)
              | Some link \<Rightarrow> (Inr (link, fec), hw1)))"

definition ice_phy_cfg_tx_offset_e822 ::
  "ice_tables \<Rightarrow> macros \<Rightarrow> ice_hw \<Rightarrow> u8 \<Rightarrow> int \<times> ice_hw" where
  "ice_phy_cfg_tx_offset_e822 T H hw port =
     (case ice_read_phy_reg_e822 hw port P_REG_TX_OR of
        (Inl status, hw1) \<Rightarrow> (status, hw1)
      | (Inr reg, hw1) \<Rightarrow>
     if reg \<noteq> 0 then (0, hw1) else
     (case ice_read_phy_reg_e822 hw1 port P_REG_TX_OV_STATUS of
        (Inl status, hw2) \<Rightarrow> (status, hw2)
      | (Inr reg, hw2) \<Rightarrow>
     if reg AND H ''P_REG_TX_OV_STATUS_OV_M'' = 0 then (- EBUSY, hw2) else
     (case ice_phy_get_speed_and_fec_e822 T H hw2 port of
        (Inl status, hw3) \<Rightarrow> (status, hw3)
      | (Inr (link_spd, fec_mode), hw3) \<Rightarrow>
     (case ice_calc_fixed_tx_offset_e822 T H hw3 link_spd of (total_offset, hw4) \<Rightarrow>
     (case (if link_spd = ICE_PTP_LNK_SPD_1G \<or> link_spd = ICE_PTP_LNK_SPD_10G \<or>
               link_spd = ICE_PTP_LNK_SPD_25G \<or> link_spd = ICE_PTP_LNK_SPD_25G_RS \<or>
               link_spd = ICE_PTP_LNK_SPD_40G \<or> link_spd = ICE_PTP_LNK_SPD_50G
            then (case ice_read_64b_phy_reg_e822 hw4 port (REG64_L P_REG_PAR_PCS_TX_OFFSET) of
                    (Inl status, hw5) \<Rightarrow> (Inl status, hw5)
                  | (Inr val, hw5) \<Rightarrow> (Inr (total_offset + val), hw5))
            else (Inr total_offset, hw4)) of
        (Inl status, hw5) \<Rightarrow> (status, hw5)
      | (Inr total_offset, hw5) \<Rightarrow>
     (case (if link_spd = ICE_PTP_LNK_SPD_50G_RS \<or> link_spd = ICE_PTP_LNK_SPD_100G_RS
            then (case ice_read_64b_phy_reg_e822 hw5 port (REG64_L P_REG_PAR_TX_TIME) of
                    (Inl status, hw6) \<Rightarrow> (Inl status, hw6)
                  | (Inr val, hw6) \<Rightarrow> (Inr (total_offset + val), hw6))
            else (Inr total_offset, hw5)) of
        (Inl status, hw6) \<Rightarrow> (status, hw6)
      | (Inr total_offset, hw6) \<Rightarrow>
     (case ice_write_64b_phy_reg_e822 hw6 port (REG64_L P_REG_TOTAL_TX_OFFSET) total_offset of
        (status, hw7) \<Rightarrow>
     if status \<noteq> 0 then (status, hw7) else
     (case ice_write_phy_reg_e822 hw7 port P_REG_TX_OR 1 of (status, hw8) \<Rightarrow>
     if status \<noteq> 0 then (status, hw8) else (0, hw8)))))))))"

text \<open>
  \<^verbatim>\<open>ice_phy_calc_pmd_adj_e822\<close>. \<open>pmd_mult\<close> is its chain of tests on the link speed, which
  gives the multiplier from the PMD alignment counter; \<open>pmd_scale\<close> is the staged
  computation \<^verbatim>\<open>div64_u64(tu_per_sec, 125) * mult / pmd_adj_divisor\<close>. The arithmetic on
  the \<^verbatim>\<open>u8\<close> counters is C \<^verbatim>\<open>int\<close> arithmetic, converted to \<^verbatim>\<open>u64\<close> on assignment.
  The local \<^verbatim>\<open>pmd_adj_divisor\<close> is \<open>divisor\<close> here.
\<close>

definition pmd_mult :: "macros \<Rightarrow> ice_ptp_link_spd \<Rightarrow> u32 \<Rightarrow> u8 \<Rightarrow> u64" where
  "pmd_mult H link_spd fec_mode pmd_align =
     (if link_spd = ICE_PTP_LNK_SPD_1G then
        (if pmd_align = 4 then 10 else of_nat ((unat pmd_align + 6) mod 10))
      else if link_spd = ICE_PTP_LNK_SPD_10G \<or> link_spd = ICE_PTP_LNK_SPD_25G \<or>
              link_spd = ICE_PTP_LNK_SPD_40G \<or> link_spd = ICE_PTP_LNK_SPD_50G then
        (if pmd_align \<noteq> 65 \<or> fec_mode = H ''ICE_PTP_FEC_MODE_CLAUSE74''
         then ucast pmd_align else 0)
      else if link_spd = ICE_PTP_LNK_SPD_25G_RS \<or> link_spd = ICE_PTP_LNK_SPD_50G_RS \<or>
              link_spd = ICE_PTP_LNK_SPD_100G_RS then
        (if pmd_align < 17 then of_nat (unat pmd_align + 40) else ucast pmd_align)
      else 0)"

definition pmd_scale :: "u64 \<Rightarrow> u64 \<Rightarrow> u32 \<Rightarrow> u64" where
  "pmd_scale tu_per_sec mult divisor =
     div64_u64 (div64_u64 tu_per_sec 125 * mult) (ucast divisor)"

definition ice_phy_calc_pmd_adj_e822 ::
  "ice_tables \<Rightarrow> macros \<Rightarrow> ice_hw \<Rightarrow> u8 \<Rightarrow> ice_ptp_link_spd \<Rightarrow> u32 \<Rightarrow> (int + u64) \<times> ice_hw" where
  "ice_phy_calc_pmd_adj_e822 T H hw port link_spd fec_mode =
     (case ice_read_phy_reg_e822 hw port P_REG_PMD_ALIGNMENT of
        (Inl status, hw1) \<Rightarrow> (Inl status, hw1)
      | (Inr val, hw1) \<Rightarrow>
     (let pmd_align = (ucast val :: u8);
          cur_freq = ice_e822_pll_freq T (time_ref hw1)
      in case ice_ptp_read_src_incval H hw1 of (clk_incval, hw2) \<Rightarrow>
     (let tu_per_sec = cur_freq * clk_incval;
          divisor = pmd_adj_divisor (e822_vernier T link_spd);
          mult = pmd_mult H link_spd fec_mode pmd_align
      in
     if mult = 0 then (Inr 0, hw2) else
     (let adj = pmd_scale tu_per_sec mult divisor in
     if link_spd = ICE_PTP_LNK_SPD_25G_RS then
       (case ice_read_phy_reg_e822 hw2 port P_REG_RX_40_TO_160_CNT of
          (Inl status, hw3) \<Rightarrow> (Inl status, hw3)
        | (Inr val, hw3) \<Rightarrow>
            (let rx_cycle = (ucast (val AND H ''P_REG_RX_40_TO_160_CNT_RXCYC_M'') :: u8) in
             if rx_cycle \<noteq> 0 then
               (let mult = (word_of_int ((4 - uint rx_cycle) * 40) :: u64);
                    cycle_adj = pmd_scale tu_per_sec mult divisor
                in (Inr (adj + cycle_adj), hw3))
             else (Inr adj, hw3)))
     else if link_spd = ICE_PTP_LNK_SPD_50G_RS then
       (case ice_read_phy_reg_e822 hw2 port P_REG_RX_80_TO_160_CNT of
          (Inl status, hw3) \<Rightarrow> (Inl status, hw3)
        | (Inr val, hw3) \<Rightarrow>
            (let rx_cycle = (ucast (val AND H ''P_REG_RX_80_TO_160_CNT_RXCYC_M'') :: u8) in
             if rx_cycle \<noteq> 0 then
               (let mult = (of_nat (unat rx_cycle * 40) :: u64);
                    cycle_adj = pmd_scale tu_per_sec mult divisor
                in (Inr (adj + cycle_adj), hw3))
             else (Inr adj, hw3)))
     else (Inr adj, hw2)))))"

definition ice_phy_cfg_rx_offset_e822 ::
  "ice_tables \<Rightarrow> macros \<Rightarrow> ice_hw \<Rightarrow> u8 \<Rightarrow> int \<times> ice_hw" where
  "ice_phy_cfg_rx_offset_e822 T H hw port =
     (case ice_read_phy_reg_e822 hw port P_REG_RX_OR of
        (Inl status, hw1) \<Rightarrow> (status, hw1)
      | (Inr reg, hw1) \<Rightarrow>
     if reg \<noteq> 0 then (0, hw1) else
     (case ice_read_phy_reg_e822 hw1 port P_REG_RX_OV_STATUS of
        (Inl status, hw2) \<Rightarrow> (status, hw2)
      | (Inr reg, hw2) \<Rightarrow>
     if reg AND H ''P_REG_RX_OV_STATUS_OV_M'' = 0 then (- EBUSY, hw2) else
     (case ice_phy_get_speed_and_fec_e822 T H hw2 port of
        (Inl status, hw3) \<Rightarrow> (status, hw3)
      | (Inr (link_spd, fec_mode), hw3) \<Rightarrow>
     (case ice_calc_fixed_rx_offset_e822 T H hw3 link_spd of (total_offset, hw4) \<Rightarrow>
     (case ice_read_64b_phy_reg_e822 hw4 port (REG64_L P_REG_PAR_PCS_RX_OFFSET) of
        (Inl status, hw5) \<Rightarrow> (status, hw5)
      | (Inr val, hw5) \<Rightarrow>
     (let total_offset = total_offset + val in
     (case (if link_spd = ICE_PTP_LNK_SPD_40G \<or> link_spd = ICE_PTP_LNK_SPD_50G \<or>
               link_spd = ICE_PTP_LNK_SPD_50G_RS \<or> link_spd = ICE_PTP_LNK_SPD_100G_RS
            then (case ice_read_64b_phy_reg_e822 hw5 port (REG64_L P_REG_PAR_RX_TIME) of
                    (Inl status, hw6) \<Rightarrow> (Inl status, hw6)
                  | (Inr val, hw6) \<Rightarrow> (Inr (total_offset + val), hw6))
            else (Inr total_offset, hw5)) of
        (Inl status, hw6) \<Rightarrow> (status, hw6)
      | (Inr total_offset, hw6) \<Rightarrow>
     (case ice_phy_calc_pmd_adj_e822 T H hw6 port link_spd fec_mode of
        (Inl status, hw7) \<Rightarrow> (status, hw7)
      | (Inr pmd, hw7) \<Rightarrow>
     (let total_offset =
            (if fec_mode = H ''ICE_PTP_FEC_MODE_RS_FEC'' then total_offset + pmd
             else total_offset - pmd)
      in
     (case ice_write_64b_phy_reg_e822 hw7 port (REG64_L P_REG_TOTAL_RX_OFFSET) total_offset of
        (status, hw8) \<Rightarrow>
     if status \<noteq> 0 then (status, hw8) else
     (case ice_write_phy_reg_e822 hw8 port P_REG_RX_OR 1 of (status, hw9) \<Rightarrow>
     if status \<noteq> 0 then (status, hw9) else (0, hw9))))))))))))"

subsection \<open>ETH56G\<close>

definition ice_calc_fixed_tx_offset_eth56g :: "ice_hw \<Rightarrow> ice_ptp_link_spd \<Rightarrow> u64" where
  "ice_calc_fixed_tx_offset_eth56g hw link_spd = 0"

definition ice_phy_cfg_tx_offset_eth56g :: "ice_hw \<Rightarrow> u8 \<Rightarrow> int \<times> ice_hw" where
  "ice_phy_cfg_tx_offset_eth56g hw port =
     (let link_spd = ICE_PTP_LNK_SPD_10G;
          total_offset = ice_calc_fixed_tx_offset_eth56g hw link_spd
      in case ice_write_64b_phy_reg_eth56g hw port (PHY_REG64_L PHY_REG_TOTAL_TX_OFFSET)
                total_offset of (status, hw1) \<Rightarrow>
         if status \<noteq> 0 then (status, hw1)
         else ice_write_phy_reg_eth56g hw1 port PHY_REG_TX_OFFSET_READY 1)"

definition ice_calc_fixed_rx_offset_eth56g :: "ice_hw \<Rightarrow> nat \<Rightarrow> u64" where
  "ice_calc_fixed_rx_offset_eth56g hw link_spd = 0"

definition ice_phy_cfg_rx_offset_eth56g :: "ice_hw \<Rightarrow> u8 \<Rightarrow> int \<times> ice_hw" where
  "ice_phy_cfg_rx_offset_eth56g hw port =
     (let total_offset = ice_calc_fixed_rx_offset_eth56g hw 0
      in case ice_write_64b_phy_reg_eth56g hw port (PHY_REG64_L PHY_REG_TOTAL_RX_OFFSET)
                total_offset of (status, hw1) \<Rightarrow>
         if status \<noteq> 0 then (status, hw1)
         else ice_write_phy_reg_eth56g hw1 port PHY_REG_RX_OFFSET_READY 1)"


section \<open>The PLL of the clock generation unit\<close>

definition ice_read_cgu_reg_e82x :: "ice_hw \<Rightarrow> cgu_reg \<Rightarrow> (int + u32) \<times> ice_hw" where
  "ice_read_cgu_reg_e82x hw addr = sbq_read hw (CGU addr) True"

definition ice_write_cgu_reg_e82x :: "ice_hw \<Rightarrow> cgu_reg \<Rightarrow> u32 \<Rightarrow> int \<times> ice_hw" where
  "ice_write_cgu_reg_e82x hw addr val = sbq_write hw (CGU addr) val True"

text \<open>
  \<^verbatim>\<open>ice_cfg_cgu_pll_e822\<close> and \<^verbatim>\<open>ice_cfg_cgu_pll_e825c\<close>. The two enum pointers are passed
  as the values they point to; the result carries the status and the values the pointers
  hold on return. The local unions are the variables \<open>dw9\<close>, \<open>dw19\<close>, \<open>dw22\<close>, \<open>dw23\<close>,
  \<open>dw24\<close>, \<open>bwm_lf\<close> and \<open>ro_lock\<close>, each the \<^verbatim>\<open>val\<close> of its union.
\<close>

definition ice_cfg_cgu_pll_e822 ::
  "ice_tables \<Rightarrow> macros \<Rightarrow> ice_hw \<Rightarrow> u32 \<Rightarrow> u32 \<Rightarrow> (int \<times> u32 \<times> u32) \<times> ice_hw" where
  "ice_cfg_cgu_pll_e822 T H hw clk_freq clk_src =
     (if clk_freq \<ge> H ''NUM_ICE_TIME_REF_FREQ'' then ((- EINVAL, clk_freq, clk_src), hw)
      else if clk_src \<ge> H ''NUM_ICE_CLK_SRC'' then ((- EINVAL, clk_freq, clk_src), hw)
      else if clk_src = H ''ICE_CLK_SRC_TCX0'' \<and> clk_freq \<noteq> H ''ICE_TIME_REF_FREQ_25_000''
        then ((- EINVAL, clk_freq, clk_src), hw)
      else
     (case ice_read_cgu_reg_e82x hw NAC_CGU_DWORD9 of
        (Inl status, hw1) \<Rightarrow> ((status, clk_freq, clk_src), hw1)
      | (Inr dw9, hw1) \<Rightarrow>
     (case ice_read_cgu_reg_e82x hw1 NAC_CGU_DWORD24 of
        (Inl status, hw2) \<Rightarrow> ((status, clk_freq, clk_src), hw2)
      | (Inr dw24, hw2) \<Rightarrow>
     (case ice_read_cgu_reg_e82x hw2 TSPLL_RO_BWM_LF of
        (Inl status, hw3) \<Rightarrow> ((status, clk_freq, clk_src), hw3)
      | (Inr bwm_lf, hw3) \<Rightarrow>
     (case (if field_get T ''dw24.ts_pll_enable'' dw24 \<noteq> 0 then
              (let dw24 = field_set T ''dw24.ts_pll_enable'' dw24 0 in
               case ice_write_cgu_reg_e82x hw3 NAC_CGU_DWORD24 dw24 of
                 (status, hw4) \<Rightarrow> (status, dw24, hw4))
            else (0, dw24, hw3)) of (status, dw24, hw5) \<Rightarrow>
     if status \<noteq> 0 then ((status, clk_freq, clk_src), hw5) else
     (let
          dw9 = field_set T ''dw9.time_ref_freq_sel'' dw9 clk_freq
      in
     (case ice_write_cgu_reg_e82x hw5 NAC_CGU_DWORD9 dw9 of (status, hw6) \<Rightarrow>
     if status \<noteq> 0 then ((status, clk_freq, clk_src), hw6) else
     (case ice_read_cgu_reg_e82x hw6 NAC_CGU_DWORD19 of
        (Inl status, hw7) \<Rightarrow> ((status, clk_freq, clk_src), hw7)
      | (Inr dw19, hw7) \<Rightarrow>
     (let
          dw19 = field_set T ''dw19.tspll_fbdiv_intgr'' dw19 (feedback_div (e822_cgu_params T clk_freq));
          dw19 = field_set T ''dw19.tspll_ndivratio'' dw19 1
      in
     (case ice_write_cgu_reg_e82x hw7 NAC_CGU_DWORD19 dw19 of (status, hw8) \<Rightarrow>
     if status \<noteq> 0 then ((status, clk_freq, clk_src), hw8) else
     (case ice_read_cgu_reg_e82x hw8 NAC_CGU_DWORD22 of
        (Inl status, hw9) \<Rightarrow> ((status, clk_freq, clk_src), hw9)
      | (Inr dw22, hw9) \<Rightarrow>
     (let
          dw22 = field_set T ''dw22.time1588clk_div'' dw22 (post_pll_div (e822_cgu_params T clk_freq));
          dw22 = field_set T ''dw22.time1588clk_sel_div2'' dw22 0
      in
     (case ice_write_cgu_reg_e82x hw9 NAC_CGU_DWORD22 dw22 of (status, hw10) \<Rightarrow>
     if status \<noteq> 0 then ((status, clk_freq, clk_src), hw10) else
     (case ice_read_cgu_reg_e82x hw10 NAC_CGU_DWORD24 of
        (Inl status, hw11) \<Rightarrow> ((status, clk_freq, clk_src), hw11)
      | (Inr dw24, hw11) \<Rightarrow>
     (let
          dw24 = field_set T ''dw24.ref1588_ck_div'' dw24 (refclk_pre_div (e822_cgu_params T clk_freq));
          dw24 = field_set T ''dw24.tspll_fbdiv_frac'' dw24 (frac_n_div (e822_cgu_params T clk_freq));
          dw24 = field_set T ''dw24.time_ref_sel'' dw24 clk_src
      in
     (case ice_write_cgu_reg_e82x hw11 NAC_CGU_DWORD24 dw24 of (status, hw12) \<Rightarrow>
     if status \<noteq> 0 then ((status, clk_freq, clk_src), hw12) else
     (let
          dw24 = field_set T ''dw24.ts_pll_enable'' dw24 1
      in
     (case ice_write_cgu_reg_e82x hw12 NAC_CGU_DWORD24 dw24 of (status, hw13) \<Rightarrow>
     if status \<noteq> 0 then ((status, clk_freq, clk_src), hw13) else
     (case ice_read_cgu_reg_e82x (msleep hw13 1) TSPLL_RO_BWM_LF of
        (Inl status, hw14) \<Rightarrow> ((status, clk_freq, clk_src), hw14)
      | (Inr bwm_lf, hw14) \<Rightarrow>
     if field_get T ''bwm_lf.plllock_true_lock_cri'' bwm_lf = 0
     then ((- EBUSY, clk_freq, clk_src), hw14)
     else ((0, field_get T ''dw9.time_ref_freq_sel'' dw9,
               field_get T ''dw24.time_ref_sel'' dw24), hw14))))))))))))))))))))"

definition ice_cfg_cgu_pll_e825c ::
  "ice_tables \<Rightarrow> macros \<Rightarrow> ice_hw \<Rightarrow> u32 \<Rightarrow> u32 \<Rightarrow> (int \<times> u32 \<times> u32) \<times> ice_hw" where
  "ice_cfg_cgu_pll_e825c T H hw clk_freq clk_src =
     (if clk_freq \<ge> H ''NUM_ICE_TIME_REF_FREQ'' then ((- EINVAL, clk_freq, clk_src), hw)
      else if clk_src \<ge> H ''NUM_ICE_CLK_SRC'' then ((- EINVAL, clk_freq, clk_src), hw)
      else if clk_src = H ''ICE_CLK_SRC_TCX0'' \<and> clk_freq \<noteq> H ''ICE_TIME_REF_FREQ_25_000''
        then ((- EINVAL, clk_freq, clk_src), hw)
      else
     (case ice_read_cgu_reg_e82x hw NAC_CGU_DWORD9 of
        (Inl status, hw1) \<Rightarrow> ((status, clk_freq, clk_src), hw1)
      | (Inr dw9, hw1) \<Rightarrow>
     (case ice_read_cgu_reg_e82x hw1 NAC_CGU_DWORD24 of
        (Inl status, hw2) \<Rightarrow> ((status, clk_freq, clk_src), hw2)
      | (Inr dw24, hw2) \<Rightarrow>
     (case ice_read_cgu_reg_e82x hw2 NAC_CGU_DWORD23_E825C of
        (Inl status, hw3) \<Rightarrow> ((status, clk_freq, clk_src), hw3)
      | (Inr dw23, hw3) \<Rightarrow>
     (case ice_read_cgu_reg_e82x hw3 TSPLL_RO_LOCK_E825C of
        (Inl status, hw4) \<Rightarrow> ((status, clk_freq, clk_src), hw4)
      | (Inr ro_lock, hw4) \<Rightarrow>
     (case (if field_get T ''dw23.ts_pll_enable'' dw23 \<noteq> 0 then
              (let dw23 = field_set T ''dw23.ts_pll_enable'' dw23 0 in
               case ice_write_cgu_reg_e82x hw4 NAC_CGU_DWORD23_E825C dw23 of
                 (status, hw5) \<Rightarrow> (status, dw23, hw5))
            else (0, dw23, hw4)) of (status, dw23, hw5) \<Rightarrow>
     if status \<noteq> 0 then ((status, clk_freq, clk_src), hw5) else
     (let
          dw9 = field_set T ''dw9.time_ref_freq_sel'' dw9 clk_freq
      in
     (case ice_write_cgu_reg_e82x hw5 NAC_CGU_DWORD9 dw9 of (status, hw6) \<Rightarrow>
     if status \<noteq> 0 then ((status, clk_freq, clk_src), hw6) else
     (case ice_read_cgu_reg_e82x hw6 NAC_CGU_DWORD19 of
        (Inl status, hw7) \<Rightarrow> ((status, clk_freq, clk_src), hw7)
      | (Inr dw19, hw7) \<Rightarrow>
     (let
          dw19 = field_set T ''dw19.tspll_fbdiv_intgr'' dw19 (feedback_div (e822_cgu_params T clk_freq));
          dw19 = field_set T ''dw19.tspll_ndivratio'' dw19 1
      in
     (case ice_write_cgu_reg_e82x hw7 NAC_CGU_DWORD19 dw19 of (status, hw8) \<Rightarrow>
     if status \<noteq> 0 then ((status, clk_freq, clk_src), hw8) else
     (case ice_read_cgu_reg_e82x hw8 NAC_CGU_DWORD22 of
        (Inl status, hw9) \<Rightarrow> ((status, clk_freq, clk_src), hw9)
      | (Inr dw22, hw9) \<Rightarrow>
     (let
          dw22 = field_set T ''dw22.time1588clk_div'' dw22 (post_pll_div (e822_cgu_params T clk_freq));
          dw22 = field_set T ''dw22.time1588clk_sel_div2'' dw22 0
      in
     (case ice_write_cgu_reg_e82x hw9 NAC_CGU_DWORD22 dw22 of (status, hw10) \<Rightarrow>
     if status \<noteq> 0 then ((status, clk_freq, clk_src), hw10) else
     (case ice_read_cgu_reg_e82x hw10 NAC_CGU_DWORD23_E825C of
        (Inl status, hw11) \<Rightarrow> ((status, clk_freq, clk_src), hw11)
      | (Inr dw23, hw11) \<Rightarrow>
     (let
          dw23 = field_set T ''dw23.ref1588_ck_div'' dw23 (refclk_pre_div (e822_cgu_params T clk_freq));
          dw23 = field_set T ''dw23.time_ref_sel'' dw23 clk_src
      in
     (case ice_write_cgu_reg_e82x hw11 NAC_CGU_DWORD23_E825C dw23 of (status, hw12) \<Rightarrow>
     if status \<noteq> 0 then ((status, clk_freq, clk_src), hw12) else
     (let
          dw24 = field_set T ''dw24.tspll_fbdiv_frac'' dw24 (frac_n_div (e822_cgu_params T clk_freq))
      in
     (case ice_write_cgu_reg_e82x hw12 NAC_CGU_DWORD24 dw24 of (status, hw13) \<Rightarrow>
     if status \<noteq> 0 then ((status, clk_freq, clk_src), hw13) else
     (let
          dw23 = field_set T ''dw23.ts_pll_enable'' dw23 1
      in
     (case ice_write_cgu_reg_e82x hw13 NAC_CGU_DWORD23_E825C dw23 of (status, hw14) \<Rightarrow>
     if status \<noteq> 0 then ((status, clk_freq, clk_src), hw14) else
     (case ice_read_cgu_reg_e82x (msleep hw14 1) TSPLL_RO_LOCK_E825C of
        (Inl status, hw15) \<Rightarrow> ((status, clk_freq, clk_src), hw15)
      | (Inr ro_lock, hw15) \<Rightarrow>
     if field_get T ''ro_lock.plllock_true_lock_cri'' ro_lock = 0
     then ((- EBUSY, clk_freq, clk_src), hw15)
     else ((0, field_get T ''dw9.time_ref_freq_sel'' dw9,
               field_get T ''dw23.time_ref_sel'' dw23), hw15)))))))))))))))))))))))"


section \<open>Writing the increment value\<close>

definition ice_ptp_prep_phy_incval_eth56g :: "macros \<Rightarrow> ice_hw \<Rightarrow> u64 \<Rightarrow> int \<times> ice_hw" where
  "ice_ptp_prep_phy_incval_eth56g H hw incval =
     for_each_port (\<lambda>hw port. ice_write_40b_phy_reg_eth56g H hw port PHY_REG_TIMETUS_L incval)
       (port_range (max_phy_port hw)) hw"

definition ice_ptp_prep_phy_incval_e810 :: "ice_hw \<Rightarrow> u64 \<Rightarrow> int \<times> ice_hw" where
  "ice_ptp_prep_phy_incval_e810 hw incval =
     (let tmr_idx = tmr_index_owned hw;
          low = lower_32_bits incval;
          high = upper_32_bits incval
      in case ice_write_phy_reg_e810 hw (ETH_GLTSYN_SHADJ_L tmr_idx) low of (status, hw1) \<Rightarrow>
         if status \<noteq> 0 then (status, hw1) else
         (case ice_write_phy_reg_e810 hw1 (ETH_GLTSYN_SHADJ_H tmr_idx) high of (status, hw2) \<Rightarrow>
         if status \<noteq> 0 then (status, hw2) else (0, hw2)))"

definition ice_ptp_prep_phy_incval_e822 :: "macros \<Rightarrow> ice_hw \<Rightarrow> u64 \<Rightarrow> int \<times> ice_hw" where
  "ice_ptp_prep_phy_incval_e822 H hw incval =
     for_each_port (\<lambda>hw port. ice_write_40b_phy_reg_e822 H hw port (REG40_L P_REG_TIMETUS) incval)
       (port_range (phy_ports hw)) hw"

definition ice_ptp_write_incval :: "macros \<Rightarrow> ice_hw \<Rightarrow> u64 \<Rightarrow> bool \<Rightarrow> int \<times> ice_hw" where
  "ice_ptp_write_incval H hw incval wr_main_tmr =
     (let tmr_idx = tmr_index_owned hw;
          hw1 = (if wr_main_tmr
                 then wr32 (wr32 hw (GLTSYN_SHADJ_L tmr_idx) (lower_32_bits incval))
                        (GLTSYN_SHADJ_H tmr_idx) (upper_32_bits incval)
                 else hw)
      in case (case phy_model hw1 of
                 ICE_PHY_ETH56G \<Rightarrow> ice_ptp_prep_phy_incval_eth56g H hw1 incval
               | ICE_PHY_E810 \<Rightarrow> ice_ptp_prep_phy_incval_e810 hw1 incval
               | ICE_PHY_E822 \<Rightarrow> ice_ptp_prep_phy_incval_e822 H hw1 incval
               | _ \<Rightarrow> (- EOPNOTSUPP, hw1)) of (status, hw2) \<Rightarrow>
         if status \<noteq> 0 then (status, hw2)
         else ice_ptp_tmr_cmd H hw2 ICE_PTP_INIT_INCVAL True)"

definition ice_ptp_write_incval_locked :: "macros \<Rightarrow> ice_hw \<Rightarrow> u64 \<Rightarrow> bool \<Rightarrow> int \<times> ice_hw" where
  "ice_ptp_write_incval_locked H hw incval wr_main_tmr =
     (case ice_ptp_lock H hw of (locked, hw1) \<Rightarrow>
        if \<not> locked then (- EBUSY, hw1)
        else
          (case ice_ptp_write_incval H hw1 incval wr_main_tmr of (status, hw2) \<Rightarrow>
             (status, ice_ptp_unlock hw2)))"

section \<open>Synchronising a PHY timer with the source timer\<close>

subsection \<open>E822\<close>

definition ice_ptp_prep_port_adj_e822 :: "ice_hw \<Rightarrow> u8 \<Rightarrow> u64 \<Rightarrow> bool \<Rightarrow> int \<times> ice_hw" where
  "ice_ptp_prep_port_adj_e822 hw port time lock_sbq =
     (let l_time = lower_32_bits time;
          u_time = upper_32_bits time
      in
     (case ice_write_phy_reg_e822_lp hw port (REG64_L P_REG_TX_TIMER_INC_PRE) l_time lock_sbq of
        (status, hw1) \<Rightarrow>
     if status \<noteq> 0 then (status, hw1) else
     (case ice_write_phy_reg_e822_lp hw1 port (REG64_U P_REG_TX_TIMER_INC_PRE) u_time lock_sbq of
        (status, hw2) \<Rightarrow>
     if status \<noteq> 0 then (status, hw2) else
     (case ice_write_phy_reg_e822_lp hw2 port (REG64_L P_REG_RX_TIMER_INC_PRE) l_time lock_sbq of
        (status, hw3) \<Rightarrow>
     if status \<noteq> 0 then (status, hw3) else
     (case ice_write_phy_reg_e822_lp hw3 port (REG64_U P_REG_RX_TIMER_INC_PRE) u_time lock_sbq of
        (status, hw4) \<Rightarrow>
     if status \<noteq> 0 then (status, hw4) else (0, hw4))))))"

definition ice_ptp_read_port_capture_e822 ::
  "ice_hw \<Rightarrow> u8 \<Rightarrow> (int + u64 \<times> u64) \<times> ice_hw" where
  "ice_ptp_read_port_capture_e822 hw port =
     (case ice_read_64b_phy_reg_e822 hw port (REG64_L P_REG_TX_CAPTURE) of
        (Inl status, hw1) \<Rightarrow> (Inl status, hw1)
      | (Inr tx_ts, hw1) \<Rightarrow>
     (case ice_read_64b_phy_reg_e822 hw1 port (REG64_L P_REG_RX_CAPTURE) of
        (Inl status, hw2) \<Rightarrow> (Inl status, hw2)
      | (Inr rx_ts, hw2) \<Rightarrow> (Inr (tx_ts, rx_ts), hw2)))"

text \<open>The result of \<^verbatim>\<open>ice_read_phy_and_phc_time_e822\<close> is the pair (PHY time, PHC time).\<close>

definition ice_read_phy_and_phc_time_e822 ::
  "macros \<Rightarrow> ice_hw \<Rightarrow> u8 \<Rightarrow> (int + u64 \<times> u64) \<times> ice_hw" where
  "ice_read_phy_and_phc_time_e822 H hw port =
     (let tmr_idx = ice_get_ptp_src_clock_index hw;
          hw1 = ice_ptp_src_cmd H hw ICE_PTP_READ_TIME
      in
     (case ice_ptp_one_port_cmd_e822 H hw1 port ICE_PTP_READ_TIME True of (status, hw2) \<Rightarrow>
     if status \<noteq> 0 then (Inl status, hw2) else
     (let hw3 = ice_ptp_clean_cmd (ice_ptp_exec_tmr_cmd H hw2) in
     (case rd32 hw3 (GLTSYN_SHTIME_0 tmr_idx) of (zo, hw4) \<Rightarrow>
     (case rd32 hw4 (GLTSYN_SHTIME_L tmr_idx) of (lo, hw5) \<Rightarrow>
     (let phc_time = (push_bit 32 (ucast lo :: u64) OR ucast zo) in
     (case ice_ptp_read_port_capture_e822 hw5 port of
        (Inl status, hw6) \<Rightarrow> (Inl status, hw6)
      | (Inr (tx_time, rx_time), hw6) \<Rightarrow> (Inr (tx_time, phc_time), hw6))))))))"

text \<open>
  \<^verbatim>\<open>ice_sync_phy_timer_e822\<close>: every \<^verbatim>\<open>goto err_unlock\<close> is the unlock followed by the
  return of the status.
\<close>

definition ice_sync_phy_timer_e822 :: "macros \<Rightarrow> ice_hw \<Rightarrow> u8 \<Rightarrow> int \<times> ice_hw" where
  "ice_sync_phy_timer_e822 H hw port =
     (case ice_ptp_lock H hw of (locked, hw1) \<Rightarrow>
     if \<not> locked then (- EBUSY, hw1) else
     (case ice_read_phy_and_phc_time_e822 H hw1 port of
        (Inl status, hw2) \<Rightarrow> (status, ice_ptp_unlock hw2)
      | (Inr (phy_time, phc_time), hw2) \<Rightarrow>
     (let difference = phc_time - phy_time in
     (case ice_ptp_prep_port_adj_e822 hw2 port difference True of (status, hw3) \<Rightarrow>
     if status \<noteq> 0 then (status, ice_ptp_unlock hw3) else
     (case ice_ptp_one_port_cmd_e822 H hw3 port ICE_PTP_ADJ_TIME True of (status, hw4) \<Rightarrow>
     if status \<noteq> 0 then (status, ice_ptp_unlock hw4) else
     (let hw5 = ice_ptp_src_cmd H hw4 ICE_PTP_READ_TIME;
          hw6 = ice_ptp_clean_cmd (ice_ptp_exec_tmr_cmd H hw5)
      in
     (case ice_read_phy_and_phc_time_e822 H hw6 port of
        (Inl status, hw7) \<Rightarrow> (status, ice_ptp_unlock hw7)
      | (Inr (phy_time, phc_time), hw7) \<Rightarrow> (0, ice_ptp_unlock hw7))))))))"

subsection \<open>ETH56G\<close>

definition ice_read_64b_phy_reg_eth56g ::
  "ice_hw \<Rightarrow> u8 \<Rightarrow> eth56g_reg \<Rightarrow> (int + u64) \<times> ice_hw" where
  "ice_read_64b_phy_reg_eth56g hw port low_addr =
     (case ice_is_64b_phy_reg_eth56g low_addr of
        None \<Rightarrow> (Inl (- EINVAL), hw)
      | Some high_addr \<Rightarrow>
          (case ice_read_phy_reg_eth56g hw port low_addr of
             (Inl status, hw1) \<Rightarrow> (Inl status, hw1)
           | (Inr lo, hw1) \<Rightarrow>
               (case ice_read_phy_reg_eth56g hw1 port high_addr of
                  (Inl status, hw2) \<Rightarrow> (Inl status, hw2)
                | (Inr hi, hw2) \<Rightarrow>
                    (Inr (push_bit 32 (ucast hi :: u64) OR ucast lo), hw2))))"

definition ice_ptp_prep_port_adj_eth56g :: "ice_hw \<Rightarrow> u8 \<Rightarrow> u64 \<Rightarrow> bool \<Rightarrow> int \<times> ice_hw" where
  "ice_ptp_prep_port_adj_eth56g hw port time lock_sbq =
     (let l_time = lower_32_bits time;
          u_time = upper_32_bits time
      in
     (case ice_write_phy_reg_eth56g_lp hw port (PHY_REG64_L PHY_REG_TX_TIMER_INC_PRE) l_time
             lock_sbq of (status, hw1) \<Rightarrow>
     if status \<noteq> 0 then (status, hw1) else
     (case ice_write_phy_reg_eth56g_lp hw1 port (PHY_REG64_U PHY_REG_TX_TIMER_INC_PRE) u_time
             lock_sbq of (status, hw2) \<Rightarrow>
     if status \<noteq> 0 then (status, hw2) else
     (case ice_write_phy_reg_eth56g_lp hw2 port (PHY_REG64_L PHY_REG_RX_TIMER_INC_PRE) l_time
             lock_sbq of (status, hw3) \<Rightarrow>
     if status \<noteq> 0 then (status, hw3) else
     (case ice_write_phy_reg_eth56g_lp hw3 port (PHY_REG64_U PHY_REG_RX_TIMER_INC_PRE) u_time
             lock_sbq of (status, hw4) \<Rightarrow>
     if status \<noteq> 0 then (status, hw4) else (0, hw4))))))"

definition ice_ptp_read_port_capture_eth56g ::
  "ice_hw \<Rightarrow> u8 \<Rightarrow> (int + u64 \<times> u64) \<times> ice_hw" where
  "ice_ptp_read_port_capture_eth56g hw port =
     (case ice_read_64b_phy_reg_eth56g hw port (PHY_REG64_L PHY_REG_TX_CAPTURE) of
        (Inl status, hw1) \<Rightarrow> (Inl status, hw1)
      | (Inr tx_ts, hw1) \<Rightarrow>
     (case ice_read_64b_phy_reg_eth56g hw1 port (PHY_REG64_L PHY_REG_RX_CAPTURE) of
        (Inl status, hw2) \<Rightarrow> (Inl status, hw2)
      | (Inr rx_ts, hw2) \<Rightarrow> (Inr (tx_ts, rx_ts), hw2)))"

definition ice_read_phy_and_phc_time_eth56g ::
  "macros \<Rightarrow> ice_hw \<Rightarrow> u8 \<Rightarrow> (int + u64 \<times> u64) \<times> ice_hw" where
  "ice_read_phy_and_phc_time_eth56g H hw port =
     (let tmr_idx = ice_get_ptp_src_clock_index hw;
          hw1 = ice_ptp_src_cmd H hw ICE_PTP_READ_TIME
      in
     (case ice_ptp_one_port_cmd_eth56g H hw1 port ICE_PTP_READ_TIME True of (status, hw2) \<Rightarrow>
     if status \<noteq> 0 then (Inl status, hw2) else
     (let hw3 = ice_ptp_clean_cmd (ice_ptp_exec_tmr_cmd H hw2) in
     (case rd32 hw3 (GLTSYN_SHTIME_0 tmr_idx) of (zo, hw4) \<Rightarrow>
     (case rd32 hw4 (GLTSYN_SHTIME_L tmr_idx) of (lo, hw5) \<Rightarrow>
     (let phc_time = (push_bit 32 (ucast lo :: u64) OR ucast zo) in
     (case ice_ptp_read_port_capture_eth56g hw5 port of
        (Inl status, hw6) \<Rightarrow> (Inl status, hw6)
      | (Inr (tx_time, rx_time), hw6) \<Rightarrow> (Inr (tx_time, phc_time), hw6))))))))"

definition ice_sync_phy_timer_eth56g :: "macros \<Rightarrow> ice_hw \<Rightarrow> u8 \<Rightarrow> int \<times> ice_hw" where
  "ice_sync_phy_timer_eth56g H hw port =
     (case ice_ptp_lock H hw of (locked, hw1) \<Rightarrow>
     if \<not> locked then (- EBUSY, hw1) else
     (case ice_read_phy_and_phc_time_eth56g H hw1 port of
        (Inl status, hw2) \<Rightarrow> (status, ice_ptp_unlock hw2)
      | (Inr (phy_time, phc_time), hw2) \<Rightarrow>
     (let hw3 = ice_ptp_src_cmd H hw2 ICE_PTP_NOP;
          difference = phc_time - phy_time
      in
     (case ice_ptp_prep_port_adj_eth56g hw3 port difference True of (status, hw4) \<Rightarrow>
     if status \<noteq> 0 then (status, ice_ptp_unlock hw4) else
     (case ice_ptp_one_port_cmd_eth56g H hw4 port ICE_PTP_ADJ_TIME True of (status, hw5) \<Rightarrow>
     if status \<noteq> 0 then (status, ice_ptp_unlock hw5) else
     (let hw6 = ice_ptp_clean_cmd (ice_ptp_exec_tmr_cmd H hw5) in
     (case ice_read_phy_and_phc_time_eth56g H hw6 port of
        (Inl status, hw7) \<Rightarrow> (status, ice_ptp_unlock hw7)
      | (Inr (phy_time, phc_time), hw7) \<Rightarrow> (0, ice_ptp_unlock hw7))))))))"


section \<open>Observations on a run\<close>

text \<open>
  The configuration fields of \<^verbatim>\<open>struct ice_hw\<close>, which no modelled function assigns.
\<close>

definition cfg ::
  "ice_hw \<Rightarrow> ice_phy_model \<times> u8 \<times> u8 \<times> u8 \<times> u8 \<times> u8 \<times> u32 \<times> bool" where
  "cfg hw = (phy_model hw, phy_ports hw, max_phy_port hw, pf_id hw, tmr_index_owned hw,
             tmr_index_assoc hw, time_ref hw, ts_ll_read hw)"

text \<open>The events of a run from \<open>hw\<close> to \<open>hw'\<close>: what the run appended to the trace.\<close>

definition new_events :: "ice_hw \<Rightarrow> ice_hw \<Rightarrow> event list" where
  "new_events hw hw' = drop (length (trace hw)) (trace hw')"

definition is_sbq :: "event \<Rightarrow> bool" where
  "is_sbq e = (case e of SbqWr a v s \<Rightarrow> True | SbqRd a s \<Rightarrow> True | _ \<Rightarrow> False)"

definition is_write :: "event \<Rightarrow> bool" where
  "is_write e = (case e of SbqWr a v s \<Rightarrow> True | Wr32 r v \<Rightarrow> True | _ \<Rightarrow> False)"

definition is_exec_pulse :: "event \<Rightarrow> bool" where
  "is_exec_pulse e = (case e of Wr32 r v \<Rightarrow> r = GLTSYN_CMD_SYNC | _ \<Rightarrow> False)"

definition is_sem_write :: "event \<Rightarrow> bool" where
  "is_sem_write e = (case e of Wr32 (PFTSYN_SEM i) v \<Rightarrow> True | _ \<Rightarrow> False)"

text \<open>
  A run that only talks over the sideband queue: it leaves the configuration, the
  memory-mapped registers and the read script alone and appends sideband events only.
\<close>

definition sbq_only :: "ice_hw \<Rightarrow> ice_hw \<Rightarrow> bool" where
  "sbq_only hw hw' \<longleftrightarrow>
     cfg hw' = cfg hw \<and> mmio hw' = mmio hw \<and> rd32_script hw' = rd32_script hw \<and>
     (\<exists>evs. trace hw' = trace hw @ evs \<and> list_all is_sbq evs)"

text \<open>
  A successful read-modify-write of the sideband register \<open>a\<close>: a read of \<open>a\<close> that
  succeeds, then a write of \<open>a\<close> that succeeds.
\<close>

definition is_rmw :: "sbq_addr \<Rightarrow> event \<Rightarrow> event \<Rightarrow> bool" where
  "is_rmw a e1 e2 =
     (case (e1, e2) of
        (SbqRd a1 s1, SbqWr a2 v s2) \<Rightarrow> a1 = a \<and> a2 = a \<and> s1 = 0 \<and> s2 = 0
      | _ \<Rightarrow> False)"

text \<open>
  The number of ports a timer command is staged in: the ports are the port numbers
  \<open>0, 1, ...\<close> below that count, in this order. The events of a successful staging of one
  port are a read-modify-write of the Tx and then of the Rx command register of the port
  for E822 and ETH56G. The E810 family has one command register for its external PHY,
  which stands here as the single port 0.
\<close>

definition tmr_cmd_port_count :: "ice_hw \<Rightarrow> nat" where
  "tmr_cmd_port_count hw =
     (case phy_model hw of
        ICE_PHY_ETH56G \<Rightarrow> unat (max_phy_port hw)
      | ICE_PHY_E822 \<Rightarrow> unat (phy_ports hw)
      | ICE_PHY_E810 \<Rightarrow> 1
      | _ \<Rightarrow> 0)"

definition staging_regs :: "ice_phy_model \<Rightarrow> u8 \<Rightarrow> u8 \<Rightarrow> sbq_addr list" where
  "staging_regs model ports_per_phy port =
     (case model of
        ICE_PHY_E822 \<Rightarrow> [E822_PORT port P_REG_TX_TMR_CMD, E822_PORT port P_REG_RX_TMR_CMD]
      | ICE_PHY_ETH56G \<Rightarrow>
          [ETH56G (port div ports_per_phy) (port mod ports_per_phy) ETH56G_PHY_REG
             PHY_REG_TX_TMR_CMD,
           ETH56G (port div ports_per_phy) (port mod ports_per_phy) ETH56G_PHY_REG
             PHY_REG_RX_TMR_CMD]
      | ICE_PHY_E810 \<Rightarrow> [E810_PHY E810_ETH_GLTSYN_CMD]
      | _ \<Rightarrow> [])"

fun rmw_seq :: "sbq_addr list \<Rightarrow> event list \<Rightarrow> bool" where
  "rmw_seq [] evs = (evs = [])"
| "rmw_seq (a # as) (e1 # e2 # evs) = (is_rmw a e1 e2 \<and> rmw_seq as evs)"
| "rmw_seq (a # as) evs = False"

definition port_staging :: "ice_hw \<Rightarrow> u8 \<Rightarrow> event list \<Rightarrow> bool" where
  "port_staging hw port evs = rmw_seq (staging_regs (phy_model hw) (phy_ports hw) port) evs"

text \<open>Calling a function \<open>n\<close> times in a row: the statuses in order, and the final state.\<close>

fun call_n :: "nat \<Rightarrow> (ice_hw \<Rightarrow> int \<times> ice_hw) \<Rightarrow> ice_hw \<Rightarrow> int list \<times> ice_hw" where
  "call_n 0 f hw = ([], hw)"
| "call_n (Suc n) f hw =
     (case f hw of (status, hw1) \<Rightarrow>
      case call_n n f hw1 of (statuses, hw2) \<Rightarrow> (status # statuses, hw2))"


text \<open>
  The events of polling the firmware mailbox for a low latency timestamp with the reads
  \<open>vs\<close> of \<^verbatim>\<open>PF_SB_ATQBAL\<close>: each read, followed by the delay of 10 microseconds when the
  value read still has the bit \<^verbatim>\<open>TS_LL_READ_TS\<close> set.
\<close>

definition ll_poll_events :: "macros \<Rightarrow> u32 list \<Rightarrow> event list" where
  "ll_poll_events H vs =
     concat (map (\<lambda>v. if v AND H ''TS_LL_READ_TS'' \<noteq> 0
                        then [Rd32 PF_SB_ATQBAL v, Udelay 10]
                        else [Rd32 PF_SB_ATQBAL v]) vs)"

text \<open>
  The semaphore. \<open>busy\<close> is the test \<^verbatim>\<open>ice_ptp_lock\<close> makes on a value read from
  \<^verbatim>\<open>PFTSYN_SEM\<close>; \<open>poll_events\<close> is the events of polling the semaphore with the reads
  \<open>vs\<close>: each read, followed by the sleep when the value read is busy. A run from \<open>hw\<close> to
  \<open>hw'\<close> keeps the semaphore (\<open>no_unlock\<close>) when it leaves the configuration alone and
  appends no write of \<^verbatim>\<open>PFTSYN_SEM\<close>.
\<close>

definition busy :: "macros \<Rightarrow> u32 \<Rightarrow> bool" where
  "busy H v \<longleftrightarrow> v AND H ''PFTSYN_SEM_BUSY_M'' \<noteq> 0"

definition poll_events :: "macros \<Rightarrow> u8 \<Rightarrow> u32 list \<Rightarrow> event list" where
  "poll_events H pf vs =
     concat (map (\<lambda>v. if busy H v then [Rd32 (PFTSYN_SEM pf) v, Usleep_range 5000 6000]
                        else [Rd32 (PFTSYN_SEM pf) v]) vs)"

definition no_unlock :: "ice_hw \<Rightarrow> ice_hw \<Rightarrow> bool" where
  "no_unlock hw hw' \<longleftrightarrow>
     cfg hw' = cfg hw \<and> (\<exists>evs. trace hw' = trace hw @ evs \<and> \<not> list_ex is_sem_write evs)"

text \<open>
  The discipline of a function \<open>f\<close> that takes the semaphore first: when \<^verbatim>\<open>ice_ptp_lock\<close>
  fails, \<open>f\<close> returns \<^verbatim>\<open>-EBUSY\<close> in the state the failed lock left; when it succeeds,
  what \<open>f\<close> appends after the lock ends with the write of \<^verbatim>\<open>ice_ptp_unlock\<close> and holds
  no other write of \<^verbatim>\<open>PFTSYN_SEM\<close>.
\<close>

definition lock_discipline :: "macros \<Rightarrow> (ice_hw \<Rightarrow> int \<times> ice_hw) \<Rightarrow> ice_hw \<Rightarrow> bool" where
  "lock_discipline H f hw =
     (case ice_ptp_lock H hw of (locked, hw1) \<Rightarrow>
      case f hw of (status, hw') \<Rightarrow>
        if \<not> locked then status = - EBUSY \<and> hw' = hw1
        else (\<exists>evs. trace hw' = trace hw1 @ evs @ [Wr32 (PFTSYN_SEM (pf_id hw)) 0] \<and>
                    \<not> list_ex is_sem_write evs))"

text \<open>
  The latency scaling as the specification words it, \<^verbatim>\<open>scale_latency(tu_per_sec,
  hundredths_of_ns)\<close>: \<^verbatim>\<open>tu_per_sec / 10000 * hundredths_of_ns / 10_000_000\<close> on unsigned
  64-bit integers. The fixed Rx offset of the source is compared with it below.
\<close>

definition scale_latency :: "u64 \<Rightarrow> u64 \<Rightarrow> u64" where
  "scale_latency tu_per_sec hundredths_of_ns = tu_per_sec div 10000 * hundredths_of_ns div 10000000"


text \<open>
  A run that only reads: it leaves the configuration, the memory-mapped registers, the
  sideband registers and the fault schedule alone, and appends no write.
\<close>

definition reads_only :: "ice_hw \<Rightarrow> ice_hw \<Rightarrow> bool" where
  "reads_only hw hw' \<longleftrightarrow>
     cfg hw' = cfg hw \<and> mmio hw' = mmio hw \<and> sbq_regs hw' = sbq_regs hw \<and>
     sbq_faults hw' = sbq_faults hw \<and>
     (\<exists>evs. trace hw' = trace hw @ evs \<and> filter is_write evs = [])"

text \<open>
  The values that the configuration of the Rx offset of an E822 port works with, as
  functions of the registers of the device: the increment value of the source timer, a
  64-bit port register, the Rx offset before the PMD adjustment (the fixed offset, plus the
  PCS offset, plus the deskew time of the multi-lane speeds) and the PMD alignment
  adjustment. The adjustment is the scaled multiplier that \<open>pmd_mult\<close> derives from the
  alignment counter and the link speed, plus, for 25G-RS and 50G-RS, the scaled term of a
  nonzero Rx cycle count.
\<close>

definition src_incval :: "macros \<Rightarrow> ice_hw \<Rightarrow> u64" where
  "src_incval H hw =
     push_bit 32 (ucast (mmio hw (GLTSYN_INCVAL_H (tmr_index_assoc hw)) AND H ''INCVAL_HIGH_M'') :: u64)
       OR ucast (mmio hw (GLTSYN_INCVAL_L (tmr_index_assoc hw)))"

definition reg64_e822 :: "ice_hw \<Rightarrow> u8 \<Rightarrow> e822_reg64 \<Rightarrow> u64" where
  "reg64_e822 hw port r =
     push_bit 32 (ucast (sbq_regs hw (E822_PORT port (REG64_U r))) :: u64) OR
       ucast (sbq_regs hw (E822_PORT port (REG64_L r)))"

definition rx_base_offset ::
  "ice_tables \<Rightarrow> macros \<Rightarrow> ice_hw \<Rightarrow> u8 \<Rightarrow> ice_ptp_link_spd \<Rightarrow> u64" where
  "rx_base_offset T H hw port spd =
     scale_latency (ice_e822_pll_freq T (time_ref hw) * src_incval H hw)
       (ucast (rx_fixed_delay (e822_vernier T spd))) +
     reg64_e822 hw port P_REG_PAR_PCS_RX_OFFSET +
     (if spd = ICE_PTP_LNK_SPD_40G \<or> spd = ICE_PTP_LNK_SPD_50G \<or>
         spd = ICE_PTP_LNK_SPD_50G_RS \<or> spd = ICE_PTP_LNK_SPD_100G_RS
      then reg64_e822 hw port P_REG_PAR_RX_TIME else 0)"

definition rx_pmd_adjustment ::
  "ice_tables \<Rightarrow> macros \<Rightarrow> ice_hw \<Rightarrow> u8 \<Rightarrow> ice_ptp_link_spd \<Rightarrow> u32 \<Rightarrow> u64" where
  "rx_pmd_adjustment T H hw port spd fec =
     (let tu_per_sec = ice_e822_pll_freq T (time_ref hw) * src_incval H hw;
          divisor = pmd_adj_divisor (e822_vernier T spd);
          align = (ucast (sbq_regs hw (E822_PORT port P_REG_PMD_ALIGNMENT)) :: u8);
          cycle40 = (ucast (sbq_regs hw (E822_PORT port P_REG_RX_40_TO_160_CNT) AND
                             H ''P_REG_RX_40_TO_160_CNT_RXCYC_M'') :: u8);
          cycle80 = (ucast (sbq_regs hw (E822_PORT port P_REG_RX_80_TO_160_CNT) AND
                             H ''P_REG_RX_80_TO_160_CNT_RXCYC_M'') :: u8)
      in if pmd_mult H spd fec align = 0 then 0
         else pmd_scale tu_per_sec (pmd_mult H spd fec align) divisor +
              (if spd = ICE_PTP_LNK_SPD_25G_RS \<and> cycle40 \<noteq> 0
                 then pmd_scale tu_per_sec (word_of_int ((4 - uint cycle40) * 40)) divisor
               else if spd = ICE_PTP_LNK_SPD_50G_RS \<and> cycle80 \<noteq> 0
                 then pmd_scale tu_per_sec (of_nat (unat cycle80 * 40)) divisor
               else 0))"


section \<open>Example devices\<close>

text \<open>
  An assignment of the header macros, tables for \<^verbatim>\<open>ice_ptp_consts.h\<close> and three idle
  devices, one per PHY family, on which the model is run in the examples below. The
  values follow the upstream driver's headers; no general statement depends on them.
\<close>

definition macro_values :: "(string \<times> u32) list" where
  "macro_values =
     [(''SEL_CPK_SRC'', 8), (''SEL_PHY_SRC'', 3),
      (''GLTSYN_CMD_INIT_TIME'', 1), (''GLTSYN_CMD_INIT_INCVAL'', 2),
      (''GLTSYN_CMD_ADJ_TIME'', 4), (''GLTSYN_CMD_ADJ_INIT_TIME'', 12),
      (''GLTSYN_CMD_READ_TIME'', 128),
      (''PHY_CMD_INIT_TIME'', 1), (''PHY_CMD_INIT_INCVAL'', 2), (''PHY_CMD_ADJ_TIME'', 3),
      (''PHY_CMD_ADJ_TIME_AT_TIME'', 5), (''PHY_CMD_READ_TIME'', 7),
      (''TS_CMD_MASK'', 0xF), (''TS_CMD_MASK_E810'', 0xFF), (''SYNC_EXEC_CMD'', 3),
      (''PFTSYN_SEM_BUSY_M'', 1), (''INCVAL_HIGH_M'', 0xFF),
      (''P_REG_TX_OV_STATUS_OV_M'', 1), (''P_REG_RX_OV_STATUS_OV_M'', 1),
      (''P_REG_LINK_SPEED_SERDES_M'', 7),
      (''ICE_PTP_SERDES_1G'', 0), (''ICE_PTP_SERDES_10G'', 1), (''ICE_PTP_SERDES_25G'', 2),
      (''ICE_PTP_SERDES_40G'', 3), (''ICE_PTP_SERDES_50G'', 4), (''ICE_PTP_SERDES_100G'', 5),
      (''ICE_PTP_FEC_MODE_CLAUSE74'', 1), (''ICE_PTP_FEC_MODE_RS_FEC'', 2),
      (''P_REG_RX_40_TO_160_CNT_RXCYC_M'', 3), (''P_REG_RX_80_TO_160_CNT_RXCYC_M'', 1),
      (''P_REG_40B_LOW_M'', 0xFF), (''P_REG_40B_HIGH_S'', 8),
      (''TS_PHY_LOW_M'', 0xFF), (''TS_PHY_HIGH_S'', 8),
      (''TS_LOW_M'', 0xFFFFFFFF), (''TS_HIGH_S'', 32),
      (''TS_LL_READ_RETRIES'', 200), (''TS_LL_READ_TS'', 0x80000000),
      (''TS_LL_READ_TS_HIGH_S'', 16), (''TS_VALID'', 1),
      (''ICE_MAX_QUAD'', 2), (''ICE_CGU_DPLL_MAX'', 2),
      (''ICE_AQC_GET_CGU_DPLL_STATUS_STATE_LOCK'', 1),
      (''ICE_AQC_GET_CGU_DPLL_STATUS_STATE_HO_READY'', 4),
      (''ICE_AQC_GET_CGU_DPLL_STATUS_STATE_CLK_REF_SEL'', 0x3E0),
      (''ICE_AQC_GET_CGU_DPLL_STATUS_STATE_CLK_REF_SHIFT'', 5),
      (''NUM_ICE_TIME_REF_FREQ'', 6), (''NUM_ICE_CLK_SRC'', 2),
      (''ICE_CLK_SRC_TCX0'', 0), (''ICE_TIME_REF_FREQ_25_000'', 0)]"

definition H0 :: macros where
  "H0 name = (case map_of macro_values name of Some v \<Rightarrow> v | None \<Rightarrow> 0)"

definition T0 :: ice_tables where
  "T0 = \<lparr>e822_vernier =
            (\<lambda>spd. \<lparr>tx_fixed_delay = 25140, pmd_adj_divisor = 10000000,
                     rx_fixed_delay = 17372\<rparr>),
          ice_e822_pll_freq = (\<lambda>ref. 823437500),
          e822_cgu_params =
            (\<lambda>freq. \<lparr>refclk_pre_div = 1, feedback_div = 197, frac_n_div = 2621440,
                      post_pll_div = 6\<rparr>),
          TS_LL_READ_TS_IDX = (\<lambda>idx. 0x80000000 OR push_bit 24 (ucast idx AND 0x3F)),
          P_REG_LINK_SPEED_FEC_MODE = (\<lambda>reg. drop_bit 3 reg AND 3),
          field_get = (\<lambda>name v. v AND 1),
          field_set = (\<lambda>name v x. if name = ''dw24.ts_pll_enable'' \<or>
                                       name = ''dw23.ts_pll_enable''
                                    then (v AND NOT 1) OR (x AND 1) else v)\<rparr>"

definition hw_e822 :: ice_hw where
  "hw_e822 =
     \<lparr>phy_model = ICE_PHY_E822, phy_ports = 2, max_phy_port = 2, pf_id = 0,
      tmr_index_owned = 0, tmr_index_assoc = 0, time_ref = 0, ts_ll_read = False,
      mmio = (\<lambda>r. 0), rd32_script = [], sbq_regs = (\<lambda>a. 0), sbq_faults = [],
      aq_dpll = (\<lambda>i. \<lparr>aq_status = 0, ref_state = 0, dpll_state = 0, ph_offset = 0,
                        eec_mode = 0\<rparr>),
      trace = []\<rparr>"

text \<open>The same E822 device with a sideband queue whose sixth transaction fails with \<^verbatim>\<open>-EIO\<close>.\<close>

definition hw_e822_faulty :: ice_hw where
  "hw_e822_faulty = hw_e822\<lparr>sbq_faults := [0, 0, 0, 0, 0, - 5]\<rparr>"

definition hw_eth56g :: ice_hw where
  "hw_eth56g = hw_e822\<lparr>phy_model := ICE_PHY_ETH56G\<rparr>"

definition hw_e810 :: ice_hw where
  "hw_e810 = hw_e822\<lparr>phy_model := ICE_PHY_E810\<rparr>"


text \<open>
  The E822 device with the nominal increment value \<^verbatim>\<open>0x136e44fab\<close> of the 823.4375 MHz
  time reference in the source timer.
\<close>

definition hw_e822_nominal :: ice_hw where
  "hw_e822_nominal =
     hw_e822\<lparr>mmio := (\<lambda>r. if r = GLTSYN_INCVAL_L 0 then 0x36e44fab
                          else if r = GLTSYN_INCVAL_H 0 then 1 else 0)\<rparr>"


text \<open>
  The E822 device after Vernier calibration of port 0: both offset-valid bits set, a 25G
  link with RS-FEC, a PMD alignment counter of 5, an Rx cycle count of 1 and a PCS Rx
  offset of 1000. \<open>hw_e822_10g\<close> is the same device on a 10G link without FEC.
\<close>

definition hw_e822_calibrated :: ice_hw where
  "hw_e822_calibrated =
     hw_e822_nominal\<lparr>sbq_regs :=
       (\<lambda>a. if a = E822_PORT 0 P_REG_TX_OV_STATUS then 1
            else if a = E822_PORT 0 P_REG_RX_OV_STATUS then 1
            else if a = E822_PORT 0 P_REG_LINK_SPEED then 0x12
            else if a = E822_PORT 0 P_REG_PMD_ALIGNMENT then 5
            else if a = E822_PORT 0 P_REG_RX_40_TO_160_CNT then 1
            else if a = E822_PORT 0 (REG64_L P_REG_PAR_PCS_RX_OFFSET) then 1000
            else 0)\<rparr>"

definition hw_e822_10g :: ice_hw where
  "hw_e822_10g =
     hw_e822_calibrated\<lparr>sbq_regs := (sbq_regs hw_e822_calibrated)(E822_PORT 0 P_REG_LINK_SPEED := 1)\<rparr>"




text \<open>
  The E810 device with low latency timestamp reads, whose firmware answers the second poll
  of the mailbox with the timestamp \<^verbatim>\<open>0x1234\<close>.
\<close>

definition hw_e810_ll :: ice_hw where
  "hw_e810_ll = hw_e810\<lparr>ts_ll_read := True, rd32_script := [0x80000000, 0, 0x1234]\<rparr>"


section \<open>Basic facts about the transport\<close>

lemma cfg_update [simp]:
  "cfg (hw\<lparr>trace := t\<rparr>) = cfg hw"
  "cfg (hw\<lparr>mmio := m\<rparr>) = cfg hw"
  "cfg (hw\<lparr>rd32_script := r\<rparr>) = cfg hw"
  "cfg (hw\<lparr>sbq_regs := q\<rparr>) = cfg hw"
  "cfg (hw\<lparr>sbq_faults := f\<rparr>) = cfg hw"
  by (simp_all add: cfg_def)

lemma log_event_fields [simp]:
  "trace (log_event e hw) = trace hw @ [e]"
  "cfg (log_event e hw) = cfg hw"
  "mmio (log_event e hw) = mmio hw"
  "rd32_script (log_event e hw) = rd32_script hw"
  "sbq_regs (log_event e hw) = sbq_regs hw"
  "sbq_faults (log_event e hw) = sbq_faults hw"
  by (simp_all add: log_event_def)

lemma next_status_eq:
  "next_status hw =
     (case sbq_faults hw of [] \<Rightarrow> 0 | s # ss \<Rightarrow> s, hw\<lparr>sbq_faults := tl (sbq_faults hw)\<rparr>)"
  by (simp add: next_status_def split: list.splits)

lemma sbq_write_D:
  "sbq_write hw a v l = (s, hw') \<Longrightarrow>
     hw' = hw\<lparr>sbq_faults := tl (sbq_faults hw),
              sbq_regs := (if s = 0 then (sbq_regs hw)(a := v) else sbq_regs hw),
              trace := trace hw @ [SbqWr a v s]\<rparr>"
  by (auto simp: sbq_write_def next_status_eq log_event_def split: if_splits)

lemma sbq_read_D:
  "sbq_read hw a l = (r, hw') \<Longrightarrow>
     hw' = hw\<lparr>sbq_faults := tl (sbq_faults hw),
              trace := trace hw @ [SbqRd a (case r of Inl s \<Rightarrow> s | Inr v \<Rightarrow> 0)]\<rparr> \<and>
     (case r of Inl s \<Rightarrow> s \<noteq> 0 | Inr v \<Rightarrow> v = sbq_regs hw a)"
  by (auto simp: sbq_read_def next_status_eq log_event_def split: if_splits)

lemma sbq_only_refl [simp]: "sbq_only hw hw"
  by (simp add: sbq_only_def)

lemma sbq_only_trans: "sbq_only a b \<Longrightarrow> sbq_only b c \<Longrightarrow> sbq_only a c"
  by (auto simp: sbq_only_def)

lemma sbq_write_sbq_only: "sbq_write hw a v l = (s, hw') \<Longrightarrow> sbq_only hw hw'"
  by (auto simp: sbq_only_def is_sbq_def dest!: sbq_write_D)

lemma sbq_read_sbq_only: "sbq_read hw a l = (r, hw') \<Longrightarrow> sbq_only hw hw'"
  by (auto simp: sbq_only_def is_sbq_def dest!: sbq_read_D)

lemmas e822_acc_defs = ice_read_phy_reg_e822_lp_def ice_read_phy_reg_e822_def
  ice_write_phy_reg_e822_lp_def ice_write_phy_reg_e822_def
lemmas e810_acc_defs = ice_read_phy_reg_e810_lp_def ice_read_phy_reg_e810_def
  ice_write_phy_reg_e810_lp_def ice_write_phy_reg_e810_def
lemmas eth56g_acc_defs = ice_write_phy_port_eth56g_lp_def ice_read_phy_port_eth56g_lp_def
  ice_write_phy_reg_eth56g_lp_def ice_write_phy_reg_eth56g_def ice_read_phy_reg_eth56g_lp_def
  ice_read_phy_reg_eth56g_def ice_phy_port_mem_read_eth56g_lp_def ice_phy_port_mem_read_eth56g_def
  ice_phy_port_mem_write_eth56g_lp_def ice_phy_port_mem_write_eth56g_def

lemma wr32_fields [simp]:
  "trace (wr32 hw r v) = trace hw @ [Wr32 r v]"
  "cfg (wr32 hw r v) = cfg hw"
  "mmio (wr32 hw r v) = (mmio hw)(r := v)"
  "rd32_script (wr32 hw r v) = rd32_script hw"
  "sbq_regs (wr32 hw r v) = sbq_regs hw"
  "sbq_faults (wr32 hw r v) = sbq_faults hw"
  by (simp_all add: wr32_def)

lemma ice_flush_fields [simp]:
  "trace (ice_flush hw) = trace hw @ [Flush]"
  "cfg (ice_flush hw) = cfg hw"
  "mmio (ice_flush hw) = mmio hw"
  "rd32_script (ice_flush hw) = rd32_script hw"
  "sbq_regs (ice_flush hw) = sbq_regs hw"
  "sbq_faults (ice_flush hw) = sbq_faults hw"
  by (simp_all add: ice_flush_def)

lemma src_cmd_fields [simp]:
  "cfg (ice_ptp_src_cmd H hw cmd) = cfg hw"
  "rd32_script (ice_ptp_src_cmd H hw cmd) = rd32_script hw"
  "sbq_regs (ice_ptp_src_cmd H hw cmd) = sbq_regs hw"
  "sbq_faults (ice_ptp_src_cmd H hw cmd) = sbq_faults hw"
  "mmio (ice_ptp_src_cmd H hw cmd) GLTSYN_CMD_SYNC = mmio hw GLTSYN_CMD_SYNC"
  by (simp_all add: ice_ptp_src_cmd_def Let_def split: ice_ptp_tmr_cmd.splits)

lemma src_cmd_trace:
  "\<exists>evs. trace (ice_ptp_src_cmd H hw cmd) = trace hw @ evs \<and>
     (if cmd = ICE_PTP_TMR_CMD_OUT_OF_RANGE then evs = [] else (\<exists>v. evs = [Wr32 GLTSYN_CMD v]))"
  by (simp add: ice_ptp_src_cmd_def Let_def split: ice_ptp_tmr_cmd.splits)

lemma new_events_append [simp]: "trace hw' = trace hw @ evs \<Longrightarrow> new_events hw hw' = evs"
  by (simp add: new_events_def)

lemma rd32_D:
  "rd32 hw r = (v, hw') \<Longrightarrow>
     hw' = hw\<lparr>rd32_script := tl (rd32_script hw), trace := trace hw @ [Rd32 r v]\<rparr>"
  by (auto simp: rd32_def log_event_def split: list.splits)

lemma usleep_fields [simp]:
  "trace (usleep_range hw a b) = trace hw @ [Usleep_range a b]"
  "cfg (usleep_range hw a b) = cfg hw"
  "pf_id (usleep_range hw a b) = pf_id hw"
  by (simp_all add: usleep_range_def log_event_def)

lemma cfg_pf_id: "cfg a = cfg b \<Longrightarrow> pf_id a = pf_id b"
  by (simp add: cfg_def)

lemma udelay_fields [simp]:
  "trace (udelay hw n) = trace hw @ [Udelay n]"
  "sbq_faults (udelay hw n) = sbq_faults hw"
  by (simp_all add: udelay_def)

lemma sbq_read_ok:
  "sbq_faults hw = [] \<Longrightarrow>
     sbq_read hw a l = (Inr (sbq_regs hw a), log_event (SbqRd a 0) hw)"
  by (simp add: sbq_read_def next_status_def)

lemma sbq_write_ok:
  "sbq_faults hw = [] \<Longrightarrow>
     sbq_write hw a v l = (0, log_event (SbqWr a v 0) (hw\<lparr>sbq_regs := (sbq_regs hw)(a := v)\<rparr>))"
  by (simp add: sbq_write_def next_status_def)

lemma log_event_more_fields [simp]:
  "phy_model (log_event e hw) = phy_model hw"
  "phy_ports (log_event e hw) = phy_ports hw"
  "max_phy_port (log_event e hw) = max_phy_port hw"
  "pf_id (log_event e hw) = pf_id hw"
  "tmr_index_owned (log_event e hw) = tmr_index_owned hw"
  "tmr_index_assoc (log_event e hw) = tmr_index_assoc hw"
  "time_ref (log_event e hw) = time_ref hw"
  "ts_ll_read (log_event e hw) = ts_ll_read hw"
  by (simp_all add: log_event_def)


section \<open>Staging and committing a timer command\<close>

lemma one_port_cmd_e822_sbq_only:
  "ice_ptp_one_port_cmd_e822 H hw port cmd l = (s, hw') \<Longrightarrow> sbq_only hw hw'"
  by (auto simp: ice_ptp_one_port_cmd_e822_def e822_acc_defs
       split: option.splits prod.splits sum.splits if_splits
       dest!: sbq_read_sbq_only sbq_write_sbq_only intro: sbq_only_trans)

lemma one_port_cmd_eth56g_sbq_only:
  "ice_ptp_one_port_cmd_eth56g H hw port cmd l = (s, hw') \<Longrightarrow> sbq_only hw hw'"
  by (auto simp: ice_ptp_one_port_cmd_eth56g_def eth56g_acc_defs Let_def
       split: option.splits prod.splits sum.splits if_splits
       dest!: sbq_read_sbq_only sbq_write_sbq_only intro: sbq_only_trans)

lemma port_cmd_e810_sbq_only:
  "ice_ptp_port_cmd_e810 H hw cmd l = (s, hw') \<Longrightarrow> sbq_only hw hw'"
  by (auto simp: ice_ptp_port_cmd_e810_def ice_ptp_port_cmd_def e810_acc_defs
       split: option.splits prod.splits sum.splits if_splits
       dest!: sbq_read_sbq_only sbq_write_sbq_only intro: sbq_only_trans)

lemma for_each_port_sbq_only:
  assumes "\<And>hw p s hw'. body hw p = (s, hw') \<Longrightarrow> sbq_only hw hw'"
  shows "for_each_port body ps hw = (s, hw') \<Longrightarrow> sbq_only hw hw'"
proof (induction ps arbitrary: hw)
  case Nil
  then show ?case by simp
next
  case (Cons p ps)
  obtain s1 hw1 where b: "body hw p = (s1, hw1)" by (cases "body hw p")
  have 1: "sbq_only hw hw1" using assms b by blast
  show ?case
  proof (cases "s1 = 0")
    case True
    with Cons.prems b have "for_each_port body ps hw1 = (s, hw')" by simp
    then have "sbq_only hw1 hw'" by (rule Cons.IH)
    with 1 show ?thesis by (rule sbq_only_trans)
  next
    case False
    with Cons.prems b have "hw' = hw1" by simp
    with 1 show ?thesis by simp
  qed
qed

lemma prepare_ports_sbq_only:
  "tmr_cmd_prepare_ports H hw cmd l = (s, hw') \<Longrightarrow> sbq_only hw hw'"
  by (auto simp: tmr_cmd_prepare_ports_def ice_ptp_port_cmd_e822_def ice_ptp_port_cmd_eth56g_def
      split: ice_phy_model.splits
      elim!: for_each_port_sbq_only[rotated] dest: one_port_cmd_e822_sbq_only
        one_port_cmd_eth56g_sbq_only port_cmd_e810_sbq_only)


lemma is_sbq_not_exec: "list_all is_sbq evs \<Longrightarrow> \<not> list_ex is_exec_pulse evs"
  by (induction evs) (auto simp: is_sbq_def is_exec_pulse_def split: event.splits)

text \<open>
  Claim C1. Whatever the timer command and the PHY family: when staging the command in the
  PHY ports fails, that is when the port switch of \<^verbatim>\<open>ice_ptp_tmr_cmd\<close>, run after the
  source timer has been prepared, returns a nonzero status, \<^verbatim>\<open>ice_ptp_tmr_cmd\<close> returns
  that status and ends in the state the staging left; the run has appended its events to
  the trace and none of them is a write of the execute pulse register
  \<^verbatim>\<open>GLTSYN_CMD_SYNC\<close>, whose stored value is unchanged. Since the hardware copies the
  staged values into the live timers only on that write, nothing staged is committed.
\<close>

theorem tmr_cmd_staging_failure:
  assumes stage: "tmr_cmd_prepare_ports H (ice_ptp_src_cmd H hw cmd) cmd lock_sbq = (status, hw')"
    and fail: "status \<noteq> 0"
  shows "ice_ptp_tmr_cmd H hw cmd lock_sbq = (status, hw') \<and>
         trace hw' = trace hw @ new_events hw hw' \<and>
         \<not> list_ex is_exec_pulse (new_events hw hw') \<and>
         mmio hw' GLTSYN_CMD_SYNC = mmio hw GLTSYN_CMD_SYNC"
proof -
  have ret: "ice_ptp_tmr_cmd H hw cmd lock_sbq = (status, hw')"
    using stage fail by (simp add: ice_ptp_tmr_cmd_def Let_def)
  from stage have so: "sbq_only (ice_ptp_src_cmd H hw cmd) hw'"
    by (rule prepare_ports_sbq_only)
  then obtain staged where
    tr: "trace hw' = trace (ice_ptp_src_cmd H hw cmd) @ staged" and sb: "list_all is_sbq staged"
    and mm: "mmio hw' = mmio (ice_ptp_src_cmd H hw cmd)"
    by (auto simp: sbq_only_def)
  obtain src where
    s1: "trace (ice_ptp_src_cmd H hw cmd) = trace hw @ src" and
    s2: "if cmd = ICE_PTP_TMR_CMD_OUT_OF_RANGE then src = [] else (\<exists>v. src = [Wr32 GLTSYN_CMD v])"
    using src_cmd_trace by blast
  have tr': "trace hw' = trace hw @ (src @ staged)" using tr s1 by simp
  have ne: "new_events hw hw' = src @ staged" using tr' by (rule new_events_append)
  have "\<not> list_ex is_exec_pulse src"
    using s2 by (auto simp: is_exec_pulse_def split: if_splits)
  moreover have "\<not> list_ex is_exec_pulse staged" using sb by (rule is_sbq_not_exec)
  ultimately have "\<not> list_ex is_exec_pulse (src @ staged)" by simp
  with ret tr' ne mm show ?thesis by simp
qed


lemma one_port_cmd_e822_ok:
  "ice_ptp_one_port_cmd_e822 H hw port cmd l = (0, hw') \<Longrightarrow> phy_model hw = ICE_PHY_E822 \<Longrightarrow>
     cfg hw' = cfg hw \<and> (\<exists>evs. trace hw' = trace hw @ evs \<and> port_staging hw port evs)"
  by (auto simp: ice_ptp_one_port_cmd_e822_def e822_acc_defs port_staging_def staging_regs_def is_rmw_def
         EINVAL_def
       split: option.splits prod.splits sum.splits if_splits
       dest!: sbq_read_D sbq_write_D)

lemma one_port_cmd_eth56g_ok:
  "ice_ptp_one_port_cmd_eth56g H hw port cmd l = (0, hw') \<Longrightarrow> phy_model hw = ICE_PHY_ETH56G \<Longrightarrow>
     cfg hw' = cfg hw \<and> (\<exists>evs. trace hw' = trace hw @ evs \<and> port_staging hw port evs)"
  by (auto simp: ice_ptp_one_port_cmd_eth56g_def eth56g_acc_defs port_staging_def staging_regs_def is_rmw_def Let_def
         EIO_def EINVAL_def
       split: option.splits prod.splits sum.splits if_splits
       dest!: sbq_read_D sbq_write_D)

lemma port_cmd_e810_ok:
  "ice_ptp_port_cmd_e810 H hw cmd l = (0, hw') \<Longrightarrow> phy_model hw = ICE_PHY_E810 \<Longrightarrow>
     cfg hw' = cfg hw \<and> (\<exists>evs. trace hw' = trace hw @ evs \<and> port_staging hw 0 evs)"
  by (auto simp: ice_ptp_port_cmd_e810_def ice_ptp_port_cmd_def e810_acc_defs port_staging_def
         staging_regs_def is_rmw_def EINVAL_def
       split: option.splits prod.splits sum.splits if_splits
       dest!: sbq_read_D sbq_write_D)

lemma port_staging_cfg:
  assumes "cfg hw = cfg hw0"
  shows "port_staging hw = port_staging hw0"
proof -
  from assms have "phy_model hw = phy_model hw0" and "phy_ports hw = phy_ports hw0"
    by (simp_all add: cfg_def)
  then show ?thesis by (simp add: port_staging_def fun_eq_iff)
qed

lemma tmr_cmd_port_count_cfg:
  assumes "cfg hw = cfg hw0"
  shows "tmr_cmd_port_count hw = tmr_cmd_port_count hw0"
proof -
  from assms have "phy_model hw = phy_model hw0" and "phy_ports hw = phy_ports hw0"
    and "max_phy_port hw = max_phy_port hw0"
    by (simp_all add: cfg_def)
  then show ?thesis by (simp add: tmr_cmd_port_count_def split: ice_phy_model.splits)
qed

lemma port_range_index: "port_range n = map of_nat [0..<unat n]"
  by (simp add: port_range_def)

lemma for_each_port_ok:
  assumes body: "\<And>hw p hw'. body hw p = (0, hw') \<Longrightarrow> cfg hw = cfg hw0 \<Longrightarrow>
             cfg hw' = cfg hw \<and> (\<exists>evs. trace hw' = trace hw @ evs \<and> Q p evs)"
  shows "for_each_port body ps hw = (0, hw') \<Longrightarrow> cfg hw = cfg hw0 \<Longrightarrow>
           cfg hw' = cfg hw0 \<and>
           (\<exists>chunks. trace hw' = trace hw @ concat chunks \<and> list_all2 Q ps chunks)"
proof (induction ps arbitrary: hw)
  case Nil
  then show ?case by simp
next
  case (Cons p ps)
  obtain s1 hw1 where b: "body hw p = (s1, hw1)" by (cases "body hw p")
  with Cons.prems(1) have s1: "s1 = 0" and rest: "for_each_port body ps hw1 = (0, hw')"
    by (auto split: if_splits)
  from body[OF b[unfolded s1] Cons.prems(2)] obtain evs where
    c1: "cfg hw1 = cfg hw" and t1: "trace hw1 = trace hw @ evs" and q: "Q p evs" by blast
  from Cons.IH[OF rest] c1 Cons.prems(2) obtain chunks where
    c2: "cfg hw' = cfg hw0" and t2: "trace hw' = trace hw1 @ concat chunks"
    and l: "list_all2 Q ps chunks" by auto
  have "trace hw' = trace hw @ concat (evs # chunks)" using t1 t2 by simp
  moreover have "list_all2 Q (p # ps) (evs # chunks)" using q l by simp
  ultimately show ?case using c2 by blast
qed

lemma prepare_ports_ok:
  assumes "tmr_cmd_prepare_ports H hw cmd l = (0, hw')"
  shows "\<exists>chunks. trace hw' = trace hw @ concat chunks \<and>
           list_all2 (port_staging hw) (map of_nat [0..<tmr_cmd_port_count hw]) chunks"
proof (cases "phy_model hw")
  case ICE_PHY_UNSUP
  with assms show ?thesis
    by (simp add: tmr_cmd_prepare_ports_def EOPNOTSUPP_def tmr_cmd_port_count_def)
next
  case ICE_PHY_E810
  with assms have "ice_ptp_port_cmd_e810 H hw cmd l = (0, hw')"
    by (simp add: tmr_cmd_prepare_ports_def)
  from port_cmd_e810_ok[OF this ICE_PHY_E810] obtain evs where
    "trace hw' = trace hw @ evs" "port_staging hw 0 evs" by blast
  then have "trace hw' = trace hw @ concat [evs] \<and> list_all2 (port_staging hw) [0] [evs]"
    by simp
  then show ?thesis using ICE_PHY_E810 unfolding tmr_cmd_port_count_def
    by (simp del: concat.simps) blast
next
  case ICE_PHY_E822
  with assms have run: "for_each_port (\<lambda>hw port. ice_ptp_one_port_cmd_e822 H hw port cmd l)
       (port_range (phy_ports hw)) hw = (0, hw')"
    by (simp add: tmr_cmd_prepare_ports_def ice_ptp_port_cmd_e822_def)
  have "cfg hw' = cfg hw \<and> (\<exists>chunks. trace hw' = trace hw @ concat chunks \<and>
          list_all2 (port_staging hw) (port_range (phy_ports hw)) chunks)"
  proof (rule for_each_port_ok[OF _ run refl])
    fix hwa p hwb
    assume a: "ice_ptp_one_port_cmd_e822 H hwa p cmd l = (0, hwb)" and c: "cfg hwa = cfg hw"
    from c ICE_PHY_E822 have "phy_model hwa = ICE_PHY_E822" by (simp add: cfg_def)
    from one_port_cmd_e822_ok[OF a this] port_staging_cfg[OF c]
    show "cfg hwb = cfg hwa \<and> (\<exists>evs. trace hwb = trace hwa @ evs \<and> port_staging hw p evs)"
      by simp
  qed
  then show ?thesis using ICE_PHY_E822
    by (simp add: tmr_cmd_port_count_def port_range_index)
next
  case ICE_PHY_ETH56G
  with assms have run: "for_each_port (\<lambda>hw port. ice_ptp_one_port_cmd_eth56g H hw port cmd l)
       (port_range (max_phy_port hw)) hw = (0, hw')"
    by (simp add: tmr_cmd_prepare_ports_def ice_ptp_port_cmd_eth56g_def)
  have "cfg hw' = cfg hw \<and> (\<exists>chunks. trace hw' = trace hw @ concat chunks \<and>
          list_all2 (port_staging hw) (port_range (max_phy_port hw)) chunks)"
  proof (rule for_each_port_ok[OF _ run refl])
    fix hwa p hwb
    assume a: "ice_ptp_one_port_cmd_eth56g H hwa p cmd l = (0, hwb)" and c: "cfg hwa = cfg hw"
    from c ICE_PHY_ETH56G have "phy_model hwa = ICE_PHY_ETH56G" by (simp add: cfg_def)
    from one_port_cmd_eth56g_ok[OF a this] port_staging_cfg[OF c]
    show "cfg hwb = cfg hwa \<and> (\<exists>evs. trace hwb = trace hwa @ evs \<and> port_staging hw p evs)"
      by simp
  qed
  then show ?thesis using ICE_PHY_ETH56G
    by (simp add: tmr_cmd_port_count_def port_range_index)
qed

text \<open>
  Claim C2. In every successful run of \<^verbatim>\<open>ice_ptp_tmr_cmd\<close> with an enumerated command (on
  ETH56G, with a nonzero number of ports per PHY), the events of the run are, in this
  order: one write of the source timer command register \<^verbatim>\<open>GLTSYN_CMD\<close>; for each of the
  port numbers \<open>0, 1, ...\<close> below the port count of the family, in this order, the staging
  of the command in that port (a read-modify-write of its Tx and of its Rx command
  register), which consists of sideband transactions only; one write of the execute pulse
  to \<^verbatim>\<open>GLTSYN_CMD_SYNC\<close> and its flush; the write of zero to \<^verbatim>\<open>GLTSYN_CMD\<close> and its flush.
  So there is exactly one execute pulse and it comes after every port staging.
\<close>

theorem tmr_cmd_order:
  assumes ok: "ice_ptp_tmr_cmd H hw cmd lock_sbq = (0, hw')"
    and enumerated: "cmd \<noteq> ICE_PTP_TMR_CMD_OUT_OF_RANGE"
    and ports: "phy_model hw = ICE_PHY_ETH56G \<Longrightarrow> phy_ports hw \<noteq> 0"
  shows "\<exists>v chunks.
           trace hw' = trace hw @ [Wr32 GLTSYN_CMD v] @ concat chunks @
             [Wr32 GLTSYN_CMD_SYNC (H ''SYNC_EXEC_CMD''), Flush, Wr32 GLTSYN_CMD 0, Flush] \<and>
           length chunks = tmr_cmd_port_count hw \<and>
           (\<forall>i < tmr_cmd_port_count hw. port_staging hw (of_nat i) (chunks ! i)) \<and>
           list_all2 (port_staging hw) (map of_nat [0..<tmr_cmd_port_count hw]) chunks \<and>
           list_all (list_all is_sbq) chunks"
proof -
  let ?hw1 = "ice_ptp_src_cmd H hw cmd"
  obtain s hw2 where st: "tmr_cmd_prepare_ports H ?hw1 cmd lock_sbq = (s, hw2)"
    by (cases "tmr_cmd_prepare_ports H ?hw1 cmd lock_sbq")
  from ok st have s0: "s = 0" and fin: "hw' = ice_ptp_clean_cmd (ice_ptp_exec_tmr_cmd H hw2)"
    by (auto simp: ice_ptp_tmr_cmd_def Let_def split: if_splits)
  from prepare_ports_ok[OF st[unfolded s0]] obtain chunks where
    t2: "trace hw2 = trace ?hw1 @ concat chunks" and
    l: "list_all2 (port_staging ?hw1) (map of_nat [0..<tmr_cmd_port_count ?hw1]) chunks" by blast
  have c1: "cfg ?hw1 = cfg hw" by simp
  have l': "list_all2 (port_staging hw) (map of_nat [0..<tmr_cmd_port_count hw]) chunks"
    using l port_staging_cfg[OF c1] tmr_cmd_port_count_cfg[OF c1] by simp
  have len: "length chunks = tmr_cmd_port_count hw"
    using list_all2_lengthD[OF l'] by simp
  have idx: "\<forall>i < tmr_cmd_port_count hw. port_staging hw (of_nat i) (chunks ! i)"
  proof (intro allI impI)
    fix i assume i: "i < tmr_cmd_port_count hw"
    then have "i < length (map (of_nat :: nat \<Rightarrow> u8) [0..<tmr_cmd_port_count hw])" by simp
    from list_all2_nthD[OF l' this] i
    show "port_staging hw (of_nat i) (chunks ! i)" by simp
  qed
  obtain v where t1: "trace ?hw1 = trace hw @ [Wr32 GLTSYN_CMD v]"
    using src_cmd_trace[of H hw cmd] enumerated by auto
  have sb: "list_all (list_all is_sbq) chunks"
    using l' by (induction rule: list_all2_induct)
      (auto simp: port_staging_def staging_regs_def is_rmw_def is_sbq_def
         split: ice_phy_model.splits list.splits event.splits elim!: rmw_seq.elims)
  have "trace hw' = trace hw @ [Wr32 GLTSYN_CMD v] @ concat chunks @
             [Wr32 GLTSYN_CMD_SYNC (H ''SYNC_EXEC_CMD''), Flush, Wr32 GLTSYN_CMD 0, Flush]"
    using fin t1 t2 by (simp add: ice_ptp_clean_cmd_def ice_ptp_exec_tmr_cmd_def)
  with l' sb len idx show ?thesis by blast
qed


theorem tmr_cmd_staging_failure_witness:
  "fst (tmr_cmd_prepare_ports H0 (ice_ptp_src_cmd H0 hw_e822_faulty ICE_PTP_INIT_TIME)
          ICE_PTP_INIT_TIME True) = - 5 \<and>
   fst (ice_ptp_tmr_cmd H0 hw_e822_faulty ICE_PTP_INIT_TIME True) = - 5 \<and>
   \<not> list_ex is_exec_pulse
       (new_events hw_e822_faulty
          (snd (ice_ptp_tmr_cmd H0 hw_e822_faulty ICE_PTP_INIT_TIME True)))"
proof -
  let ?r = "tmr_cmd_prepare_ports H0 (ice_ptp_src_cmd H0 hw_e822_faulty ICE_PTP_INIT_TIME)
              ICE_PTP_INIT_TIME True"
  have ev: "fst ?r = - 5" by code_simp
  have prem: "?r = (- 5, snd ?r)" by (rule prod_eqI) (simp_all only: ev fst_conv snd_conv)
  have neq: "(- 5 :: int) \<noteq> 0" by simp
  note th = tmr_cmd_staging_failure[OF prem neq]
  from th have a: "ice_ptp_tmr_cmd H0 hw_e822_faulty ICE_PTP_INIT_TIME True = (- 5, snd ?r)"
    by (rule conjunct1)
  from th have b: "\<not> list_ex is_exec_pulse (new_events hw_e822_faulty (snd ?r))"
    by (elim conjE)
  show ?thesis
    unfolding a fst_conv snd_conv by (intro conjI ev b refl)
qed

theorem tmr_cmd_order_witness:
  "(fst (ice_ptp_tmr_cmd H0 hw_e822 ICE_PTP_INIT_TIME True) = 0 \<and>
    phy_model hw_e822 = ICE_PHY_E822 \<and> tmr_cmd_port_count hw_e822 = 2 \<and>
    trace (snd (ice_ptp_tmr_cmd H0 hw_e822 ICE_PTP_INIT_TIME True)) =
      [Wr32 GLTSYN_CMD 1,
       SbqRd (E822_PORT 0 P_REG_TX_TMR_CMD) 0, SbqWr (E822_PORT 0 P_REG_TX_TMR_CMD) 1 0,
       SbqRd (E822_PORT 0 P_REG_RX_TMR_CMD) 0, SbqWr (E822_PORT 0 P_REG_RX_TMR_CMD) 1 0,
       SbqRd (E822_PORT 1 P_REG_TX_TMR_CMD) 0, SbqWr (E822_PORT 1 P_REG_TX_TMR_CMD) 1 0,
       SbqRd (E822_PORT 1 P_REG_RX_TMR_CMD) 0, SbqWr (E822_PORT 1 P_REG_RX_TMR_CMD) 1 0,
       Wr32 GLTSYN_CMD_SYNC 3, Flush, Wr32 GLTSYN_CMD 0, Flush] \<and>
    port_staging hw_e822 0
      [SbqRd (E822_PORT 0 P_REG_TX_TMR_CMD) 0, SbqWr (E822_PORT 0 P_REG_TX_TMR_CMD) 1 0,
       SbqRd (E822_PORT 0 P_REG_RX_TMR_CMD) 0, SbqWr (E822_PORT 0 P_REG_RX_TMR_CMD) 1 0] \<and>
    port_staging hw_e822 1
      [SbqRd (E822_PORT 1 P_REG_TX_TMR_CMD) 0, SbqWr (E822_PORT 1 P_REG_TX_TMR_CMD) 1 0,
       SbqRd (E822_PORT 1 P_REG_RX_TMR_CMD) 0, SbqWr (E822_PORT 1 P_REG_RX_TMR_CMD) 1 0] \<and>
    \<not> port_staging hw_e822 1
      [SbqRd (E822_PORT 0 P_REG_TX_TMR_CMD) 0, SbqWr (E822_PORT 0 P_REG_TX_TMR_CMD) 1 0,
       SbqRd (E822_PORT 0 P_REG_RX_TMR_CMD) 0, SbqWr (E822_PORT 0 P_REG_RX_TMR_CMD) 1 0] \<and>
    (\<exists>v chunks.
       trace (snd (ice_ptp_tmr_cmd H0 hw_e822 ICE_PTP_INIT_TIME True)) =
         trace hw_e822 @ [Wr32 GLTSYN_CMD v] @ concat chunks @
           [Wr32 GLTSYN_CMD_SYNC (H0 ''SYNC_EXEC_CMD''), Flush, Wr32 GLTSYN_CMD 0, Flush] \<and>
       length chunks = tmr_cmd_port_count hw_e822 \<and>
       (\<forall>i < tmr_cmd_port_count hw_e822. port_staging hw_e822 (of_nat i) (chunks ! i)) \<and>
       list_all2 (port_staging hw_e822) (map of_nat [0..<tmr_cmd_port_count hw_e822]) chunks \<and>
       list_all (list_all is_sbq) chunks)) \<and>
   (fst (ice_ptp_tmr_cmd H0 hw_eth56g ICE_PTP_ADJ_TIME True) = 0 \<and>
    phy_model hw_eth56g = ICE_PHY_ETH56G \<and> phy_ports hw_eth56g \<noteq> 0 \<and>
    tmr_cmd_port_count hw_eth56g = 2 \<and>
    trace (snd (ice_ptp_tmr_cmd H0 hw_eth56g ICE_PTP_ADJ_TIME True)) =
      [Wr32 GLTSYN_CMD 4,
       SbqRd (ETH56G 0 0 ETH56G_PHY_REG PHY_REG_TX_TMR_CMD) 0,
       SbqWr (ETH56G 0 0 ETH56G_PHY_REG PHY_REG_TX_TMR_CMD) 3 0,
       SbqRd (ETH56G 0 0 ETH56G_PHY_REG PHY_REG_RX_TMR_CMD) 0,
       SbqWr (ETH56G 0 0 ETH56G_PHY_REG PHY_REG_RX_TMR_CMD) 3 0,
       SbqRd (ETH56G 0 1 ETH56G_PHY_REG PHY_REG_TX_TMR_CMD) 0,
       SbqWr (ETH56G 0 1 ETH56G_PHY_REG PHY_REG_TX_TMR_CMD) 3 0,
       SbqRd (ETH56G 0 1 ETH56G_PHY_REG PHY_REG_RX_TMR_CMD) 0,
       SbqWr (ETH56G 0 1 ETH56G_PHY_REG PHY_REG_RX_TMR_CMD) 3 0,
       Wr32 GLTSYN_CMD_SYNC 3, Flush, Wr32 GLTSYN_CMD 0, Flush] \<and>
    (\<exists>v chunks.
       trace (snd (ice_ptp_tmr_cmd H0 hw_eth56g ICE_PTP_ADJ_TIME True)) =
         trace hw_eth56g @ [Wr32 GLTSYN_CMD v] @ concat chunks @
           [Wr32 GLTSYN_CMD_SYNC (H0 ''SYNC_EXEC_CMD''), Flush, Wr32 GLTSYN_CMD 0, Flush] \<and>
       length chunks = tmr_cmd_port_count hw_eth56g \<and>
       (\<forall>i < tmr_cmd_port_count hw_eth56g. port_staging hw_eth56g (of_nat i) (chunks ! i)) \<and>
       list_all2 (port_staging hw_eth56g) (map of_nat [0..<tmr_cmd_port_count hw_eth56g]) chunks \<and>
       list_all (list_all is_sbq) chunks))"
proof -
  let ?a = "ice_ptp_tmr_cmd H0 hw_e822 ICE_PTP_INIT_TIME True"
  have a1: "fst ?a = 0" by code_simp
  have a2: "?a = (0, snd ?a)" by (rule prod_eqI) (simp_all only: a1 fst_conv snd_conv)
  have a3: "phy_model hw_e822 = ICE_PHY_E822" by code_simp
  have a4: "tmr_cmd_port_count hw_e822 = 2" by code_simp
  have a5: "trace (snd ?a) =
      [Wr32 GLTSYN_CMD 1,
       SbqRd (E822_PORT 0 P_REG_TX_TMR_CMD) 0, SbqWr (E822_PORT 0 P_REG_TX_TMR_CMD) 1 0,
       SbqRd (E822_PORT 0 P_REG_RX_TMR_CMD) 0, SbqWr (E822_PORT 0 P_REG_RX_TMR_CMD) 1 0,
       SbqRd (E822_PORT 1 P_REG_TX_TMR_CMD) 0, SbqWr (E822_PORT 1 P_REG_TX_TMR_CMD) 1 0,
       SbqRd (E822_PORT 1 P_REG_RX_TMR_CMD) 0, SbqWr (E822_PORT 1 P_REG_RX_TMR_CMD) 1 0,
       Wr32 GLTSYN_CMD_SYNC 3, Flush, Wr32 GLTSYN_CMD 0, Flush]" by code_simp
  have a6: "port_staging hw_e822 0
      [SbqRd (E822_PORT 0 P_REG_TX_TMR_CMD) 0, SbqWr (E822_PORT 0 P_REG_TX_TMR_CMD) 1 0,
       SbqRd (E822_PORT 0 P_REG_RX_TMR_CMD) 0, SbqWr (E822_PORT 0 P_REG_RX_TMR_CMD) 1 0]"
    by code_simp
  have a7: "port_staging hw_e822 1
      [SbqRd (E822_PORT 1 P_REG_TX_TMR_CMD) 0, SbqWr (E822_PORT 1 P_REG_TX_TMR_CMD) 1 0,
       SbqRd (E822_PORT 1 P_REG_RX_TMR_CMD) 0, SbqWr (E822_PORT 1 P_REG_RX_TMR_CMD) 1 0]"
    by code_simp
  have a8: "\<not> port_staging hw_e822 1
      [SbqRd (E822_PORT 0 P_REG_TX_TMR_CMD) 0, SbqWr (E822_PORT 0 P_REG_TX_TMR_CMD) 1 0,
       SbqRd (E822_PORT 0 P_REG_RX_TMR_CMD) 0, SbqWr (E822_PORT 0 P_REG_RX_TMR_CMD) 1 0]"
    by code_simp
  have a9: "phy_model hw_e822 = ICE_PHY_ETH56G \<Longrightarrow> phy_ports hw_e822 \<noteq> 0" by code_simp
  have ca: "ICE_PTP_INIT_TIME \<noteq> ICE_PTP_TMR_CMD_OUT_OF_RANGE" by simp
  let ?r = "ice_ptp_tmr_cmd H0 hw_eth56g ICE_PTP_ADJ_TIME True"
  have ev: "fst ?r = 0" by code_simp
  have prem: "?r = (0, snd ?r)" by (rule prod_eqI) (simp_all only: ev fst_conv snd_conv)
  have m: "phy_model hw_eth56g = ICE_PHY_ETH56G" and n: "phy_ports hw_eth56g \<noteq> 0"
    by (simp_all add: hw_eth56g_def hw_e822_def)
  have k: "tmr_cmd_port_count hw_eth56g = 2" by code_simp
  have t: "trace (snd ?r) =
      [Wr32 GLTSYN_CMD 4,
       SbqRd (ETH56G 0 0 ETH56G_PHY_REG PHY_REG_TX_TMR_CMD) 0,
       SbqWr (ETH56G 0 0 ETH56G_PHY_REG PHY_REG_TX_TMR_CMD) 3 0,
       SbqRd (ETH56G 0 0 ETH56G_PHY_REG PHY_REG_RX_TMR_CMD) 0,
       SbqWr (ETH56G 0 0 ETH56G_PHY_REG PHY_REG_RX_TMR_CMD) 3 0,
       SbqRd (ETH56G 0 1 ETH56G_PHY_REG PHY_REG_TX_TMR_CMD) 0,
       SbqWr (ETH56G 0 1 ETH56G_PHY_REG PHY_REG_TX_TMR_CMD) 3 0,
       SbqRd (ETH56G 0 1 ETH56G_PHY_REG PHY_REG_RX_TMR_CMD) 0,
       SbqWr (ETH56G 0 1 ETH56G_PHY_REG PHY_REG_RX_TMR_CMD) 3 0,
       Wr32 GLTSYN_CMD_SYNC 3, Flush, Wr32 GLTSYN_CMD 0, Flush]" by code_simp
  have c: "ICE_PTP_ADJ_TIME \<noteq> ICE_PTP_TMR_CMD_OUT_OF_RANGE" by simp
  show ?thesis
    by (intro conjI a1 a3 a4 a5 a6 a7 a8 tmr_cmd_order[OF a2 ca a9]
        ev m n k t tmr_cmd_order[OF prem c n])
qed

section \<open>The command of a single port\<close>

text \<open>
  Claim C3. \<^verbatim>\<open>ice_ptp_one_port_cmd\<close> does not use its arguments \<^verbatim>\<open>cmd\<close> and
  \<^verbatim>\<open>lock_sbq\<close>: whatever the device, the port, the command and the flag, it does what it
  does for the command \<^verbatim>\<open>ICE_PTP_READ_TIME\<close> with the sideband queue lock taken.
\<close>

theorem one_port_cmd_ignores_cmd:
  "ice_ptp_one_port_cmd H hw port cmd lock_sbq =
     ice_ptp_one_port_cmd H hw port ICE_PTP_READ_TIME True"
  by (simp add: ice_ptp_one_port_cmd_def)

text \<open>
  On the idle E822 device, asked for \<^verbatim>\<open>ICE_PTP_INIT_TIME\<close> on port 0, the function
  succeeds and leaves the opcode of \<^verbatim>\<open>ICE_PTP_READ_TIME\<close> in the Tx and Rx timer command
  registers of the port, which is not the opcode of the command asked for.
\<close>

theorem one_port_cmd_init_time_example:
  "fst (ice_ptp_one_port_cmd H0 hw_e822 0 ICE_PTP_INIT_TIME True) = 0 \<and>
   sbq_regs (snd (ice_ptp_one_port_cmd H0 hw_e822 0 ICE_PTP_INIT_TIME True))
     (E822_PORT 0 P_REG_TX_TMR_CMD) = H0 ''PHY_CMD_READ_TIME'' \<and>
   sbq_regs (snd (ice_ptp_one_port_cmd H0 hw_e822 0 ICE_PTP_INIT_TIME True))
     (E822_PORT 0 P_REG_RX_TMR_CMD) = H0 ''PHY_CMD_READ_TIME'' \<and>
   H0 ''PHY_CMD_READ_TIME'' \<noteq> H0 ''PHY_CMD_INIT_TIME''"
  by code_simp


section \<open>The holdover latch of the DPLL state\<close>

text \<open>
  Claim C5. For a valid DPLL index and a firmware reply that succeeds with the lock bit of
  the DPLL state clear, \<^verbatim>\<open>ice_get_cgu_state\<close> returns \<^verbatim>\<open>ICE_CGU_STATE_HOLDOVER\<close> when
  the previous state is \<^verbatim>\<open>ICE_CGU_STATE_LOCKED_HO_ACQ\<close> or \<^verbatim>\<open>ICE_CGU_STATE_HOLDOVER\<close>, and
  \<^verbatim>\<open>ICE_CGU_STATE_FREERUN\<close> for every other previous state.
\<close>

theorem cgu_state_holdover_latch:
  assumes idx: "(ucast dpll_idx :: u32) < H ''ICE_CGU_DPLL_MAX''"
    and reply: "aq_status (aq_dpll hw dpll_idx) = 0"
    and unlocked: "(ucast (dpll_state (aq_dpll hw dpll_idx)) :: u32) AND
                     H ''ICE_AQC_GET_CGU_DPLL_STATUS_STATE_LOCK'' = 0"
  shows "fst (ice_get_cgu_state H hw dpll_idx pin phase_offset last_dpll_state) =
           (if last_dpll_state = ICE_CGU_STATE_LOCKED_HO_ACQ \<or>
               last_dpll_state = ICE_CGU_STATE_HOLDOVER
            then ICE_CGU_STATE_HOLDOVER else ICE_CGU_STATE_FREERUN)"
  using assms by (simp add: ice_get_cgu_state_def Let_def not_le[symmetric])

theorem cgu_state_holdover_latch_witness:
  "(ucast (0 :: u8) :: u32) < H0 ''ICE_CGU_DPLL_MAX'' \<and>
   aq_status (aq_dpll hw_e822 0) = 0 \<and>
   (ucast (dpll_state (aq_dpll hw_e822 0)) :: u32) AND
      H0 ''ICE_AQC_GET_CGU_DPLL_STATUS_STATE_LOCK'' = 0 \<and>
   fst (ice_get_cgu_state H0 hw_e822 0 True True ICE_CGU_STATE_LOCKED_HO_ACQ) =
     ICE_CGU_STATE_HOLDOVER"
proof -
  have a: "(ucast (0 :: u8) :: u32) < H0 ''ICE_CGU_DPLL_MAX''" by code_simp
  have b: "aq_status (aq_dpll hw_e822 0) = 0" by code_simp
  have c: "(ucast (dpll_state (aq_dpll hw_e822 0)) :: u32) AND
      H0 ''ICE_AQC_GET_CGU_DPLL_STATUS_STATE_LOCK'' = 0" by code_simp
  have d: "fst (ice_get_cgu_state H0 hw_e822 0 True True ICE_CGU_STATE_LOCKED_HO_ACQ) =
     ICE_CGU_STATE_HOLDOVER"
    using cgu_state_holdover_latch[OF a b c, of True True ICE_CGU_STATE_LOCKED_HO_ACQ]
    by simp
  show ?thesis by (intro conjI a b c d)
qed


section \<open>Rejected PLL configurations\<close>

text \<open>
  Claim C6. When the frequency or the clock source is outside its enumerated range, or the
  source is \<^verbatim>\<open>ICE_CLK_SRC_TCX0\<close> and the frequency is not \<^verbatim>\<open>ICE_TIME_REF_FREQ_25_000\<close>,
  both \<^verbatim>\<open>ice_cfg_cgu_pll_e822\<close> and \<^verbatim>\<open>ice_cfg_cgu_pll_e825c\<close> return \<^verbatim>\<open>-EINVAL\<close>, leave
  the two arguments as they were and leave the device, its trace included, exactly as it
  was: no register is read or written.
\<close>

theorem cfg_cgu_pll_rejects_before_io:
  assumes "clk_freq \<ge> H ''NUM_ICE_TIME_REF_FREQ'' \<or> clk_src \<ge> H ''NUM_ICE_CLK_SRC'' \<or>
           (clk_src = H ''ICE_CLK_SRC_TCX0'' \<and> clk_freq \<noteq> H ''ICE_TIME_REF_FREQ_25_000'')"
  shows "ice_cfg_cgu_pll_e822 T H hw clk_freq clk_src = ((- EINVAL, clk_freq, clk_src), hw) \<and>
         ice_cfg_cgu_pll_e825c T H hw clk_freq clk_src = ((- EINVAL, clk_freq, clk_src), hw)"
  using assms by (auto simp: ice_cfg_cgu_pll_e822_def ice_cfg_cgu_pll_e825c_def)

theorem cfg_cgu_pll_rejects_before_io_witness:
  "(0 :: u32) = H0 ''ICE_CLK_SRC_TCX0'' \<and> (1 :: u32) \<noteq> H0 ''ICE_TIME_REF_FREQ_25_000'' \<and>
   ice_cfg_cgu_pll_e822 T0 H0 hw_e822 1 0 = ((- EINVAL, 1, 0), hw_e822) \<and>
   ice_cfg_cgu_pll_e825c T0 H0 hw_e822 1 0 = ((- EINVAL, 1, 0), hw_e822)"
proof -
  have a: "(0 :: u32) = H0 ''ICE_CLK_SRC_TCX0''" by code_simp
  have b: "(1 :: u32) \<noteq> H0 ''ICE_TIME_REF_FREQ_25_000''" by code_simp
  from a b have p: "(1 :: u32) \<ge> H0 ''NUM_ICE_TIME_REF_FREQ'' \<or> (0 :: u32) \<ge> H0 ''NUM_ICE_CLK_SRC'' \<or>
           ((0 :: u32) = H0 ''ICE_CLK_SRC_TCX0'' \<and> (1 :: u32) \<noteq> H0 ''ICE_TIME_REF_FREQ_25_000'')"
    by blast
  note th = cfg_cgu_pll_rejects_before_io[OF p, of T0 hw_e822]
  show ?thesis by (intro conjI a b th[THEN conjunct1] th[THEN conjunct2])
qed


section \<open>The discipline of the semaphore\<close>

lemma lock_tries_events:
  "lock_tries H n hw = (ok, hw') \<Longrightarrow>
     cfg hw' = cfg hw \<and>
     (\<exists>vs. length vs \<le> n \<and> trace hw' = trace hw @ poll_events H (pf_id hw) vs \<and>
           (\<forall>v \<in> set (butlast vs). busy H v) \<and>
           (ok \<longrightarrow> vs \<noteq> [] \<and> \<not> busy H (last vs)) \<and>
           (\<not> ok \<longrightarrow> length vs = n \<and> (\<forall>v \<in> set vs. busy H v)))"
proof (induction n arbitrary: hw)
  case 0
  then show ?case by (auto simp: poll_events_def)
next
  case (Suc n)
  obtain v hw1 where r: "rd32 hw (PFTSYN_SEM (pf_id hw)) = (v, hw1)"
    by (cases "rd32 hw (PFTSYN_SEM (pf_id hw))")
  note h1 = rd32_D[OF r]
  have t1: "trace hw1 = trace hw @ [Rd32 (PFTSYN_SEM (pf_id hw)) v]" and c1: "cfg hw1 = cfg hw"
    and p1: "pf_id hw1 = pf_id hw"
    by (simp_all add: h1)
  show ?case
  proof (cases "busy H v")
    case False
    with Suc.prems r have "ok" "hw' = hw1" by (auto simp: busy_def)
    then show ?thesis using False t1 c1
      by (auto simp: poll_events_def intro!: exI[of _ "[v]"])
  next
    case True
    with Suc.prems r have rest: "lock_tries H n (usleep_range hw1 5000 6000) = (ok, hw')"
      by (auto simp: busy_def)
    from Suc.IH[OF rest] obtain vs where
      c: "cfg hw' = cfg hw1" and l: "length vs \<le> n" and
      t: "trace hw' = trace hw1 @ [Usleep_range 5000 6000] @ poll_events H (pf_id hw) vs" and
      b: "\<forall>v \<in> set (butlast vs). busy H v" and
      o: "ok \<longrightarrow> vs \<noteq> [] \<and> \<not> busy H (last vs)" and
      f: "\<not> ok \<longrightarrow> length vs = n \<and> (\<forall>v \<in> set vs. busy H v)"
      by (auto simp: p1)
    have "trace hw' = trace hw @ poll_events H (pf_id hw) (v # vs)"
      using t t1 True by (simp add: poll_events_def)
    moreover have "\<forall>x \<in> set (butlast (v # vs)). busy H x" using b True by auto
    moreover have "ok \<longrightarrow> v # vs \<noteq> [] \<and> \<not> busy H (last (v # vs))" using o by auto
    moreover have "\<not> ok \<longrightarrow> length (v # vs) = Suc n \<and> (\<forall>x \<in> set (v # vs). busy H x)"
      using f True by auto
    moreover have "length (v # vs) \<le> Suc n" using l by simp
    ultimately show ?thesis using c c1 by metis
  qed
qed

lemma poll_events_no_write: "\<not> list_ex is_write (poll_events H pf vs)"
  by (induction vs) (auto simp: poll_events_def is_write_def)


lemma no_unlock_refl [simp]: "no_unlock hw hw"
  by (simp add: no_unlock_def)

lemma no_unlock_trans: "no_unlock a b \<Longrightarrow> no_unlock b c \<Longrightarrow> no_unlock a c"
  by (auto simp: no_unlock_def)

lemma is_sbq_not_sem: "list_all is_sbq evs \<Longrightarrow> \<not> list_ex is_sem_write evs"
  by (induction evs) (auto simp: is_sbq_def is_sem_write_def split: event.splits)

lemma sbq_only_no_unlock: "sbq_only a b \<Longrightarrow> no_unlock a b"
  by (auto simp: sbq_only_def no_unlock_def dest: is_sbq_not_sem)

lemma rd32_no_unlock: "rd32 hw r = (v, hw') \<Longrightarrow> no_unlock hw hw'"
  by (auto simp: no_unlock_def is_sem_write_def dest!: rd32_D)

lemma src_cmd_no_unlock [simp]: "no_unlock hw (ice_ptp_src_cmd H hw cmd)"
  using src_cmd_trace[of H hw cmd]
  by (auto simp: no_unlock_def is_sem_write_def split: if_splits)

lemma exec_clean_no_unlock [simp]:
  "no_unlock hw (ice_ptp_clean_cmd (ice_ptp_exec_tmr_cmd H hw))"
  by (simp add: no_unlock_def ice_ptp_clean_cmd_def ice_ptp_exec_tmr_cmd_def is_sem_write_def)

lemma tmr_cmd_no_unlock: "ice_ptp_tmr_cmd H hw cmd l = (s, hw') \<Longrightarrow> no_unlock hw hw'"
proof -
  assume a: "ice_ptp_tmr_cmd H hw cmd l = (s, hw')"
  obtain s1 hw1 where p: "tmr_cmd_prepare_ports H (ice_ptp_src_cmd H hw cmd) cmd l = (s1, hw1)"
    by (cases "tmr_cmd_prepare_ports H (ice_ptp_src_cmd H hw cmd) cmd l")
  have 1: "no_unlock hw hw1"
    using no_unlock_trans[OF src_cmd_no_unlock sbq_only_no_unlock[OF prepare_ports_sbq_only[OF p]]] .
  show ?thesis
  proof (cases "s1 = 0")
    case True
    with a p have "hw' = ice_ptp_clean_cmd (ice_ptp_exec_tmr_cmd H hw1)"
      by (simp add: ice_ptp_tmr_cmd_def Let_def)
    then show ?thesis using 1 no_unlock_trans exec_clean_no_unlock by blast
  next
    case False
    with a p have "hw' = hw1" by (simp add: ice_ptp_tmr_cmd_def Let_def)
    then show ?thesis using 1 by simp
  qed
qed

lemma write_40b_e822_sbq_only:
  "ice_write_40b_phy_reg_e822 H hw port r v = (s, hw') \<Longrightarrow> sbq_only hw hw'"
  by (auto simp: ice_write_40b_phy_reg_e822_def e822_acc_defs Let_def
       split: option.splits prod.splits if_splits
       dest!: sbq_write_sbq_only intro: sbq_only_trans)

lemma write_40b_eth56g_sbq_only:
  "ice_write_40b_phy_reg_eth56g H hw port r v = (s, hw') \<Longrightarrow> sbq_only hw hw'"
  by (auto simp: ice_write_40b_phy_reg_eth56g_def eth56g_acc_defs Let_def
       split: option.splits prod.splits if_splits
       dest!: sbq_write_sbq_only intro: sbq_only_trans)

lemma prep_incval_e810_sbq_only:
  "ice_ptp_prep_phy_incval_e810 hw v = (s, hw') \<Longrightarrow> sbq_only hw hw'"
  by (auto simp: ice_ptp_prep_phy_incval_e810_def e810_acc_defs Let_def
       split: option.splits prod.splits if_splits
       dest!: sbq_write_sbq_only intro: sbq_only_trans)

lemma prep_incval_sbq_only:
  "(case phy_model hw of
      ICE_PHY_ETH56G \<Rightarrow> ice_ptp_prep_phy_incval_eth56g H hw incval
    | ICE_PHY_E810 \<Rightarrow> ice_ptp_prep_phy_incval_e810 hw incval
    | ICE_PHY_E822 \<Rightarrow> ice_ptp_prep_phy_incval_e822 H hw incval
    | _ \<Rightarrow> (- EOPNOTSUPP, hw)) = (s, hw') \<Longrightarrow> sbq_only hw hw'"
  by (auto simp: ice_ptp_prep_phy_incval_eth56g_def ice_ptp_prep_phy_incval_e822_def
      split: ice_phy_model.splits
      elim!: for_each_port_sbq_only[rotated]
      dest: write_40b_e822_sbq_only write_40b_eth56g_sbq_only prep_incval_e810_sbq_only)

lemma write_incval_no_unlock:
  assumes "ice_ptp_write_incval H hw incval w = (s, hw')"
  shows "no_unlock hw hw'"
proof -
  define hw1 where "hw1 = (if w
                 then wr32 (wr32 hw (GLTSYN_SHADJ_L (tmr_index_owned hw)) (lower_32_bits incval))
                        (GLTSYN_SHADJ_H (tmr_index_owned hw)) (upper_32_bits incval)
                 else hw)"
  have 1: "no_unlock hw hw1"
    by (simp add: hw1_def no_unlock_def is_sem_write_def)
  have unf: "ice_ptp_write_incval H hw incval w =
     (case (case phy_model hw1 of
                 ICE_PHY_ETH56G \<Rightarrow> ice_ptp_prep_phy_incval_eth56g H hw1 incval
               | ICE_PHY_E810 \<Rightarrow> ice_ptp_prep_phy_incval_e810 hw1 incval
               | ICE_PHY_E822 \<Rightarrow> ice_ptp_prep_phy_incval_e822 H hw1 incval
               | _ \<Rightarrow> (- EOPNOTSUPP, hw1)) of (status, hw2) \<Rightarrow>
         if status \<noteq> 0 then (status, hw2)
         else ice_ptp_tmr_cmd H hw2 ICE_PTP_INIT_INCVAL True)"
    unfolding ice_ptp_write_incval_def Let_def hw1_def by (rule refl)
  obtain s2 hw2 where p: "(case phy_model hw1 of
      ICE_PHY_ETH56G \<Rightarrow> ice_ptp_prep_phy_incval_eth56g H hw1 incval
    | ICE_PHY_E810 \<Rightarrow> ice_ptp_prep_phy_incval_e810 hw1 incval
    | ICE_PHY_E822 \<Rightarrow> ice_ptp_prep_phy_incval_e822 H hw1 incval
    | _ \<Rightarrow> (- EOPNOTSUPP, hw1)) = (s2, hw2)"
    by (cases "(case phy_model hw1 of
      ICE_PHY_ETH56G \<Rightarrow> ice_ptp_prep_phy_incval_eth56g H hw1 incval
    | ICE_PHY_E810 \<Rightarrow> ice_ptp_prep_phy_incval_e810 hw1 incval
    | ICE_PHY_E822 \<Rightarrow> ice_ptp_prep_phy_incval_e822 H hw1 incval
    | _ \<Rightarrow> (- EOPNOTSUPP, hw1))")
  have 2: "no_unlock hw hw2"
    using no_unlock_trans[OF 1 sbq_only_no_unlock[OF prep_incval_sbq_only[OF p]]] .
  show ?thesis
  proof (cases "s2 = 0")
    case True
    with assms p have "ice_ptp_tmr_cmd H hw2 ICE_PTP_INIT_INCVAL True = (s, hw')"
      by (simp add: unf)
    from tmr_cmd_no_unlock[OF this] 2 show ?thesis by (rule no_unlock_trans[rotated])
  next
    case False
    with assms p have "hw' = hw2"
      by (simp add: unf)
    with 2 show ?thesis by simp
  qed
qed

lemma unlock_after:
  assumes "no_unlock hw1 hw2" "cfg hw1 = cfg hw"
  shows "\<exists>evs. trace (ice_ptp_unlock hw2) = trace hw1 @ evs @ [Wr32 (PFTSYN_SEM (pf_id hw)) 0] \<and>
               \<not> list_ex is_sem_write evs"
proof -
  from assms obtain evs where "cfg hw2 = cfg hw" "trace hw2 = trace hw1 @ evs"
    "\<not> list_ex is_sem_write evs" by (auto simp: no_unlock_def)
  then show ?thesis
    by (auto simp: ice_ptp_unlock_def dest: cfg_pf_id)
qed

lemma lock_cfg: "ice_ptp_lock H hw = (ok, hw1) \<Longrightarrow> cfg hw1 = cfg hw"
  by (auto simp: ice_ptp_lock_def dest: lock_tries_events)

lemma write_incval_locked_discipline:
  "lock_discipline H (\<lambda>hw. ice_ptp_write_incval_locked H hw incval w) hw"
proof -
  obtain ok hw1 where l: "ice_ptp_lock H hw = (ok, hw1)" by (cases "ice_ptp_lock H hw")
  obtain s hw2 where i: "ice_ptp_write_incval H hw1 incval w = (s, hw2)"
    by (cases "ice_ptp_write_incval H hw1 incval w")
  show ?thesis
    using l i unlock_after[OF write_incval_no_unlock[OF i] lock_cfg[OF l]]
    by (simp add: lock_discipline_def ice_ptp_write_incval_locked_def)
qed


lemma read_64b_e822_sbq_only:
  "ice_read_64b_phy_reg_e822 hw port r = (x, hw') \<Longrightarrow> sbq_only hw hw'"
  by (auto simp: ice_read_64b_phy_reg_e822_def e822_acc_defs
       split: option.splits prod.splits sum.splits
       dest!: sbq_read_sbq_only intro: sbq_only_trans)

lemma read_port_capture_e822_sbq_only:
  "ice_ptp_read_port_capture_e822 hw port = (x, hw') \<Longrightarrow> sbq_only hw hw'"
  by (auto simp: ice_ptp_read_port_capture_e822_def
       split: prod.splits sum.splits
       dest!: read_64b_e822_sbq_only intro: sbq_only_trans)

lemma prep_port_adj_e822_sbq_only:
  "ice_ptp_prep_port_adj_e822 hw port t l = (s, hw') \<Longrightarrow> sbq_only hw hw'"
  by (auto simp: ice_ptp_prep_port_adj_e822_def e822_acc_defs Let_def
       split: prod.splits if_splits
       dest!: sbq_write_sbq_only intro: sbq_only_trans)

lemma read_64b_eth56g_sbq_only:
  "ice_read_64b_phy_reg_eth56g hw port r = (x, hw') \<Longrightarrow> sbq_only hw hw'"
  by (auto simp: ice_read_64b_phy_reg_eth56g_def eth56g_acc_defs Let_def
       split: option.splits prod.splits sum.splits if_splits
       dest!: sbq_read_sbq_only intro: sbq_only_trans)

lemma read_port_capture_eth56g_sbq_only:
  "ice_ptp_read_port_capture_eth56g hw port = (x, hw') \<Longrightarrow> sbq_only hw hw'"
  by (auto simp: ice_ptp_read_port_capture_eth56g_def
       split: prod.splits sum.splits
       dest!: read_64b_eth56g_sbq_only intro: sbq_only_trans)

lemma prep_port_adj_eth56g_sbq_only:
  "ice_ptp_prep_port_adj_eth56g hw port t l = (s, hw') \<Longrightarrow> sbq_only hw hw'"
  by (auto simp: ice_ptp_prep_port_adj_eth56g_def eth56g_acc_defs Let_def
       split: prod.splits if_splits
       dest!: sbq_write_sbq_only intro: sbq_only_trans)

lemma read_phy_and_phc_time_e822_no_unlock:
  assumes "ice_read_phy_and_phc_time_e822 H hw port = (x, hw')"
  shows "no_unlock hw hw'"
proof -
  let ?hw1 = "ice_ptp_src_cmd H hw ICE_PTP_READ_TIME"
  obtain s hw2 where a: "ice_ptp_one_port_cmd_e822 H ?hw1 port ICE_PTP_READ_TIME True = (s, hw2)"
    by (cases "ice_ptp_one_port_cmd_e822 H ?hw1 port ICE_PTP_READ_TIME True")
  have 2: "no_unlock hw hw2"
    using no_unlock_trans[OF src_cmd_no_unlock
            sbq_only_no_unlock[OF one_port_cmd_e822_sbq_only[OF a]]] .
  show ?thesis
  proof (cases "s = 0")
    case False
    with assms a have "hw' = hw2" by (simp add: ice_read_phy_and_phc_time_e822_def Let_def)
    with 2 show ?thesis by simp
  next
    case True
    let ?hw3 = "ice_ptp_clean_cmd (ice_ptp_exec_tmr_cmd H hw2)"
    obtain zo hw4 where b: "rd32 ?hw3 (GLTSYN_SHTIME_0 (ice_get_ptp_src_clock_index hw)) = (zo, hw4)"
      by (cases "rd32 ?hw3 (GLTSYN_SHTIME_0 (ice_get_ptp_src_clock_index hw))")
    obtain lo hw5 where c: "rd32 hw4 (GLTSYN_SHTIME_L (ice_get_ptp_src_clock_index hw)) = (lo, hw5)"
      by (cases "rd32 hw4 (GLTSYN_SHTIME_L (ice_get_ptp_src_clock_index hw))")
    obtain y hw6 where d: "ice_ptp_read_port_capture_e822 hw5 port = (y, hw6)"
      by (cases "ice_ptp_read_port_capture_e822 hw5 port")
    have 6: "no_unlock hw hw6"
      using 2 exec_clean_no_unlock[of hw2 H] rd32_no_unlock[OF b] rd32_no_unlock[OF c]
        sbq_only_no_unlock[OF read_port_capture_e822_sbq_only[OF d]]
      by (meson no_unlock_trans)
    from assms a b c d True have "hw' = hw6"
      by (auto simp: ice_read_phy_and_phc_time_e822_def Let_def split: sum.splits)
    with 6 show ?thesis by simp
  qed
qed

lemma read_phy_and_phc_time_eth56g_no_unlock:
  assumes "ice_read_phy_and_phc_time_eth56g H hw port = (x, hw')"
  shows "no_unlock hw hw'"
proof -
  let ?hw1 = "ice_ptp_src_cmd H hw ICE_PTP_READ_TIME"
  obtain s hw2 where a: "ice_ptp_one_port_cmd_eth56g H ?hw1 port ICE_PTP_READ_TIME True = (s, hw2)"
    by (cases "ice_ptp_one_port_cmd_eth56g H ?hw1 port ICE_PTP_READ_TIME True")
  have 2: "no_unlock hw hw2"
    using no_unlock_trans[OF src_cmd_no_unlock
            sbq_only_no_unlock[OF one_port_cmd_eth56g_sbq_only[OF a]]] .
  show ?thesis
  proof (cases "s = 0")
    case False
    with assms a have "hw' = hw2" by (simp add: ice_read_phy_and_phc_time_eth56g_def Let_def)
    with 2 show ?thesis by simp
  next
    case True
    let ?hw3 = "ice_ptp_clean_cmd (ice_ptp_exec_tmr_cmd H hw2)"
    obtain zo hw4 where b: "rd32 ?hw3 (GLTSYN_SHTIME_0 (ice_get_ptp_src_clock_index hw)) = (zo, hw4)"
      by (cases "rd32 ?hw3 (GLTSYN_SHTIME_0 (ice_get_ptp_src_clock_index hw))")
    obtain lo hw5 where c: "rd32 hw4 (GLTSYN_SHTIME_L (ice_get_ptp_src_clock_index hw)) = (lo, hw5)"
      by (cases "rd32 hw4 (GLTSYN_SHTIME_L (ice_get_ptp_src_clock_index hw))")
    obtain y hw6 where d: "ice_ptp_read_port_capture_eth56g hw5 port = (y, hw6)"
      by (cases "ice_ptp_read_port_capture_eth56g hw5 port")
    have 6: "no_unlock hw hw6"
      using 2 exec_clean_no_unlock[of hw2 H] rd32_no_unlock[OF b] rd32_no_unlock[OF c]
        sbq_only_no_unlock[OF read_port_capture_eth56g_sbq_only[OF d]]
      by (meson no_unlock_trans)
    from assms a b c d True have "hw' = hw6"
      by (auto simp: ice_read_phy_and_phc_time_eth56g_def Let_def split: sum.splits)
    with 6 show ?thesis by simp
  qed
qed

text \<open>The part of \<^verbatim>\<open>ice_sync_phy_timer_e822\<close> that runs with the semaphore held.\<close>

lemma sync_e822_held:
  assumes l: "ice_ptp_lock H hw = (True, hw1)"
    and r: "ice_sync_phy_timer_e822 H hw port = (s, hw')"
  shows "\<exists>hw2. no_unlock hw1 hw2 \<and> hw' = ice_ptp_unlock hw2"
proof -
  obtain x hw2 where a: "ice_read_phy_and_phc_time_e822 H hw1 port = (x, hw2)"
    by (cases "ice_read_phy_and_phc_time_e822 H hw1 port")
  note n2 = read_phy_and_phc_time_e822_no_unlock[OF a]
  show ?thesis
  proof (cases x)
    case (Inl e)
    with l r a have "hw' = ice_ptp_unlock hw2" by (simp add: ice_sync_phy_timer_e822_def)
    with n2 show ?thesis by blast
  next
    case (Inr tt)
    obtain phy_time phc_time where tt: "tt = (phy_time, phc_time)" by (cases tt)
    obtain s3 hw3 where b:
      "ice_ptp_prep_port_adj_e822 hw2 port (phc_time - phy_time) True = (s3, hw3)"
      by (cases "ice_ptp_prep_port_adj_e822 hw2 port (phc_time - phy_time) True")
    have n3: "no_unlock hw1 hw3"
      using n2 sbq_only_no_unlock[OF prep_port_adj_e822_sbq_only[OF b]] by (rule no_unlock_trans)
    show ?thesis
    proof (cases "s3 = 0")
      case False
      with l r a b Inr tt have "hw' = ice_ptp_unlock hw3"
        by (simp add: ice_sync_phy_timer_e822_def Let_def)
      with n3 show ?thesis by blast
    next
      case s3: True
      obtain s4 hw4 where c: "ice_ptp_one_port_cmd_e822 H hw3 port ICE_PTP_ADJ_TIME True = (s4, hw4)"
        by (cases "ice_ptp_one_port_cmd_e822 H hw3 port ICE_PTP_ADJ_TIME True")
      have n4: "no_unlock hw1 hw4"
        using n3 sbq_only_no_unlock[OF one_port_cmd_e822_sbq_only[OF c]] by (rule no_unlock_trans)
      show ?thesis
      proof (cases "s4 = 0")
        case False
        with l r a b c Inr tt s3 have "hw' = ice_ptp_unlock hw4"
          by (simp add: ice_sync_phy_timer_e822_def Let_def)
        with n4 show ?thesis by blast
      next
        case s4: True
        let ?hw6 = "ice_ptp_clean_cmd (ice_ptp_exec_tmr_cmd H (ice_ptp_src_cmd H hw4 ICE_PTP_READ_TIME))"
        obtain y hw7 where d: "ice_read_phy_and_phc_time_e822 H ?hw6 port = (y, hw7)"
          by (cases "ice_read_phy_and_phc_time_e822 H ?hw6 port")
        have n7: "no_unlock hw1 hw7"
          using n4 src_cmd_no_unlock[of hw4 H ICE_PTP_READ_TIME]
            exec_clean_no_unlock[of "ice_ptp_src_cmd H hw4 ICE_PTP_READ_TIME" H]
            read_phy_and_phc_time_e822_no_unlock[OF d]
          by (meson no_unlock_trans)
        from l r a b c d Inr tt s3 s4 have "hw' = ice_ptp_unlock hw7"
          by (auto simp: ice_sync_phy_timer_e822_def Let_def split: sum.splits)
        with n7 show ?thesis by blast
      qed
    qed
  qed
qed

lemma sync_eth56g_held:
  assumes l: "ice_ptp_lock H hw = (True, hw1)"
    and r: "ice_sync_phy_timer_eth56g H hw port = (s, hw')"
  shows "\<exists>hw2. no_unlock hw1 hw2 \<and> hw' = ice_ptp_unlock hw2"
proof -
  obtain x hw2 where a: "ice_read_phy_and_phc_time_eth56g H hw1 port = (x, hw2)"
    by (cases "ice_read_phy_and_phc_time_eth56g H hw1 port")
  note n2 = read_phy_and_phc_time_eth56g_no_unlock[OF a]
  show ?thesis
  proof (cases x)
    case (Inl e)
    with l r a have "hw' = ice_ptp_unlock hw2" by (simp add: ice_sync_phy_timer_eth56g_def)
    with n2 show ?thesis by blast
  next
    case (Inr tt)
    obtain phy_time phc_time where tt: "tt = (phy_time, phc_time)" by (cases tt)
    let ?hw3 = "ice_ptp_src_cmd H hw2 ICE_PTP_NOP"
    obtain s4 hw4 where b:
      "ice_ptp_prep_port_adj_eth56g ?hw3 port (phc_time - phy_time) True = (s4, hw4)"
      by (cases "ice_ptp_prep_port_adj_eth56g ?hw3 port (phc_time - phy_time) True")
    have n4: "no_unlock hw1 hw4"
      using n2 src_cmd_no_unlock[of hw2 H ICE_PTP_NOP]
        sbq_only_no_unlock[OF prep_port_adj_eth56g_sbq_only[OF b]]
      by (meson no_unlock_trans)
    show ?thesis
    proof (cases "s4 = 0")
      case False
      with l r a b Inr tt have "hw' = ice_ptp_unlock hw4"
        by (simp add: ice_sync_phy_timer_eth56g_def Let_def)
      with n4 show ?thesis by blast
    next
      case s4: True
      obtain s5 hw5 where c: "ice_ptp_one_port_cmd_eth56g H hw4 port ICE_PTP_ADJ_TIME True = (s5, hw5)"
        by (cases "ice_ptp_one_port_cmd_eth56g H hw4 port ICE_PTP_ADJ_TIME True")
      have n5: "no_unlock hw1 hw5"
        using n4 sbq_only_no_unlock[OF one_port_cmd_eth56g_sbq_only[OF c]] by (rule no_unlock_trans)
      show ?thesis
      proof (cases "s5 = 0")
        case False
        with l r a b c Inr tt s4 have "hw' = ice_ptp_unlock hw5"
          by (simp add: ice_sync_phy_timer_eth56g_def Let_def)
        with n5 show ?thesis by blast
      next
        case s5: True
        let ?hw6 = "ice_ptp_clean_cmd (ice_ptp_exec_tmr_cmd H hw5)"
        obtain y hw7 where d: "ice_read_phy_and_phc_time_eth56g H ?hw6 port = (y, hw7)"
          by (cases "ice_read_phy_and_phc_time_eth56g H ?hw6 port")
        have n7: "no_unlock hw1 hw7"
          using n5 exec_clean_no_unlock[of hw5 H] read_phy_and_phc_time_eth56g_no_unlock[OF d]
          by (meson no_unlock_trans)
        from l r a b c d Inr tt s4 s5 have "hw' = ice_ptp_unlock hw7"
          by (auto simp: ice_sync_phy_timer_eth56g_def Let_def split: sum.splits)
        with n7 show ?thesis by blast
      qed
    qed
  qed
qed

lemma sync_e822_discipline: "lock_discipline H (\<lambda>hw. ice_sync_phy_timer_e822 H hw port) hw"
proof -
  obtain ok hw1 where l: "ice_ptp_lock H hw = (ok, hw1)" by (cases "ice_ptp_lock H hw")
  obtain s hw' where r: "ice_sync_phy_timer_e822 H hw port = (s, hw')"
    by (cases "ice_sync_phy_timer_e822 H hw port")
  show ?thesis
  proof (cases ok)
    case False
    with l r show ?thesis by (simp add: lock_discipline_def ice_sync_phy_timer_e822_def)
  next
    case True
    from l True have l': "ice_ptp_lock H hw = (True, hw1)" by simp
    from sync_e822_held[OF l' r] obtain hw2 where
      "no_unlock hw1 hw2" "hw' = ice_ptp_unlock hw2" by blast
    with unlock_after[OF this(1) lock_cfg[OF l]] l r True show ?thesis
      by (simp add: lock_discipline_def)
  qed
qed

lemma sync_eth56g_discipline: "lock_discipline H (\<lambda>hw. ice_sync_phy_timer_eth56g H hw port) hw"
proof -
  obtain ok hw1 where l: "ice_ptp_lock H hw = (ok, hw1)" by (cases "ice_ptp_lock H hw")
  obtain s hw' where r: "ice_sync_phy_timer_eth56g H hw port = (s, hw')"
    by (cases "ice_sync_phy_timer_eth56g H hw port")
  show ?thesis
  proof (cases ok)
    case False
    with l r show ?thesis by (simp add: lock_discipline_def ice_sync_phy_timer_eth56g_def)
  next
    case True
    from l True have l': "ice_ptp_lock H hw = (True, hw1)" by simp
    from sync_eth56g_held[OF l' r] obtain hw2 where
      "no_unlock hw1 hw2" "hw' = ice_ptp_unlock hw2" by blast
    with unlock_after[OF this(1) lock_cfg[OF l]] l r True show ?thesis
      by (simp add: lock_discipline_def)
  qed
qed


text \<open>
  Claim C7. \<^verbatim>\<open>ice_ptp_lock\<close> reads the semaphore at most 15 times, sleeps 5000 to 6000
  microseconds after every read that finds it busy, writes nothing, succeeds exactly on a
  read that finds it free and, when it fails, has made 15 reads that all found it busy.
  \<^verbatim>\<open>ice_ptp_write_incval_locked\<close>, \<^verbatim>\<open>ice_sync_phy_timer_e822\<close> and
  \<^verbatim>\<open>ice_sync_phy_timer_eth56g\<close> keep the discipline \<open>lock_discipline\<close>: with the lock not
  taken they return \<^verbatim>\<open>-EBUSY\<close> and do nothing more, and with the lock taken every path,
  the error paths included, writes \<^verbatim>\<open>PFTSYN_SEM\<close> exactly once, as the last event.
\<close>

theorem ptp_semaphore_discipline:
  assumes ports: "phy_model hw = ICE_PHY_ETH56G \<Longrightarrow> phy_ports hw \<noteq> 0"
  shows "(\<exists>vs. length vs \<le> 15 \<and>
               trace (snd (ice_ptp_lock H hw)) = trace hw @ poll_events H (pf_id hw) vs \<and>
               (\<forall>v \<in> set (butlast vs). busy H v) \<and>
               (fst (ice_ptp_lock H hw) \<longrightarrow> vs \<noteq> [] \<and> \<not> busy H (last vs)) \<and>
               (\<not> fst (ice_ptp_lock H hw) \<longrightarrow> length vs = 15 \<and> (\<forall>v \<in> set vs. busy H v))) \<and>
         lock_discipline H (\<lambda>hw. ice_ptp_write_incval_locked H hw incval wr_main_tmr) hw \<and>
         lock_discipline H (\<lambda>hw. ice_sync_phy_timer_e822 H hw port) hw \<and>
         (phy_ports hw \<noteq> 0 \<longrightarrow> lock_discipline H (\<lambda>hw. ice_sync_phy_timer_eth56g H hw port) hw)"
proof -
  have "lock_tries H 15 hw = (fst (ice_ptp_lock H hw), snd (ice_ptp_lock H hw))"
    by (simp add: ice_ptp_lock_def MAX_TRIES_def)
  from lock_tries_events[OF this]
  have poll: "\<exists>vs. length vs \<le> 15 \<and>
               trace (snd (ice_ptp_lock H hw)) = trace hw @ poll_events H (pf_id hw) vs \<and>
               (\<forall>v \<in> set (butlast vs). busy H v) \<and>
               (fst (ice_ptp_lock H hw) \<longrightarrow> vs \<noteq> [] \<and> \<not> busy H (last vs)) \<and>
               (\<not> fst (ice_ptp_lock H hw) \<longrightarrow> length vs = 15 \<and> (\<forall>v \<in> set vs. busy H v))"
    by (rule conjunct2)
  show ?thesis
    by (intro conjI impI poll write_incval_locked_discipline sync_e822_discipline
        sync_eth56g_discipline)
qed

theorem ptp_semaphore_discipline_witness:
  "fst (ice_ptp_lock H0 (hw_e822\<lparr>rd32_script := [1, 1, 0]\<rparr>)) \<and>
   trace (snd (ice_ptp_lock H0 (hw_e822\<lparr>rd32_script := [1, 1, 0]\<rparr>))) =
     [Rd32 (PFTSYN_SEM 0) 1, Usleep_range 5000 6000, Rd32 (PFTSYN_SEM 0) 1,
      Usleep_range 5000 6000, Rd32 (PFTSYN_SEM 0) 0] \<and>
   (\<exists>evs. trace (snd (ice_sync_phy_timer_e822 H0 (hw_e822\<lparr>rd32_script := [1, 1, 0]\<rparr>) 0)) =
           trace (snd (ice_ptp_lock H0 (hw_e822\<lparr>rd32_script := [1, 1, 0]\<rparr>))) @ evs @
           [Wr32 (PFTSYN_SEM 0) 0] \<and>
          \<not> list_ex is_sem_write evs) \<and>
   (\<exists>evs. trace (snd (ice_ptp_write_incval_locked H0 (hw_e822\<lparr>rd32_script := [1, 1, 0]\<rparr>)
                        5216960427 True)) =
           trace (snd (ice_ptp_lock H0 (hw_e822\<lparr>rd32_script := [1, 1, 0]\<rparr>))) @ evs @
           [Wr32 (PFTSYN_SEM 0) 0] \<and>
          \<not> list_ex is_sem_write evs)"
proof -
  let ?a = "hw_e822\<lparr>rd32_script := [1, 1, 0]\<rparr>"
  have ma: "phy_model ?a = ICE_PHY_ETH56G \<Longrightarrow> phy_ports ?a \<noteq> 0" by code_simp
  note ta = ptp_semaphore_discipline[of ?a H0 5216960427 True 0, OF ma]
  have la: "fst (ice_ptp_lock H0 ?a)" by code_simp
  have tr: "trace (snd (ice_ptp_lock H0 ?a)) =
     [Rd32 (PFTSYN_SEM 0) 1, Usleep_range 5000 6000, Rd32 (PFTSYN_SEM 0) 1,
      Usleep_range 5000 6000, Rd32 (PFTSYN_SEM 0) 0]" by code_simp
  have pa: "pf_id ?a = 0" by code_simp
  have s: "\<exists>evs. trace (snd (ice_sync_phy_timer_e822 H0 ?a 0)) =
           trace (snd (ice_ptp_lock H0 ?a)) @ evs @ [Wr32 (PFTSYN_SEM 0) 0] \<and>
          \<not> list_ex is_sem_write evs"
    using ta[THEN conjunct2, THEN conjunct2, THEN conjunct1] la
    unfolding lock_discipline_def pa
    by (cases "ice_ptp_lock H0 ?a"; cases "ice_sync_phy_timer_e822 H0 ?a 0") simp
  have w: "\<exists>evs. trace (snd (ice_ptp_write_incval_locked H0 ?a 5216960427 True)) =
           trace (snd (ice_ptp_lock H0 ?a)) @ evs @ [Wr32 (PFTSYN_SEM 0) 0] \<and>
          \<not> list_ex is_sem_write evs"
    using ta[THEN conjunct2, THEN conjunct1] la
    unfolding lock_discipline_def pa
    by (cases "ice_ptp_lock H0 ?a"; cases "ice_ptp_write_incval_locked H0 ?a 5216960427 True") simp
  show ?thesis
    by (intro conjI la tr s w)
qed


section \<open>The fixed offsets of the E822 family\<close>






section \<open>Clearing a timestamp\<close>

lemma clear_e822_ok:
  assumes "sbq_faults hw = []" "(ucast quad :: u32) < H ''ICE_MAX_QUAD''"
  shows "fst (ice_clear_phy_tstamp_e822 H hw quad idx) = 0 \<and>
         trace (snd (ice_clear_phy_tstamp_e822 H hw quad idx)) = trace hw @
           [SbqRd (E822_QUAD quad (TS_L idx)) 0, SbqRd (E822_QUAD quad (TS_H idx)) 0]"
  using assms
  by (simp add: ice_clear_phy_tstamp_e822_def ice_read_phy_tstamp_e822_def
        ice_read_quad_reg_e822_def ice_read_quad_reg_e822_lp_def sbq_read_ok not_le[symmetric])

lemma clear_eth56g_ok:
  assumes "sbq_faults hw = []" "port < max_phy_port hw"
  shows "fst (ice_clear_phy_tstamp_eth56g H hw port idx) = 0 \<and>
         trace (snd (ice_clear_phy_tstamp_eth56g H hw port idx)) = trace hw @
           [SbqRd (ETH56G (port div phy_ports hw) (port mod phy_ports hw) ETH56G_PHY_MEM
                     (PHY_TSTAMP_L idx)) 0,
            SbqRd (ETH56G (port div phy_ports hw) (port mod phy_ports hw) ETH56G_PHY_MEM
                     (PHY_TSTAMP_U idx)) 0,
            SbqWr (ETH56G (port div phy_ports hw) (port mod phy_ports hw) ETH56G_PHY_MEM
                     (PHY_TSTAMP_L idx)) 0 0]"
  using assms
  by (simp add: ice_clear_phy_tstamp_eth56g_def ice_read_phy_tstamp_eth56g_def
        eth56g_acc_defs sbq_read_ok sbq_write_ok not_le[symmetric] Let_def)

lemma clear_e810_sbq_ok:
  assumes "sbq_faults hw = []" "\<not> ts_ll_read hw"
  shows "fst (ice_clear_phy_tstamp_e810 T H hw lport idx) = 0 \<and>
         trace (snd (ice_clear_phy_tstamp_e810 T H hw lport idx)) = trace hw @
           [SbqRd (E810_PHY (TS_EXT_LOW lport idx)) 0, SbqRd (E810_PHY (TS_EXT_HIGH lport idx)) 0,
            SbqWr (E810_PHY (TS_EXT_LOW lport idx)) 0 0,
            SbqWr (E810_PHY (TS_EXT_HIGH lport idx)) 0 0]"
  using assms
  by (simp add: ice_clear_phy_tstamp_e810_def ice_read_phy_tstamp_e810_def
        ice_read_phy_tstamp_sbq_e810_def e810_acc_defs sbq_read_ok sbq_write_ok)

lemma ll_read_tries_events:
  "ll_read_tries H n hw = (r, hw') \<Longrightarrow>
     sbq_faults hw' = sbq_faults hw \<and> (\<forall>e. r = Inl e \<longrightarrow> e = - EBUSY) \<and>
     (\<forall>p. r = Inr p \<longrightarrow>
        (\<exists>vs lo. vs \<noteq> [] \<and> length vs \<le> n \<and>
           (\<forall>v \<in> set (butlast vs). v AND H ''TS_LL_READ_TS'' \<noteq> 0) \<and>
           last vs AND H ''TS_LL_READ_TS'' = 0 \<and>
           trace hw' = trace hw @ ll_poll_events H vs @ [Rd32 PF_SB_ATQBAH lo]))"
proof (induction n arbitrary: hw)
  case 0
  then show ?case by auto
next
  case (Suc n)
  obtain val hw1 where a: "rd32 hw PF_SB_ATQBAL = (val, hw1)" by (cases "rd32 hw PF_SB_ATQBAL")
  note h1 = rd32_D[OF a]
  show ?case
  proof (cases "val AND H ''TS_LL_READ_TS'' = 0")
    case True
    obtain lo hw2 where b: "rd32 hw1 PF_SB_ATQBAH = (lo, hw2)" by (cases "rd32 hw1 PF_SB_ATQBAH")
    note h2 = rd32_D[OF b]
    from Suc.prems a b True have e: "hw' = hw2" and ne: "\<forall>e. r \<noteq> Inl e" by auto
    have t: "trace hw' = trace hw @ ll_poll_events H [val] @ [Rd32 PF_SB_ATQBAH lo]"
      using True by (simp add: e h2 h1 ll_poll_events_def)
    have "\<exists>vs lo. vs \<noteq> [] \<and> length vs \<le> Suc n \<and>
           (\<forall>v \<in> set (butlast vs). v AND H ''TS_LL_READ_TS'' \<noteq> 0) \<and>
           last vs AND H ''TS_LL_READ_TS'' = 0 \<and>
           trace hw' = trace hw @ ll_poll_events H vs @ [Rd32 PF_SB_ATQBAH lo]"
      by (rule exI[of _ "[val]"], rule exI[of _ lo]) (simp add: t True)
    then show ?thesis using ne by (simp add: e h2 h1)
  next
    case False
    with Suc.prems a have run: "ll_read_tries H n (udelay hw1 10) = (r, hw')" by simp
    note ih = Suc.IH[OF run]
    have f: "sbq_faults hw' = sbq_faults hw" using ih by (simp add: h1)
    have b: "\<forall>e. r = Inl e \<longrightarrow> e = - EBUSY" using ih by simp
    have "\<exists>vs lo. vs \<noteq> [] \<and> length vs \<le> Suc n \<and>
           (\<forall>v \<in> set (butlast vs). v AND H ''TS_LL_READ_TS'' \<noteq> 0) \<and>
           last vs AND H ''TS_LL_READ_TS'' = 0 \<and>
           trace hw' = trace hw @ ll_poll_events H vs @ [Rd32 PF_SB_ATQBAH lo]"
      if "r = Inr p" for p
    proof -
      from ih that obtain vs lo where v: "vs \<noteq> []" "length vs \<le> n"
        "\<forall>v \<in> set (butlast vs). v AND H ''TS_LL_READ_TS'' \<noteq> 0"
        "last vs AND H ''TS_LL_READ_TS'' = 0"
        and t: "trace hw' = trace (udelay hw1 10) @ ll_poll_events H vs @ [Rd32 PF_SB_ATQBAH lo]"
        by blast
      have t': "trace hw' = trace hw @ ll_poll_events H (val # vs) @ [Rd32 PF_SB_ATQBAH lo]"
        using t False by (simp add: h1 ll_poll_events_def)
      show ?thesis
        by (rule exI[of _ "val # vs"], rule exI[of _ lo]) (use v False in \<open>simp add: t'\<close>)
    qed
    then show ?thesis using f b by blast
  qed
qed

lemma clear_e810_ll_ok:
  assumes f: "sbq_faults hw = []" and ll: "ts_ll_read hw"
    and run: "ice_clear_phy_tstamp_e810 T H hw lport idx = (0, hw')"
  shows "\<exists>vs lo. vs \<noteq> [] \<and> length vs \<le> unat (ucast (H ''TS_LL_READ_RETRIES'') :: u8) \<and>
           (\<forall>v \<in> set (butlast vs). v AND H ''TS_LL_READ_TS'' \<noteq> 0) \<and>
           last vs AND H ''TS_LL_READ_TS'' = 0 \<and>
           trace hw' = trace hw @ [Wr32 PF_SB_ATQBAL (TS_LL_READ_TS_IDX T idx)] @
             ll_poll_events H vs @
             [Rd32 PF_SB_ATQBAH lo,
              SbqWr (E810_PHY (TS_EXT_LOW lport idx)) 0 0,
              SbqWr (E810_PHY (TS_EXT_HIGH lport idx)) 0 0]"
proof -
  let ?hw0 = "wr32 hw PF_SB_ATQBAL (TS_LL_READ_TS_IDX T idx)"
  let ?n = "unat (ucast (H ''TS_LL_READ_RETRIES'') :: u8)"
  obtain r hw1 where a: "ll_read_tries H ?n ?hw0 = (r, hw1)"
    by (cases "ll_read_tries H ?n ?hw0")
  note ev = ll_read_tries_events[OF a]
  from ev f have f1: "sbq_faults hw1 = []" by simp
  from ev have busy: "\<forall>e. r = Inl e \<longrightarrow> e = - EBUSY" by simp
  show ?thesis
  proof (cases r)
    case (Inl e)
    with run a ll have "e = 0"
      by (simp add: ice_clear_phy_tstamp_e810_def ice_read_phy_tstamp_e810_def
            ice_read_phy_tstamp_ll_e810_def)
    moreover have "e \<noteq> 0" using busy Inl by (simp add: EBUSY_def)
    ultimately show ?thesis by simp
  next
    case (Inr p)
    with ev obtain vs lo where v: "vs \<noteq> []" "length vs \<le> ?n"
        "\<forall>v \<in> set (butlast vs). v AND H ''TS_LL_READ_TS'' \<noteq> 0"
        "last vs AND H ''TS_LL_READ_TS'' = 0"
      and t1: "trace hw1 = trace ?hw0 @ ll_poll_events H vs @ [Rd32 PF_SB_ATQBAH lo]"
      by blast
    from Inr run a ll f1 have "hw' = snd (ice_write_phy_reg_e810 (snd (ice_write_phy_reg_e810 hw1
         (TS_EXT_LOW lport idx) 0)) (TS_EXT_HIGH lport idx) 0)"
      by (auto simp: ice_clear_phy_tstamp_e810_def ice_read_phy_tstamp_e810_def
            ice_read_phy_tstamp_ll_e810_def e810_acc_defs sbq_write_ok split: prod.splits)
    then have "trace hw' = trace hw @ [Wr32 PF_SB_ATQBAL (TS_LL_READ_TS_IDX T idx)] @
             ll_poll_events H vs @
             [Rd32 PF_SB_ATQBAH lo,
              SbqWr (E810_PHY (TS_EXT_LOW lport idx)) 0 0,
              SbqWr (E810_PHY (TS_EXT_HIGH lport idx)) 0 0]"
      using f1 t1 by (simp add: e810_acc_defs sbq_write_ok)
    with v show ?thesis by blast
  qed
qed


text \<open>
  On the idle E822 device, clearing the timestamp 0 of quad 0 succeeds with two reads of
  the sideband queue and no write.
\<close>

theorem clear_phy_tstamp_e822_only_reads:
  "phy_model hw_e822 = ICE_PHY_E822 \<and>
   fst (ice_clear_phy_tstamp T0 H0 hw_e822 0 0) = 0 \<and>
   trace (snd (ice_clear_phy_tstamp T0 H0 hw_e822 0 0)) =
     [SbqRd (E822_QUAD 0 (TS_L 0)) 0, SbqRd (E822_QUAD 0 (TS_H 0)) 0] \<and>
   \<not> list_ex is_write (trace (snd (ice_clear_phy_tstamp T0 H0 hw_e822 0 0)))"
proof -
  have a: "phy_model hw_e822 = ICE_PHY_E822" by code_simp
  have b: "fst (ice_clear_phy_tstamp T0 H0 hw_e822 0 0) = 0" by code_simp
  have c: "trace (snd (ice_clear_phy_tstamp T0 H0 hw_e822 0 0)) =
     [SbqRd (E822_QUAD 0 (TS_L 0)) 0, SbqRd (E822_QUAD 0 (TS_H 0)) 0]" by code_simp
  have d: "\<not> list_ex is_write (trace (snd (ice_clear_phy_tstamp T0 H0 hw_e822 0 0)))"
    by code_simp
  show ?thesis by (intro conjI a b c d)
qed

text \<open>
  Claim C10, as it holds of the source. On a sideband queue without faults, \<^verbatim>\<open>ice_clear_phy_tstamp\<close> does
  this, by PHY family. E822, for a valid quad: it reads the low and the high register of
  the timestamp and writes nothing. ETH56G, for a valid port: it reads the low and the high
  word of the timestamp, then writes zero to the low word. E810 without low latency reads:
  it reads the low and the high register, then writes zero to the low and to the high
  register. E810 with low latency reads, when it succeeds: it writes the request for the
  timestamp to the mailbox register \<^verbatim>\<open>PF_SB_ATQBAL\<close>, polls that register, at most
  \<^verbatim>\<open>TS_LL_READ_RETRIES\<close> times and with a delay after every poll that finds the request
  pending, until a poll finds it served, reads the timestamp from \<^verbatim>\<open>PF_SB_ATQBAH\<close>, and
  then makes the same two writes of zero.
\<close>

theorem clear_phy_tstamp_by_family:
  assumes f: "sbq_faults hw = []"
  shows "(phy_model hw = ICE_PHY_E822 \<longrightarrow> (ucast block :: u32) < H ''ICE_MAX_QUAD'' \<longrightarrow>
            fst (ice_clear_phy_tstamp T H hw block idx) = 0 \<and>
            trace (snd (ice_clear_phy_tstamp T H hw block idx)) = trace hw @
              [SbqRd (E822_QUAD block (TS_L idx)) 0, SbqRd (E822_QUAD block (TS_H idx)) 0]) \<and>
         (phy_model hw = ICE_PHY_ETH56G \<longrightarrow> phy_ports hw \<noteq> 0 \<longrightarrow> block < max_phy_port hw \<longrightarrow>
            fst (ice_clear_phy_tstamp T H hw block idx) = 0 \<and>
            trace (snd (ice_clear_phy_tstamp T H hw block idx)) = trace hw @
              [SbqRd (ETH56G (block div phy_ports hw) (block mod phy_ports hw) ETH56G_PHY_MEM
                        (PHY_TSTAMP_L idx)) 0,
               SbqRd (ETH56G (block div phy_ports hw) (block mod phy_ports hw) ETH56G_PHY_MEM
                        (PHY_TSTAMP_U idx)) 0,
               SbqWr (ETH56G (block div phy_ports hw) (block mod phy_ports hw) ETH56G_PHY_MEM
                        (PHY_TSTAMP_L idx)) 0 0]) \<and>
         (phy_model hw = ICE_PHY_E810 \<longrightarrow> \<not> ts_ll_read hw \<longrightarrow>
            fst (ice_clear_phy_tstamp T H hw block idx) = 0 \<and>
            trace (snd (ice_clear_phy_tstamp T H hw block idx)) = trace hw @
              [SbqRd (E810_PHY (TS_EXT_LOW block idx)) 0,
               SbqRd (E810_PHY (TS_EXT_HIGH block idx)) 0,
               SbqWr (E810_PHY (TS_EXT_LOW block idx)) 0 0,
               SbqWr (E810_PHY (TS_EXT_HIGH block idx)) 0 0]) \<and>
         (phy_model hw = ICE_PHY_E810 \<longrightarrow> ts_ll_read hw \<longrightarrow>
            fst (ice_clear_phy_tstamp T H hw block idx) = 0 \<longrightarrow>
            (\<exists>vs lo. vs \<noteq> [] \<and>
                  length vs \<le> unat (ucast (H ''TS_LL_READ_RETRIES'') :: u8) \<and>
                  (\<forall>v \<in> set (butlast vs). v AND H ''TS_LL_READ_TS'' \<noteq> 0) \<and>
                  last vs AND H ''TS_LL_READ_TS'' = 0 \<and>
                  trace (snd (ice_clear_phy_tstamp T H hw block idx)) = trace hw @
                    [Wr32 PF_SB_ATQBAL (TS_LL_READ_TS_IDX T idx)] @ ll_poll_events H vs @
                    [Rd32 PF_SB_ATQBAH lo,
                     SbqWr (E810_PHY (TS_EXT_LOW block idx)) 0 0,
                     SbqWr (E810_PHY (TS_EXT_HIGH block idx)) 0 0]))"
proof -
  have e822: "phy_model hw = ICE_PHY_E822 \<longrightarrow> (ucast block :: u32) < H ''ICE_MAX_QUAD'' \<longrightarrow>
            fst (ice_clear_phy_tstamp T H hw block idx) = 0 \<and>
            trace (snd (ice_clear_phy_tstamp T H hw block idx)) = trace hw @
              [SbqRd (E822_QUAD block (TS_L idx)) 0, SbqRd (E822_QUAD block (TS_H idx)) 0]"
    using clear_e822_ok[OF f, of block H idx] by (simp add: ice_clear_phy_tstamp_def)
  have eth56g: "phy_model hw = ICE_PHY_ETH56G \<longrightarrow> phy_ports hw \<noteq> 0 \<longrightarrow>
            block < max_phy_port hw \<longrightarrow>
            fst (ice_clear_phy_tstamp T H hw block idx) = 0 \<and>
            trace (snd (ice_clear_phy_tstamp T H hw block idx)) = trace hw @
              [SbqRd (ETH56G (block div phy_ports hw) (block mod phy_ports hw) ETH56G_PHY_MEM
                        (PHY_TSTAMP_L idx)) 0,
               SbqRd (ETH56G (block div phy_ports hw) (block mod phy_ports hw) ETH56G_PHY_MEM
                        (PHY_TSTAMP_U idx)) 0,
               SbqWr (ETH56G (block div phy_ports hw) (block mod phy_ports hw) ETH56G_PHY_MEM
                        (PHY_TSTAMP_L idx)) 0 0]"
    using clear_eth56g_ok[OF f, of block H idx] by (simp add: ice_clear_phy_tstamp_def)
  have e810: "phy_model hw = ICE_PHY_E810 \<longrightarrow> \<not> ts_ll_read hw \<longrightarrow>
            fst (ice_clear_phy_tstamp T H hw block idx) = 0 \<and>
            trace (snd (ice_clear_phy_tstamp T H hw block idx)) = trace hw @
              [SbqRd (E810_PHY (TS_EXT_LOW block idx)) 0,
               SbqRd (E810_PHY (TS_EXT_HIGH block idx)) 0,
               SbqWr (E810_PHY (TS_EXT_LOW block idx)) 0 0,
               SbqWr (E810_PHY (TS_EXT_HIGH block idx)) 0 0]"
    using clear_e810_sbq_ok[OF f, of T H block idx] by (simp add: ice_clear_phy_tstamp_def)
  have e810_ll: "phy_model hw = ICE_PHY_E810 \<longrightarrow> ts_ll_read hw \<longrightarrow>
            fst (ice_clear_phy_tstamp T H hw block idx) = 0 \<longrightarrow>
            (\<exists>vs lo. vs \<noteq> [] \<and>
                  length vs \<le> unat (ucast (H ''TS_LL_READ_RETRIES'') :: u8) \<and>
                  (\<forall>v \<in> set (butlast vs). v AND H ''TS_LL_READ_TS'' \<noteq> 0) \<and>
                  last vs AND H ''TS_LL_READ_TS'' = 0 \<and>
                  trace (snd (ice_clear_phy_tstamp T H hw block idx)) = trace hw @
                    [Wr32 PF_SB_ATQBAL (TS_LL_READ_TS_IDX T idx)] @ ll_poll_events H vs @
                    [Rd32 PF_SB_ATQBAH lo,
                     SbqWr (E810_PHY (TS_EXT_LOW block idx)) 0 0,
                     SbqWr (E810_PHY (TS_EXT_HIGH block idx)) 0 0])"
  proof (intro impI)
    assume m: "phy_model hw = ICE_PHY_E810" and ll: "ts_ll_read hw"
      and ok: "fst (ice_clear_phy_tstamp T H hw block idx) = 0"
    have e: "ice_clear_phy_tstamp T H hw block idx = ice_clear_phy_tstamp_e810 T H hw block idx"
      using m by (simp add: ice_clear_phy_tstamp_def)
    have "ice_clear_phy_tstamp_e810 T H hw block idx =
            (0, snd (ice_clear_phy_tstamp_e810 T H hw block idx))"
      using ok unfolding e by (intro prod_eqI) simp_all
    from clear_e810_ll_ok[OF f ll this]
    show "\<exists>vs lo. vs \<noteq> [] \<and>
                  length vs \<le> unat (ucast (H ''TS_LL_READ_RETRIES'') :: u8) \<and>
                  (\<forall>v \<in> set (butlast vs). v AND H ''TS_LL_READ_TS'' \<noteq> 0) \<and>
                  last vs AND H ''TS_LL_READ_TS'' = 0 \<and>
                  trace (snd (ice_clear_phy_tstamp T H hw block idx)) = trace hw @
                    [Wr32 PF_SB_ATQBAL (TS_LL_READ_TS_IDX T idx)] @ ll_poll_events H vs @
                    [Rd32 PF_SB_ATQBAH lo,
                     SbqWr (E810_PHY (TS_EXT_LOW block idx)) 0 0,
                     SbqWr (E810_PHY (TS_EXT_HIGH block idx)) 0 0]"
      unfolding e .
  qed
  show ?thesis by (intro conjI e822 eth56g e810 e810_ll)
qed

theorem clear_phy_tstamp_by_family_witness:
  "(sbq_faults hw_e822 = [] \<and> phy_model hw_e822 = ICE_PHY_E822 \<and>
    (ucast (1 :: u8) :: u32) < H0 ''ICE_MAX_QUAD'' \<and>
    fst (ice_clear_phy_tstamp T0 H0 hw_e822 1 3) = 0 \<and>
    trace (snd (ice_clear_phy_tstamp T0 H0 hw_e822 1 3)) = trace hw_e822 @
      [SbqRd (E822_QUAD 1 (TS_L 3)) 0, SbqRd (E822_QUAD 1 (TS_H 3)) 0]) \<and>
   (sbq_faults hw_eth56g = [] \<and> phy_model hw_eth56g = ICE_PHY_ETH56G \<and>
    phy_ports hw_eth56g \<noteq> 0 \<and> 1 < max_phy_port hw_eth56g \<and>
    fst (ice_clear_phy_tstamp T0 H0 hw_eth56g 1 3) = 0 \<and>
    trace (snd (ice_clear_phy_tstamp T0 H0 hw_eth56g 1 3)) = trace hw_eth56g @
      [SbqRd (ETH56G (1 div phy_ports hw_eth56g) (1 mod phy_ports hw_eth56g) ETH56G_PHY_MEM
                (PHY_TSTAMP_L 3)) 0,
       SbqRd (ETH56G (1 div phy_ports hw_eth56g) (1 mod phy_ports hw_eth56g) ETH56G_PHY_MEM
                (PHY_TSTAMP_U 3)) 0,
       SbqWr (ETH56G (1 div phy_ports hw_eth56g) (1 mod phy_ports hw_eth56g) ETH56G_PHY_MEM
                (PHY_TSTAMP_L 3)) 0 0]) \<and>
   (sbq_faults hw_e810 = [] \<and> phy_model hw_e810 = ICE_PHY_E810 \<and> \<not> ts_ll_read hw_e810 \<and>
    fst (ice_clear_phy_tstamp T0 H0 hw_e810 1 3) = 0 \<and>
    trace (snd (ice_clear_phy_tstamp T0 H0 hw_e810 1 3)) = trace hw_e810 @
      [SbqRd (E810_PHY (TS_EXT_LOW 1 3)) 0, SbqRd (E810_PHY (TS_EXT_HIGH 1 3)) 0,
       SbqWr (E810_PHY (TS_EXT_LOW 1 3)) 0 0, SbqWr (E810_PHY (TS_EXT_HIGH 1 3)) 0 0]) \<and>
   (sbq_faults hw_e810_ll = [] \<and> phy_model hw_e810_ll = ICE_PHY_E810 \<and> ts_ll_read hw_e810_ll \<and>
    fst (ice_clear_phy_tstamp T0 H0 hw_e810_ll 1 3) = 0 \<and>
    trace (snd (ice_clear_phy_tstamp T0 H0 hw_e810_ll 1 3)) =
      [Wr32 PF_SB_ATQBAL 0x83000000, Rd32 PF_SB_ATQBAL 0x80000000, Udelay 10,
       Rd32 PF_SB_ATQBAL 0, Rd32 PF_SB_ATQBAH 0x1234,
       SbqWr (E810_PHY (TS_EXT_LOW 1 3)) 0 0, SbqWr (E810_PHY (TS_EXT_HIGH 1 3)) 0 0] \<and>
    ll_poll_events H0 [0x80000000, 0] =
      [Rd32 PF_SB_ATQBAL 0x80000000, Udelay 10, Rd32 PF_SB_ATQBAL 0] \<and>
    (\<exists>vs lo. vs \<noteq> [] \<and>
        length vs \<le> unat (ucast (H0 ''TS_LL_READ_RETRIES'') :: u8) \<and>
        (\<forall>v \<in> set (butlast vs). v AND H0 ''TS_LL_READ_TS'' \<noteq> 0) \<and>
        last vs AND H0 ''TS_LL_READ_TS'' = 0 \<and>
        trace (snd (ice_clear_phy_tstamp T0 H0 hw_e810_ll 1 3)) = trace hw_e810_ll @
          [Wr32 PF_SB_ATQBAL (TS_LL_READ_TS_IDX T0 3)] @ ll_poll_events H0 vs @
          [Rd32 PF_SB_ATQBAH lo,
           SbqWr (E810_PHY (TS_EXT_LOW 1 3)) 0 0,
           SbqWr (E810_PHY (TS_EXT_HIGH 1 3)) 0 0]))"
proof -
  have d1: "sbq_faults hw_e810_ll = []" by code_simp
  have d2: "phy_model hw_e810_ll = ICE_PHY_E810" by code_simp
  have d3: "ts_ll_read hw_e810_ll" by code_simp
  have d4: "fst (ice_clear_phy_tstamp T0 H0 hw_e810_ll 1 3) = 0" by code_simp
  have d5: "trace (snd (ice_clear_phy_tstamp T0 H0 hw_e810_ll 1 3)) =
      [Wr32 PF_SB_ATQBAL 0x83000000, Rd32 PF_SB_ATQBAL 0x80000000, Udelay 10,
       Rd32 PF_SB_ATQBAL 0, Rd32 PF_SB_ATQBAH 0x1234,
       SbqWr (E810_PHY (TS_EXT_LOW 1 3)) 0 0, SbqWr (E810_PHY (TS_EXT_HIGH 1 3)) 0 0]"
    by code_simp
  have d6: "ll_poll_events H0 [0x80000000, 0] =
      [Rd32 PF_SB_ATQBAL 0x80000000, Udelay 10, Rd32 PF_SB_ATQBAL 0]" by code_simp
  note d = clear_phy_tstamp_by_family[OF d1, of 1 H0 T0 3, THEN conjunct2, THEN conjunct2,
      THEN conjunct2, rule_format, OF d2 d3 d4]
  have a1: "sbq_faults hw_e822 = []" by code_simp
  have a2: "phy_model hw_e822 = ICE_PHY_E822" by code_simp
  have a3: "(ucast (1 :: u8) :: u32) < H0 ''ICE_MAX_QUAD''" by code_simp
  note a = clear_phy_tstamp_by_family[OF a1, of 1 H0 T0 3, THEN conjunct1, rule_format, OF a2 a3]
  have b1: "sbq_faults hw_eth56g = []" by code_simp
  have b2: "phy_model hw_eth56g = ICE_PHY_ETH56G" by code_simp
  have b3: "phy_ports hw_eth56g \<noteq> 0" by code_simp
  have b4: "1 < max_phy_port hw_eth56g" by code_simp
  note b = clear_phy_tstamp_by_family[OF b1, of 1 H0 T0 3, THEN conjunct2, THEN conjunct1,
      rule_format, OF b2 b3 b4]
  have c1: "sbq_faults hw_e810 = []" by code_simp
  have c2: "phy_model hw_e810 = ICE_PHY_E810" by code_simp
  have c3: "\<not> ts_ll_read hw_e810" by code_simp
  note c = clear_phy_tstamp_by_family[OF c1, of 1 H0 T0 3, THEN conjunct2, THEN conjunct2,
      THEN conjunct1, rule_format, OF c2 c3]
  show ?thesis
    by (intro conjI a1 a2 a3 b1 b2 b3 b4 c1 c2 c3 a[THEN conjunct1] a[THEN conjunct2]
        b[THEN conjunct1] b[THEN conjunct2] c[THEN conjunct1] c[THEN conjunct2]
        d1 d2 d3 d4 d5 d6 d)
qed


section \<open>Configuring the Vernier offsets\<close>

lemma rd32_eq:
  "rd32 hw r =
     (let v = (case rd32_script hw of [] \<Rightarrow> mmio hw r | v # vs \<Rightarrow> v)
      in (v, hw\<lparr>rd32_script := tl (rd32_script hw), trace := trace hw @ [Rd32 r v]\<rparr>))"
  by (cases hw) (auto simp: rd32_def log_event_def Let_def split: list.splits)

lemma read_64b_e822_ok:
  "sbq_faults hw = [] \<Longrightarrow>
   ice_read_64b_phy_reg_e822 hw port (REG64_L r) =
     (Inr (push_bit 32 (ucast (sbq_regs hw (E822_PORT port (REG64_U r))) :: u64) OR
           ucast (sbq_regs hw (E822_PORT port (REG64_L r)))),
      hw\<lparr>trace := trace hw @ [SbqRd (E822_PORT port (REG64_L r)) 0,
                                SbqRd (E822_PORT port (REG64_U r)) 0]\<rparr>)"
  by (simp add: ice_read_64b_phy_reg_e822_def ice_is_64b_phy_reg_e822_def e822_acc_defs
        sbq_read_ok log_event_def)

lemma write_64b_e822_ok:
  "sbq_faults hw = [] \<Longrightarrow>
   ice_write_64b_phy_reg_e822 hw port (REG64_L r) v =
     (0, hw\<lparr>sbq_regs := (sbq_regs hw)(E822_PORT port (REG64_L r) := lower_32_bits v,
                                        E822_PORT port (REG64_U r) := upper_32_bits v),
            trace := trace hw @ [SbqWr (E822_PORT port (REG64_L r)) (lower_32_bits v) 0,
                                SbqWr (E822_PORT port (REG64_U r)) (upper_32_bits v) 0]\<rparr>)"
  by (simp add: ice_write_64b_phy_reg_e822_def ice_is_64b_phy_reg_e822_def e822_acc_defs
        sbq_write_ok log_event_def)

lemma cfg_tx_offset_e822_busy:
  assumes "sbq_faults hw = []" "sbq_regs hw (E822_PORT port P_REG_TX_OR) = 0"
    "sbq_regs hw (E822_PORT port P_REG_TX_OV_STATUS) AND H ''P_REG_TX_OV_STATUS_OV_M'' = 0"
  shows "ice_phy_cfg_tx_offset_e822 T H hw port =
           (- EBUSY, hw\<lparr>trace := trace hw @ [SbqRd (E822_PORT port P_REG_TX_OR) 0,
                                              SbqRd (E822_PORT port P_REG_TX_OV_STATUS) 0]\<rparr>)"
  using assms
  by (simp add: ice_phy_cfg_tx_offset_e822_def e822_acc_defs sbq_read_ok log_event_def)

lemma cfg_tx_offset_e822_done:
  assumes "sbq_faults hw = []" "sbq_regs hw (E822_PORT port P_REG_TX_OR) \<noteq> 0"
  shows "ice_phy_cfg_tx_offset_e822 T H hw port =
           (0, hw\<lparr>trace := trace hw @ [SbqRd (E822_PORT port P_REG_TX_OR) 0]\<rparr>)"
  using assms
  by (simp add: ice_phy_cfg_tx_offset_e822_def e822_acc_defs sbq_read_ok log_event_def)

lemma speed_and_fec_ok:
  assumes "sbq_faults hw = []"
    "link_spd_of_serdes H (P_REG_LINK_SPEED_FEC_MODE T (sbq_regs hw (E822_PORT port P_REG_LINK_SPEED)))
       (sbq_regs hw (E822_PORT port P_REG_LINK_SPEED) AND H ''P_REG_LINK_SPEED_SERDES_M'') = Some spd"
  shows "ice_phy_get_speed_and_fec_e822 T H hw port =
          (Inr (spd, P_REG_LINK_SPEED_FEC_MODE T (sbq_regs hw (E822_PORT port P_REG_LINK_SPEED))),
           hw\<lparr>trace := trace hw @ [SbqRd (E822_PORT port P_REG_LINK_SPEED) 0]\<rparr>)"
  using assms
  by (simp add: ice_phy_get_speed_and_fec_e822_def e822_acc_defs sbq_read_ok log_event_def Let_def)

lemma calc_fixed_tx_D:
  "ice_calc_fixed_tx_offset_e822 T H hw spd = (v, hw') \<Longrightarrow>
     \<exists>a b. hw' = hw\<lparr>rd32_script := tl (tl (rd32_script hw)),
              trace := trace hw @ [Rd32 (GLTSYN_INCVAL_L (tmr_index_assoc hw)) a,
                                  Rd32 (GLTSYN_INCVAL_H (tmr_index_assoc hw)) b]\<rparr>"
  by (auto simp: ice_calc_fixed_tx_offset_e822_def ice_ptp_read_src_incval_def rd32_eq Let_def
        ice_get_ptp_src_clock_index_def)

lemma cfg_tx_offset_e822_program:
  assumes f: "sbq_faults hw = []" and o: "sbq_regs hw (E822_PORT port P_REG_TX_OR) = 0"
    and v: "sbq_regs hw (E822_PORT port P_REG_TX_OV_STATUS) AND H ''P_REG_TX_OV_STATUS_OV_M'' \<noteq> 0"
    and s: "link_spd_of_serdes H
       (P_REG_LINK_SPEED_FEC_MODE T (sbq_regs hw (E822_PORT port P_REG_LINK_SPEED)))
       (sbq_regs hw (E822_PORT port P_REG_LINK_SPEED) AND H ''P_REG_LINK_SPEED_SERDES_M'') = Some spd"
  shows "\<exists>total hw'. ice_phy_cfg_tx_offset_e822 T H hw port = (0, hw') \<and>
           sbq_faults hw' = [] \<and>
           sbq_regs hw' = (sbq_regs hw)
              (E822_PORT port (REG64_L P_REG_TOTAL_TX_OFFSET) := lower_32_bits total,
               E822_PORT port (REG64_U P_REG_TOTAL_TX_OFFSET) := upper_32_bits total,
               E822_PORT port P_REG_TX_OR := 1) \<and>
           trace hw' = trace hw @ new_events hw hw' \<and>
           filter is_write (new_events hw hw') =
             [SbqWr (E822_PORT port (REG64_L P_REG_TOTAL_TX_OFFSET)) (lower_32_bits total) 0,
              SbqWr (E822_PORT port (REG64_U P_REG_TOTAL_TX_OFFSET)) (upper_32_bits total) 0,
              SbqWr (E822_PORT port P_REG_TX_OR) 1 0]"
proof -
  let ?hw2 = "hw\<lparr>trace := trace hw @ [SbqRd (E822_PORT port P_REG_TX_OR) 0,
                                        SbqRd (E822_PORT port P_REG_TX_OV_STATUS) 0,
                                        SbqRd (E822_PORT port P_REG_LINK_SPEED) 0]\<rparr>"
  obtain fixed hw4 where c: "ice_calc_fixed_tx_offset_e822 T H ?hw2 spd = (fixed, hw4)"
    by (cases "ice_calc_fixed_tx_offset_e822 T H ?hw2 spd")
  from calc_fixed_tx_D[OF c] obtain a b where
    h4: "hw4 = ?hw2\<lparr>rd32_script := tl (tl (rd32_script ?hw2)),
              trace := trace ?hw2 @ [Rd32 (GLTSYN_INCVAL_L (tmr_index_assoc ?hw2)) a,
                                  Rd32 (GLTSYN_INCVAL_H (tmr_index_assoc ?hw2)) b]\<rparr>"
    by blast
  have f4: "sbq_faults hw4 = []" and r4: "sbq_regs hw4 = sbq_regs hw" using f by (simp_all add: h4)
  show ?thesis
    using f o v s c f4 r4
    apply (simp add: ice_phy_cfg_tx_offset_e822_def sbq_read_ok speed_and_fec_ok
        ice_read_phy_reg_e822_def ice_read_phy_reg_e822_lp_def
        ice_write_phy_reg_e822_def ice_write_phy_reg_e822_lp_def log_event_def
        read_64b_e822_ok write_64b_e822_ok sbq_write_ok)
    apply (simp add: h4 new_events_def is_write_def fun_upd_twist)
    apply (intro conjI impI exI[where x="_ :: u64"])
    apply (auto simp: fun_upd_twist)
    done
qed


lemma cfg_rx_offset_e822_busy:
  assumes "sbq_faults hw = []" "sbq_regs hw (E822_PORT port P_REG_RX_OR) = 0"
    "sbq_regs hw (E822_PORT port P_REG_RX_OV_STATUS) AND H ''P_REG_RX_OV_STATUS_OV_M'' = 0"
  shows "ice_phy_cfg_rx_offset_e822 T H hw port =
           (- EBUSY, hw\<lparr>trace := trace hw @ [SbqRd (E822_PORT port P_REG_RX_OR) 0,
                                              SbqRd (E822_PORT port P_REG_RX_OV_STATUS) 0]\<rparr>)"
  using assms
  by (simp add: ice_phy_cfg_rx_offset_e822_def e822_acc_defs sbq_read_ok log_event_def)

lemma cfg_rx_offset_e822_done:
  assumes "sbq_faults hw = []" "sbq_regs hw (E822_PORT port P_REG_RX_OR) \<noteq> 0"
  shows "ice_phy_cfg_rx_offset_e822 T H hw port =
           (0, hw\<lparr>trace := trace hw @ [SbqRd (E822_PORT port P_REG_RX_OR) 0]\<rparr>)"
  using assms
  by (simp add: ice_phy_cfg_rx_offset_e822_def e822_acc_defs sbq_read_ok log_event_def)

lemma calc_fixed_rx_D:
  "ice_calc_fixed_rx_offset_e822 T H hw spd = (v, hw') \<Longrightarrow>
     \<exists>a b. hw' = hw\<lparr>rd32_script := tl (tl (rd32_script hw)),
              trace := trace hw @ [Rd32 (GLTSYN_INCVAL_L (tmr_index_assoc hw)) a,
                                  Rd32 (GLTSYN_INCVAL_H (tmr_index_assoc hw)) b]\<rparr>"
  by (auto simp: ice_calc_fixed_rx_offset_e822_def ice_ptp_read_src_incval_def rd32_eq Let_def
        ice_get_ptp_src_clock_index_def)


lemma read_src_incval_D:
  "ice_ptp_read_src_incval H hw = (v, hw') \<Longrightarrow>
     \<exists>a b. hw' = hw\<lparr>rd32_script := tl (tl (rd32_script hw)),
              trace := trace hw @ [Rd32 (GLTSYN_INCVAL_L (tmr_index_assoc hw)) a,
                                  Rd32 (GLTSYN_INCVAL_H (tmr_index_assoc hw)) b]\<rparr>"
  by (auto simp: ice_ptp_read_src_incval_def rd32_eq Let_def ice_get_ptp_src_clock_index_def)

lemma calc_pmd_adj_ok:
  assumes f: "sbq_faults hw = []"
  shows "\<exists>pmd hw'. ice_phy_calc_pmd_adj_e822 T H hw port spd fec = (Inr pmd, hw') \<and>
           reads_only hw hw'"
proof -
  let ?hw1 = "hw\<lparr>trace := trace hw @ [SbqRd (E822_PORT port P_REG_PMD_ALIGNMENT) 0]\<rparr>"
  obtain incval hw2 where i: "ice_ptp_read_src_incval H ?hw1 = (incval, hw2)"
    by (cases "ice_ptp_read_src_incval H ?hw1")
  from read_src_incval_D[OF i] obtain a b where
    h2: "hw2 = ?hw1\<lparr>rd32_script := tl (tl (rd32_script ?hw1)),
              trace := trace ?hw1 @ [Rd32 (GLTSYN_INCVAL_L (tmr_index_assoc ?hw1)) a,
                                  Rd32 (GLTSYN_INCVAL_H (tmr_index_assoc ?hw1)) b]\<rparr>"
    by blast
  have f2: "sbq_faults hw2 = []" using f by (simp add: h2)
  show ?thesis
    using f i f2
    apply (simp add: ice_phy_calc_pmd_adj_e822_def e822_acc_defs sbq_read_ok log_event_def
        Let_def)
    apply (simp add: h2 reads_only_def is_write_def)
    done
qed


lemma cfg_rx_offset_e822_program:
  assumes f: "sbq_faults hw = []" and o: "sbq_regs hw (E822_PORT port P_REG_RX_OR) = 0"
    and v: "sbq_regs hw (E822_PORT port P_REG_RX_OV_STATUS) AND H ''P_REG_RX_OV_STATUS_OV_M'' \<noteq> 0"
    and s: "link_spd_of_serdes H
       (P_REG_LINK_SPEED_FEC_MODE T (sbq_regs hw (E822_PORT port P_REG_LINK_SPEED)))
       (sbq_regs hw (E822_PORT port P_REG_LINK_SPEED) AND H ''P_REG_LINK_SPEED_SERDES_M'') = Some spd"
  shows "\<exists>total hw'. ice_phy_cfg_rx_offset_e822 T H hw port = (0, hw') \<and>
           sbq_faults hw' = [] \<and>
           sbq_regs hw' = (sbq_regs hw)
              (E822_PORT port (REG64_L P_REG_TOTAL_RX_OFFSET) := lower_32_bits total,
               E822_PORT port (REG64_U P_REG_TOTAL_RX_OFFSET) := upper_32_bits total,
               E822_PORT port P_REG_RX_OR := 1) \<and>
           trace hw' = trace hw @ new_events hw hw' \<and>
           filter is_write (new_events hw hw') =
             [SbqWr (E822_PORT port (REG64_L P_REG_TOTAL_RX_OFFSET)) (lower_32_bits total) 0,
              SbqWr (E822_PORT port (REG64_U P_REG_TOTAL_RX_OFFSET)) (upper_32_bits total) 0,
              SbqWr (E822_PORT port P_REG_RX_OR) 1 0]"
proof -
  let ?fec = "P_REG_LINK_SPEED_FEC_MODE T (sbq_regs hw (E822_PORT port P_REG_LINK_SPEED))"
  let ?hw3 = "hw\<lparr>trace := trace hw @ [SbqRd (E822_PORT port P_REG_RX_OR) 0,
                                        SbqRd (E822_PORT port P_REG_RX_OV_STATUS) 0,
                                        SbqRd (E822_PORT port P_REG_LINK_SPEED) 0]\<rparr>"
  obtain fixed hw4 where c: "ice_calc_fixed_rx_offset_e822 T H ?hw3 spd = (fixed, hw4)"
    by (cases "ice_calc_fixed_rx_offset_e822 T H ?hw3 spd")
  from calc_fixed_rx_D[OF c] obtain a b where
    h4: "hw4 = ?hw3\<lparr>rd32_script := tl (tl (rd32_script ?hw3)),
              trace := trace ?hw3 @ [Rd32 (GLTSYN_INCVAL_L (tmr_index_assoc ?hw3)) a,
                                  Rd32 (GLTSYN_INCVAL_H (tmr_index_assoc ?hw3)) b]\<rparr>"
    by blast
  have f4: "sbq_faults hw4 = []" and r4: "sbq_regs hw4 = sbq_regs hw" using f by (simp_all add: h4)
  let ?hw5 = "hw4\<lparr>trace := trace hw4 @
                 [SbqRd (E822_PORT port (REG64_L P_REG_PAR_PCS_RX_OFFSET)) 0,
                  SbqRd (E822_PORT port (REG64_U P_REG_PAR_PCS_RX_OFFSET)) 0]\<rparr>"
  let ?multi = "spd = ICE_PTP_LNK_SPD_40G \<or> spd = ICE_PTP_LNK_SPD_50G \<or>
                spd = ICE_PTP_LNK_SPD_50G_RS \<or> spd = ICE_PTP_LNK_SPD_100G_RS"
  let ?hw6 = "if ?multi then ?hw5\<lparr>trace := trace ?hw5 @
                 [SbqRd (E822_PORT port (REG64_L P_REG_PAR_RX_TIME)) 0,
                  SbqRd (E822_PORT port (REG64_U P_REG_PAR_RX_TIME)) 0]\<rparr> else ?hw5"
  have f6: "sbq_faults ?hw6 = []" using f4 by simp
  from calc_pmd_adj_ok[OF f6, of T H port spd ?fec] obtain pmd hw7 where
    p: "ice_phy_calc_pmd_adj_e822 T H ?hw6 port spd ?fec = (Inr pmd, hw7)"
    and ro: "reads_only ?hw6 hw7" by blast
  from ro obtain evs where f7: "sbq_faults hw7 = []" and r7: "sbq_regs hw7 = sbq_regs hw"
    and t7: "trace hw7 = trace ?hw6 @ evs" and w7: "filter is_write evs = []"
    using f4 r4 by (auto simp: reads_only_def split: if_splits)
  show ?thesis
  proof (cases ?multi)
    case True
    with p have p': "ice_phy_calc_pmd_adj_e822 T H (?hw5\<lparr>trace := trace ?hw5 @
                 [SbqRd (E822_PORT port (REG64_L P_REG_PAR_RX_TIME)) 0,
                  SbqRd (E822_PORT port (REG64_U P_REG_PAR_RX_TIME)) 0]\<rparr>) port spd ?fec =
                  (Inr pmd, hw7)" by (simp only: if_True)
    from True t7 have t7': "trace hw7 = trace ?hw5 @
                 [SbqRd (E822_PORT port (REG64_L P_REG_PAR_RX_TIME)) 0,
                  SbqRd (E822_PORT port (REG64_U P_REG_PAR_RX_TIME)) 0] @ evs"
      by (simp only: if_True) simp
    show ?thesis
      using f o v s c f4 r4 True p' f7 r7
      apply (simp add: ice_phy_cfg_rx_offset_e822_def sbq_read_ok speed_and_fec_ok
        ice_read_phy_reg_e822_def ice_read_phy_reg_e822_lp_def
        ice_write_phy_reg_e822_def ice_write_phy_reg_e822_lp_def log_event_def
        read_64b_e822_ok write_64b_e822_ok sbq_write_ok Let_def)
      apply (simp add: t7' h4 w7 new_events_def is_write_def fun_upd_twist)
      apply (intro conjI impI exI[where x="_ :: u64"])
      apply (auto simp: fun_upd_twist)
      done
  next
    case False
    with p have p': "ice_phy_calc_pmd_adj_e822 T H ?hw5 port spd ?fec = (Inr pmd, hw7)"
      by (simp only: if_False)
    from False t7 have t7': "trace hw7 = trace ?hw5 @ evs"
      by (simp only: if_False)
    show ?thesis
      using f o v s c f4 r4 False p' f7 r7
      apply (simp add: ice_phy_cfg_rx_offset_e822_def sbq_read_ok speed_and_fec_ok
        ice_read_phy_reg_e822_def ice_read_phy_reg_e822_lp_def
        ice_write_phy_reg_e822_def ice_write_phy_reg_e822_lp_def log_event_def
        read_64b_e822_ok write_64b_e822_ok sbq_write_ok Let_def)
      apply (simp add: t7' h4 w7 new_events_def is_write_def fun_upd_twist)
      apply (intro conjI impI exI[where x="_ :: u64"])
      apply (auto simp: fun_upd_twist)
      done
  qed
qed


lemma call_n_idle:
  assumes step: "\<And>t. f (hw\<lparr>trace := t\<rparr>) = (s, hw\<lparr>trace := t @ evs\<rparr>)"
  shows "call_n n f (hw\<lparr>trace := t\<rparr>) =
           (replicate n s, hw\<lparr>trace := t @ concat (replicate n evs)\<rparr>)"
  by (induction n arbitrary: t) (simp_all add: step)

lemma filter_write_reads [simp]:
  "filter is_write (concat (replicate n [SbqRd a s])) = []"
  by (induction n) (simp_all add: is_write_def)

lemma cfg_tx_offset_e822_busy_n:
  assumes f: "sbq_faults hw = []" and o: "sbq_regs hw (E822_PORT port P_REG_TX_OR) = 0"
    and v: "sbq_regs hw (E822_PORT port P_REG_TX_OV_STATUS) AND H ''P_REG_TX_OV_STATUS_OV_M'' = 0"
  shows "call_n n (\<lambda>hw. ice_phy_cfg_tx_offset_e822 T H hw port) hw =
           (replicate n (- EBUSY),
            hw\<lparr>trace := trace hw @ concat (replicate n
                    [SbqRd (E822_PORT port P_REG_TX_OR) 0,
                     SbqRd (E822_PORT port P_REG_TX_OV_STATUS) 0])\<rparr>)"
proof -
  have "call_n n (\<lambda>hw. ice_phy_cfg_tx_offset_e822 T H hw port) (hw\<lparr>trace := trace hw\<rparr>) =
           (replicate n (- EBUSY),
            hw\<lparr>trace := trace hw @ concat (replicate n
                    [SbqRd (E822_PORT port P_REG_TX_OR) 0,
                     SbqRd (E822_PORT port P_REG_TX_OV_STATUS) 0])\<rparr>)"
    by (rule call_n_idle) (simp add: cfg_tx_offset_e822_busy f o v)
  then show ?thesis by simp
qed

lemma cfg_rx_offset_e822_busy_n:
  assumes f: "sbq_faults hw = []" and o: "sbq_regs hw (E822_PORT port P_REG_RX_OR) = 0"
    and v: "sbq_regs hw (E822_PORT port P_REG_RX_OV_STATUS) AND H ''P_REG_RX_OV_STATUS_OV_M'' = 0"
  shows "call_n n (\<lambda>hw. ice_phy_cfg_rx_offset_e822 T H hw port) hw =
           (replicate n (- EBUSY),
            hw\<lparr>trace := trace hw @ concat (replicate n
                    [SbqRd (E822_PORT port P_REG_RX_OR) 0,
                     SbqRd (E822_PORT port P_REG_RX_OV_STATUS) 0])\<rparr>)"
proof -
  have "call_n n (\<lambda>hw. ice_phy_cfg_rx_offset_e822 T H hw port) (hw\<lparr>trace := trace hw\<rparr>) =
           (replicate n (- EBUSY),
            hw\<lparr>trace := trace hw @ concat (replicate n
                    [SbqRd (E822_PORT port P_REG_RX_OR) 0,
                     SbqRd (E822_PORT port P_REG_RX_OV_STATUS) 0])\<rparr>)"
    by (rule call_n_idle) (simp add: cfg_rx_offset_e822_busy f o v)
  then show ?thesis by simp
qed

lemma cfg_tx_offset_e822_done_n:
  assumes f: "sbq_faults hw = []" and o: "sbq_regs hw (E822_PORT port P_REG_TX_OR) \<noteq> 0"
  shows "call_n n (\<lambda>hw. ice_phy_cfg_tx_offset_e822 T H hw port) hw =
           (replicate n 0,
            hw\<lparr>trace := trace hw @ concat (replicate n [SbqRd (E822_PORT port P_REG_TX_OR) 0])\<rparr>)"
proof -
  have "call_n n (\<lambda>hw. ice_phy_cfg_tx_offset_e822 T H hw port) (hw\<lparr>trace := trace hw\<rparr>) =
           (replicate n 0,
            hw\<lparr>trace := trace hw @ concat (replicate n [SbqRd (E822_PORT port P_REG_TX_OR) 0])\<rparr>)"
    by (rule call_n_idle) (simp add: cfg_tx_offset_e822_done f o)
  then show ?thesis by simp
qed

lemma cfg_rx_offset_e822_done_n:
  assumes f: "sbq_faults hw = []" and o: "sbq_regs hw (E822_PORT port P_REG_RX_OR) \<noteq> 0"
  shows "call_n n (\<lambda>hw. ice_phy_cfg_rx_offset_e822 T H hw port) hw =
           (replicate n 0,
            hw\<lparr>trace := trace hw @ concat (replicate n [SbqRd (E822_PORT port P_REG_RX_OR) 0])\<rparr>)"
proof -
  have "call_n n (\<lambda>hw. ice_phy_cfg_rx_offset_e822 T H hw port) (hw\<lparr>trace := trace hw\<rparr>) =
           (replicate n 0,
            hw\<lparr>trace := trace hw @ concat (replicate n [SbqRd (E822_PORT port P_REG_RX_OR) 0])\<rparr>)"
    by (rule call_n_idle) (simp add: cfg_rx_offset_e822_done f o)
  then show ?thesis by simp
qed

lemma cfg_tx_offset_e822_once:
  assumes f: "sbq_faults hw = []" and o: "sbq_regs hw (E822_PORT port P_REG_TX_OR) = 0"
    and v: "sbq_regs hw (E822_PORT port P_REG_TX_OV_STATUS) AND H ''P_REG_TX_OV_STATUS_OV_M'' \<noteq> 0"
    and s: "link_spd_of_serdes H
       (P_REG_LINK_SPEED_FEC_MODE T (sbq_regs hw (E822_PORT port P_REG_LINK_SPEED)))
       (sbq_regs hw (E822_PORT port P_REG_LINK_SPEED) AND H ''P_REG_LINK_SPEED_SERDES_M'') \<noteq> None"
  shows "fst (call_n (Suc n) (\<lambda>hw. ice_phy_cfg_tx_offset_e822 T H hw port) hw) =
           replicate (Suc n) 0 \<and>
         (\<exists>total. filter is_write (new_events hw
              (snd (call_n (Suc n) (\<lambda>hw. ice_phy_cfg_tx_offset_e822 T H hw port) hw))) =
             [SbqWr (E822_PORT port (REG64_L P_REG_TOTAL_TX_OFFSET)) (lower_32_bits total) 0,
              SbqWr (E822_PORT port (REG64_U P_REG_TOTAL_TX_OFFSET)) (upper_32_bits total) 0,
              SbqWr (E822_PORT port P_REG_TX_OR) 1 0])"
proof -
  from s obtain spd where s': "link_spd_of_serdes H
       (P_REG_LINK_SPEED_FEC_MODE T (sbq_regs hw (E822_PORT port P_REG_LINK_SPEED)))
       (sbq_regs hw (E822_PORT port P_REG_LINK_SPEED) AND H ''P_REG_LINK_SPEED_SERDES_M'') = Some spd"
    by blast
  from cfg_tx_offset_e822_program[OF f o v s'] obtain total hw' where
    r: "ice_phy_cfg_tx_offset_e822 T H hw port = (0, hw')" and f': "sbq_faults hw' = []"
    and q: "sbq_regs hw' = (sbq_regs hw)
              (E822_PORT port (REG64_L P_REG_TOTAL_TX_OFFSET) := lower_32_bits total,
               E822_PORT port (REG64_U P_REG_TOTAL_TX_OFFSET) := upper_32_bits total,
               E822_PORT port P_REG_TX_OR := 1)"
    and t: "trace hw' = trace hw @ new_events hw hw'"
    and w: "filter is_write (new_events hw hw') =
             [SbqWr (E822_PORT port (REG64_L P_REG_TOTAL_TX_OFFSET)) (lower_32_bits total) 0,
              SbqWr (E822_PORT port (REG64_U P_REG_TOTAL_TX_OFFSET)) (upper_32_bits total) 0,
              SbqWr (E822_PORT port P_REG_TX_OR) 1 0]"
    by blast
  have o': "sbq_regs hw' (E822_PORT port P_REG_TX_OR) \<noteq> 0" by (simp add: q)
  note d = cfg_tx_offset_e822_done_n[OF f' o', of n T H]
  define evs where "evs = new_events hw hw'"
  have t': "trace hw' = trace hw @ evs" using t by (simp only: evs_def)
  have w': "filter is_write evs =
             [SbqWr (E822_PORT port (REG64_L P_REG_TOTAL_TX_OFFSET)) (lower_32_bits total) 0,
              SbqWr (E822_PORT port (REG64_U P_REG_TOTAL_TX_OFFSET)) (upper_32_bits total) 0,
              SbqWr (E822_PORT port P_REG_TX_OR) 1 0]" using w by (simp only: evs_def)
  have c: "call_n (Suc n) (\<lambda>hw. ice_phy_cfg_tx_offset_e822 T H hw port) hw =
            (0 # replicate n 0,
             hw'\<lparr>trace := trace hw' @
                concat (replicate n [SbqRd (E822_PORT port P_REG_TX_OR) 0])\<rparr>)"
    by (simp add: r d)
  have e: "new_events hw (snd (call_n (Suc n) (\<lambda>hw. ice_phy_cfg_tx_offset_e822 T H hw port) hw)) =
             evs @ concat (replicate n [SbqRd (E822_PORT port P_REG_TX_OR) 0])"
    unfolding c by (simp add: t')
  have a: "fst (call_n (Suc n) (\<lambda>hw. ice_phy_cfg_tx_offset_e822 T H hw port) hw) =
             replicate (Suc n) 0" unfolding c by simp
  have b: "filter is_write (evs @ concat (replicate n [SbqRd (E822_PORT port P_REG_TX_OR) 0])) =
             [SbqWr (E822_PORT port (REG64_L P_REG_TOTAL_TX_OFFSET)) (lower_32_bits total) 0,
              SbqWr (E822_PORT port (REG64_U P_REG_TOTAL_TX_OFFSET)) (upper_32_bits total) 0,
              SbqWr (E822_PORT port P_REG_TX_OR) 1 0]"
    unfolding filter_append filter_write_reads w' by simp
  show ?thesis unfolding e using a b by blast
qed

lemma cfg_rx_offset_e822_once:
  assumes f: "sbq_faults hw = []" and o: "sbq_regs hw (E822_PORT port P_REG_RX_OR) = 0"
    and v: "sbq_regs hw (E822_PORT port P_REG_RX_OV_STATUS) AND H ''P_REG_RX_OV_STATUS_OV_M'' \<noteq> 0"
    and s: "link_spd_of_serdes H
       (P_REG_LINK_SPEED_FEC_MODE T (sbq_regs hw (E822_PORT port P_REG_LINK_SPEED)))
       (sbq_regs hw (E822_PORT port P_REG_LINK_SPEED) AND H ''P_REG_LINK_SPEED_SERDES_M'') \<noteq> None"
  shows "fst (call_n (Suc n) (\<lambda>hw. ice_phy_cfg_rx_offset_e822 T H hw port) hw) =
           replicate (Suc n) 0 \<and>
         (\<exists>total. filter is_write (new_events hw
              (snd (call_n (Suc n) (\<lambda>hw. ice_phy_cfg_rx_offset_e822 T H hw port) hw))) =
             [SbqWr (E822_PORT port (REG64_L P_REG_TOTAL_RX_OFFSET)) (lower_32_bits total) 0,
              SbqWr (E822_PORT port (REG64_U P_REG_TOTAL_RX_OFFSET)) (upper_32_bits total) 0,
              SbqWr (E822_PORT port P_REG_RX_OR) 1 0])"
proof -
  from s obtain spd where s': "link_spd_of_serdes H
       (P_REG_LINK_SPEED_FEC_MODE T (sbq_regs hw (E822_PORT port P_REG_LINK_SPEED)))
       (sbq_regs hw (E822_PORT port P_REG_LINK_SPEED) AND H ''P_REG_LINK_SPEED_SERDES_M'') = Some spd"
    by blast
  from cfg_rx_offset_e822_program[OF f o v s'] obtain total hw' where
    r: "ice_phy_cfg_rx_offset_e822 T H hw port = (0, hw')" and f': "sbq_faults hw' = []"
    and q: "sbq_regs hw' = (sbq_regs hw)
              (E822_PORT port (REG64_L P_REG_TOTAL_RX_OFFSET) := lower_32_bits total,
               E822_PORT port (REG64_U P_REG_TOTAL_RX_OFFSET) := upper_32_bits total,
               E822_PORT port P_REG_RX_OR := 1)"
    and t: "trace hw' = trace hw @ new_events hw hw'"
    and w: "filter is_write (new_events hw hw') =
             [SbqWr (E822_PORT port (REG64_L P_REG_TOTAL_RX_OFFSET)) (lower_32_bits total) 0,
              SbqWr (E822_PORT port (REG64_U P_REG_TOTAL_RX_OFFSET)) (upper_32_bits total) 0,
              SbqWr (E822_PORT port P_REG_RX_OR) 1 0]"
    by blast
  have o': "sbq_regs hw' (E822_PORT port P_REG_RX_OR) \<noteq> 0" by (simp add: q)
  note d = cfg_rx_offset_e822_done_n[OF f' o', of n T H]
  define evs where "evs = new_events hw hw'"
  have t': "trace hw' = trace hw @ evs" using t by (simp only: evs_def)
  have w': "filter is_write evs =
             [SbqWr (E822_PORT port (REG64_L P_REG_TOTAL_RX_OFFSET)) (lower_32_bits total) 0,
              SbqWr (E822_PORT port (REG64_U P_REG_TOTAL_RX_OFFSET)) (upper_32_bits total) 0,
              SbqWr (E822_PORT port P_REG_RX_OR) 1 0]" using w by (simp only: evs_def)
  have c: "call_n (Suc n) (\<lambda>hw. ice_phy_cfg_rx_offset_e822 T H hw port) hw =
            (0 # replicate n 0,
             hw'\<lparr>trace := trace hw' @
                concat (replicate n [SbqRd (E822_PORT port P_REG_RX_OR) 0])\<rparr>)"
    by (simp add: r d)
  have e: "new_events hw (snd (call_n (Suc n) (\<lambda>hw. ice_phy_cfg_rx_offset_e822 T H hw port) hw)) =
             evs @ concat (replicate n [SbqRd (E822_PORT port P_REG_RX_OR) 0])"
    unfolding c by (simp add: t')
  have a: "fst (call_n (Suc n) (\<lambda>hw. ice_phy_cfg_rx_offset_e822 T H hw port) hw) =
             replicate (Suc n) 0" unfolding c by simp
  have b: "filter is_write (evs @ concat (replicate n [SbqRd (E822_PORT port P_REG_RX_OR) 0])) =
             [SbqWr (E822_PORT port (REG64_L P_REG_TOTAL_RX_OFFSET)) (lower_32_bits total) 0,
              SbqWr (E822_PORT port (REG64_U P_REG_TOTAL_RX_OFFSET)) (upper_32_bits total) 0,
              SbqWr (E822_PORT port P_REG_RX_OR) 1 0]"
    unfolding filter_append filter_write_reads w' by simp
  show ?thesis unfolding e using a b by blast
qed

lemma cfg_tx_offset_eth56g_ok:
  assumes "sbq_faults hw = []" "port < max_phy_port hw"
  shows "ice_phy_cfg_tx_offset_eth56g hw port =
     (0, hw\<lparr>sbq_regs := (sbq_regs hw)
              (ETH56G (port div phy_ports hw) (port mod phy_ports hw) ETH56G_PHY_REG
                 (PHY_REG64_L PHY_REG_TOTAL_TX_OFFSET) := 0,
               ETH56G (port div phy_ports hw) (port mod phy_ports hw) ETH56G_PHY_REG
                 (PHY_REG64_U PHY_REG_TOTAL_TX_OFFSET) := 0,
               ETH56G (port div phy_ports hw) (port mod phy_ports hw) ETH56G_PHY_REG
                 PHY_REG_TX_OFFSET_READY := 1),
            trace := trace hw @
              [SbqWr (ETH56G (port div phy_ports hw) (port mod phy_ports hw) ETH56G_PHY_REG
                 (PHY_REG64_L PHY_REG_TOTAL_TX_OFFSET)) 0 0,
               SbqWr (ETH56G (port div phy_ports hw) (port mod phy_ports hw) ETH56G_PHY_REG
                 (PHY_REG64_U PHY_REG_TOTAL_TX_OFFSET)) 0 0,
               SbqWr (ETH56G (port div phy_ports hw) (port mod phy_ports hw) ETH56G_PHY_REG
                 PHY_REG_TX_OFFSET_READY) 1 0]\<rparr>)"
  using assms
  by (simp add: ice_phy_cfg_tx_offset_eth56g_def ice_calc_fixed_tx_offset_eth56g_def
        ice_write_64b_phy_reg_eth56g_def ice_is_64b_phy_reg_eth56g_def eth56g_acc_defs
        sbq_write_ok log_event_def Let_def not_le[symmetric] lower_32_bits_def upper_32_bits_def)

lemma cfg_rx_offset_eth56g_ok:
  assumes "sbq_faults hw = []" "port < max_phy_port hw"
  shows "ice_phy_cfg_rx_offset_eth56g hw port =
     (0, hw\<lparr>sbq_regs := (sbq_regs hw)
              (ETH56G (port div phy_ports hw) (port mod phy_ports hw) ETH56G_PHY_REG
                 (PHY_REG64_L PHY_REG_TOTAL_RX_OFFSET) := 0,
               ETH56G (port div phy_ports hw) (port mod phy_ports hw) ETH56G_PHY_REG
                 (PHY_REG64_U PHY_REG_TOTAL_RX_OFFSET) := 0,
               ETH56G (port div phy_ports hw) (port mod phy_ports hw) ETH56G_PHY_REG
                 PHY_REG_RX_OFFSET_READY := 1),
            trace := trace hw @
              [SbqWr (ETH56G (port div phy_ports hw) (port mod phy_ports hw) ETH56G_PHY_REG
                 (PHY_REG64_L PHY_REG_TOTAL_RX_OFFSET)) 0 0,
               SbqWr (ETH56G (port div phy_ports hw) (port mod phy_ports hw) ETH56G_PHY_REG
                 (PHY_REG64_U PHY_REG_TOTAL_RX_OFFSET)) 0 0,
               SbqWr (ETH56G (port div phy_ports hw) (port mod phy_ports hw) ETH56G_PHY_REG
                 PHY_REG_RX_OFFSET_READY) 1 0]\<rparr>)"
  using assms
  by (simp add: ice_phy_cfg_rx_offset_eth56g_def ice_calc_fixed_rx_offset_eth56g_def
        ice_write_64b_phy_reg_eth56g_def ice_is_64b_phy_reg_eth56g_def eth56g_acc_defs
        sbq_write_ok log_event_def Let_def not_le[symmetric] lower_32_bits_def upper_32_bits_def)

lemma call_n_every:
  assumes step: "\<And>hw. I hw \<Longrightarrow> fst (f hw) = s \<and> I (snd (f hw)) \<and>
                   W (snd (f hw)) = W hw \<and> trace (snd (f hw)) = trace hw @ W hw"
    and i: "I hw"
  shows "fst (call_n n f hw) = replicate n s \<and>
         trace (snd (call_n n f hw)) = trace hw @ concat (replicate n (W hw))"
  using i
proof (induction n arbitrary: hw)
  case 0
  then show ?case by simp
next
  case (Suc n)
  note a = step[OF Suc.prems]
  from a have b: "I (snd (f hw))" by simp
  show ?case using a Suc.IH[OF b] by (simp add: split_beta)
qed


text \<open>
  On the idle ETH56G device, where every register reads zero, two calls of
  \<^verbatim>\<open>ice_phy_cfg_tx_offset_eth56g\<close> both succeed and both write the total offset and the
  ready flag: the function reads no valid bit and no ready flag.
\<close>

theorem cfg_offset_eth56g_always_writes:
  "sbq_regs hw_eth56g = (\<lambda>a. 0) \<and>
   fst (call_n 2 (\<lambda>hw. ice_phy_cfg_tx_offset_eth56g hw 0) hw_eth56g) = [0, 0] \<and>
   trace (snd (call_n 2 (\<lambda>hw. ice_phy_cfg_tx_offset_eth56g hw 0) hw_eth56g)) =
     [SbqWr (ETH56G 0 0 ETH56G_PHY_REG (PHY_REG64_L PHY_REG_TOTAL_TX_OFFSET)) 0 0,
      SbqWr (ETH56G 0 0 ETH56G_PHY_REG (PHY_REG64_U PHY_REG_TOTAL_TX_OFFSET)) 0 0,
      SbqWr (ETH56G 0 0 ETH56G_PHY_REG PHY_REG_TX_OFFSET_READY) 1 0,
      SbqWr (ETH56G 0 0 ETH56G_PHY_REG (PHY_REG64_L PHY_REG_TOTAL_TX_OFFSET)) 0 0,
      SbqWr (ETH56G 0 0 ETH56G_PHY_REG (PHY_REG64_U PHY_REG_TOTAL_TX_OFFSET)) 0 0,
      SbqWr (ETH56G 0 0 ETH56G_PHY_REG PHY_REG_TX_OFFSET_READY) 1 0]"
proof -
  have a: "sbq_regs hw_eth56g = (\<lambda>a. 0)" by (simp add: hw_eth56g_def hw_e822_def)
  have b: "fst (call_n 2 (\<lambda>hw. ice_phy_cfg_tx_offset_eth56g hw 0) hw_eth56g) = [0, 0]"
    by code_simp
  have c: "trace (snd (call_n 2 (\<lambda>hw. ice_phy_cfg_tx_offset_eth56g hw 0) hw_eth56g)) =
     [SbqWr (ETH56G 0 0 ETH56G_PHY_REG (PHY_REG64_L PHY_REG_TOTAL_TX_OFFSET)) 0 0,
      SbqWr (ETH56G 0 0 ETH56G_PHY_REG (PHY_REG64_U PHY_REG_TOTAL_TX_OFFSET)) 0 0,
      SbqWr (ETH56G 0 0 ETH56G_PHY_REG PHY_REG_TX_OFFSET_READY) 1 0,
      SbqWr (ETH56G 0 0 ETH56G_PHY_REG (PHY_REG64_L PHY_REG_TOTAL_TX_OFFSET)) 0 0,
      SbqWr (ETH56G 0 0 ETH56G_PHY_REG (PHY_REG64_U PHY_REG_TOTAL_TX_OFFSET)) 0 0,
      SbqWr (ETH56G 0 0 ETH56G_PHY_REG PHY_REG_TX_OFFSET_READY) 1 0]"
    by code_simp
  show ?thesis by (intro conjI a b c)
qed

text \<open>
  Claim C4, as it holds of the source. On a sideband queue without faults, for a port of the
  E822 family
  whose ready flag (\<^verbatim>\<open>P_REG_TX_OR\<close>, \<^verbatim>\<open>P_REG_RX_OR\<close>) is clear: while the valid bit of
  the offset is clear, \<open>n\<close> calls of \<^verbatim>\<open>ice_phy_cfg_tx_offset_e822\<close>
  (\<^verbatim>\<open>ice_phy_cfg_rx_offset_e822\<close>) all return \<^verbatim>\<open>-EBUSY\<close> and change nothing but the
  trace, to which each appends its two reads; with the valid bit set and a link speed that
  decodes, \<open>n + 1\<close> calls all return 0 and together write exactly the low and the high
  word of the total offset and the ready flag, once. The functions of the ETH56G family
  test no valid bit: on a valid port each of \<open>n\<close> calls returns 0 and writes the total
  offset and the ready flag again.
\<close>

theorem cfg_offset_once:
  assumes f: "sbq_faults hw = []"
  shows "(sbq_regs hw (E822_PORT port P_REG_TX_OR) = 0 \<longrightarrow>
          sbq_regs hw (E822_PORT port P_REG_TX_OV_STATUS) AND H ''P_REG_TX_OV_STATUS_OV_M'' = 0 \<longrightarrow>
            call_n n (\<lambda>hw. ice_phy_cfg_tx_offset_e822 T H hw port) hw =
              (replicate n (- EBUSY),
               hw\<lparr>trace := trace hw @ concat (replicate n
                    [SbqRd (E822_PORT port P_REG_TX_OR) 0,
                     SbqRd (E822_PORT port P_REG_TX_OV_STATUS) 0])\<rparr>)) \<and>
         (sbq_regs hw (E822_PORT port P_REG_TX_OR) = 0 \<longrightarrow>
          sbq_regs hw (E822_PORT port P_REG_TX_OV_STATUS) AND H ''P_REG_TX_OV_STATUS_OV_M'' \<noteq> 0 \<longrightarrow>
          link_spd_of_serdes H
            (P_REG_LINK_SPEED_FEC_MODE T (sbq_regs hw (E822_PORT port P_REG_LINK_SPEED)))
            (sbq_regs hw (E822_PORT port P_REG_LINK_SPEED) AND H ''P_REG_LINK_SPEED_SERDES_M'')
              \<noteq> None \<longrightarrow>
            fst (call_n (Suc n) (\<lambda>hw. ice_phy_cfg_tx_offset_e822 T H hw port) hw) =
              replicate (Suc n) 0 \<and>
            (\<exists>total. filter is_write (new_events hw
                 (snd (call_n (Suc n) (\<lambda>hw. ice_phy_cfg_tx_offset_e822 T H hw port) hw))) =
               [SbqWr (E822_PORT port (REG64_L P_REG_TOTAL_TX_OFFSET)) (lower_32_bits total) 0,
                SbqWr (E822_PORT port (REG64_U P_REG_TOTAL_TX_OFFSET)) (upper_32_bits total) 0,
                SbqWr (E822_PORT port P_REG_TX_OR) 1 0])) \<and>
         (sbq_regs hw (E822_PORT port P_REG_RX_OR) = 0 \<longrightarrow>
          sbq_regs hw (E822_PORT port P_REG_RX_OV_STATUS) AND H ''P_REG_RX_OV_STATUS_OV_M'' = 0 \<longrightarrow>
            call_n n (\<lambda>hw. ice_phy_cfg_rx_offset_e822 T H hw port) hw =
              (replicate n (- EBUSY),
               hw\<lparr>trace := trace hw @ concat (replicate n
                    [SbqRd (E822_PORT port P_REG_RX_OR) 0,
                     SbqRd (E822_PORT port P_REG_RX_OV_STATUS) 0])\<rparr>)) \<and>
         (sbq_regs hw (E822_PORT port P_REG_RX_OR) = 0 \<longrightarrow>
          sbq_regs hw (E822_PORT port P_REG_RX_OV_STATUS) AND H ''P_REG_RX_OV_STATUS_OV_M'' \<noteq> 0 \<longrightarrow>
          link_spd_of_serdes H
            (P_REG_LINK_SPEED_FEC_MODE T (sbq_regs hw (E822_PORT port P_REG_LINK_SPEED)))
            (sbq_regs hw (E822_PORT port P_REG_LINK_SPEED) AND H ''P_REG_LINK_SPEED_SERDES_M'')
              \<noteq> None \<longrightarrow>
            fst (call_n (Suc n) (\<lambda>hw. ice_phy_cfg_rx_offset_e822 T H hw port) hw) =
              replicate (Suc n) 0 \<and>
            (\<exists>total. filter is_write (new_events hw
                 (snd (call_n (Suc n) (\<lambda>hw. ice_phy_cfg_rx_offset_e822 T H hw port) hw))) =
               [SbqWr (E822_PORT port (REG64_L P_REG_TOTAL_RX_OFFSET)) (lower_32_bits total) 0,
                SbqWr (E822_PORT port (REG64_U P_REG_TOTAL_RX_OFFSET)) (upper_32_bits total) 0,
                SbqWr (E822_PORT port P_REG_RX_OR) 1 0])) \<and>
         (phy_ports hw \<noteq> 0 \<longrightarrow> port < max_phy_port hw \<longrightarrow>
            fst (call_n n (\<lambda>hw. ice_phy_cfg_tx_offset_eth56g hw port) hw) = replicate n 0 \<and>
            trace (snd (call_n n (\<lambda>hw. ice_phy_cfg_tx_offset_eth56g hw port) hw)) =
              trace hw @ concat (replicate n
                [SbqWr (ETH56G (port div phy_ports hw) (port mod phy_ports hw) ETH56G_PHY_REG
                   (PHY_REG64_L PHY_REG_TOTAL_TX_OFFSET)) 0 0,
                 SbqWr (ETH56G (port div phy_ports hw) (port mod phy_ports hw) ETH56G_PHY_REG
                   (PHY_REG64_U PHY_REG_TOTAL_TX_OFFSET)) 0 0,
                 SbqWr (ETH56G (port div phy_ports hw) (port mod phy_ports hw) ETH56G_PHY_REG
                   PHY_REG_TX_OFFSET_READY) 1 0])) \<and>
         (phy_ports hw \<noteq> 0 \<longrightarrow> port < max_phy_port hw \<longrightarrow>
            fst (call_n n (\<lambda>hw. ice_phy_cfg_rx_offset_eth56g hw port) hw) = replicate n 0 \<and>
            trace (snd (call_n n (\<lambda>hw. ice_phy_cfg_rx_offset_eth56g hw port) hw)) =
              trace hw @ concat (replicate n
                [SbqWr (ETH56G (port div phy_ports hw) (port mod phy_ports hw) ETH56G_PHY_REG
                   (PHY_REG64_L PHY_REG_TOTAL_RX_OFFSET)) 0 0,
                 SbqWr (ETH56G (port div phy_ports hw) (port mod phy_ports hw) ETH56G_PHY_REG
                   (PHY_REG64_U PHY_REG_TOTAL_RX_OFFSET)) 0 0,
                 SbqWr (ETH56G (port div phy_ports hw) (port mod phy_ports hw) ETH56G_PHY_REG
                   PHY_REG_RX_OFFSET_READY) 1 0]))"
proof -
  have etx: "fst (call_n n (\<lambda>hw. ice_phy_cfg_tx_offset_eth56g hw port) hw) = replicate n 0 \<and>
            trace (snd (call_n n (\<lambda>hw. ice_phy_cfg_tx_offset_eth56g hw port) hw)) =
              trace hw @ concat (replicate n
                [SbqWr (ETH56G (port div phy_ports hw) (port mod phy_ports hw) ETH56G_PHY_REG
                   (PHY_REG64_L PHY_REG_TOTAL_TX_OFFSET)) 0 0,
                 SbqWr (ETH56G (port div phy_ports hw) (port mod phy_ports hw) ETH56G_PHY_REG
                   (PHY_REG64_U PHY_REG_TOTAL_TX_OFFSET)) 0 0,
                 SbqWr (ETH56G (port div phy_ports hw) (port mod phy_ports hw) ETH56G_PHY_REG
                   PHY_REG_TX_OFFSET_READY) 1 0])"
    if "port < max_phy_port hw"
    by (rule call_n_every[where I="\<lambda>hw. sbq_faults hw = [] \<and> port < max_phy_port hw"
          and W="\<lambda>hw. [SbqWr (ETH56G (port div phy_ports hw) (port mod phy_ports hw) ETH56G_PHY_REG
                   (PHY_REG64_L PHY_REG_TOTAL_TX_OFFSET)) 0 0,
                 SbqWr (ETH56G (port div phy_ports hw) (port mod phy_ports hw) ETH56G_PHY_REG
                   (PHY_REG64_U PHY_REG_TOTAL_TX_OFFSET)) 0 0,
                 SbqWr (ETH56G (port div phy_ports hw) (port mod phy_ports hw) ETH56G_PHY_REG
                   PHY_REG_TX_OFFSET_READY) 1 0]"])
       (simp_all add: cfg_tx_offset_eth56g_ok f that)
  have erx: "fst (call_n n (\<lambda>hw. ice_phy_cfg_rx_offset_eth56g hw port) hw) = replicate n 0 \<and>
            trace (snd (call_n n (\<lambda>hw. ice_phy_cfg_rx_offset_eth56g hw port) hw)) =
              trace hw @ concat (replicate n
                [SbqWr (ETH56G (port div phy_ports hw) (port mod phy_ports hw) ETH56G_PHY_REG
                   (PHY_REG64_L PHY_REG_TOTAL_RX_OFFSET)) 0 0,
                 SbqWr (ETH56G (port div phy_ports hw) (port mod phy_ports hw) ETH56G_PHY_REG
                   (PHY_REG64_U PHY_REG_TOTAL_RX_OFFSET)) 0 0,
                 SbqWr (ETH56G (port div phy_ports hw) (port mod phy_ports hw) ETH56G_PHY_REG
                   PHY_REG_RX_OFFSET_READY) 1 0])"
    if "port < max_phy_port hw"
    by (rule call_n_every[where I="\<lambda>hw. sbq_faults hw = [] \<and> port < max_phy_port hw"
          and W="\<lambda>hw. [SbqWr (ETH56G (port div phy_ports hw) (port mod phy_ports hw) ETH56G_PHY_REG
                   (PHY_REG64_L PHY_REG_TOTAL_RX_OFFSET)) 0 0,
                 SbqWr (ETH56G (port div phy_ports hw) (port mod phy_ports hw) ETH56G_PHY_REG
                   (PHY_REG64_U PHY_REG_TOTAL_RX_OFFSET)) 0 0,
                 SbqWr (ETH56G (port div phy_ports hw) (port mod phy_ports hw) ETH56G_PHY_REG
                   PHY_REG_RX_OFFSET_READY) 1 0]"])
       (simp_all add: cfg_rx_offset_eth56g_ok f that)
  show ?thesis
    by (intro conjI impI cfg_tx_offset_e822_busy_n cfg_rx_offset_e822_busy_n
        cfg_tx_offset_e822_once[THEN conjunct1] cfg_tx_offset_e822_once[THEN conjunct2]
        cfg_rx_offset_e822_once[THEN conjunct1] cfg_rx_offset_e822_once[THEN conjunct2]
        etx[THEN conjunct1] etx[THEN conjunct2] erx[THEN conjunct1] erx[THEN conjunct2] f)
qed


theorem cfg_offset_once_witness:
  "(sbq_faults hw_e822 = [] \<and> sbq_regs hw_e822 (E822_PORT 0 P_REG_TX_OR) = 0 \<and>
    sbq_regs hw_e822 (E822_PORT 0 P_REG_TX_OV_STATUS) AND H0 ''P_REG_TX_OV_STATUS_OV_M'' = 0 \<and>
    fst (call_n 3 (\<lambda>hw. ice_phy_cfg_tx_offset_e822 T0 H0 hw 0) hw_e822) =
      replicate 3 (- EBUSY) \<and>
    filter is_write (trace (snd (call_n 3 (\<lambda>hw. ice_phy_cfg_tx_offset_e822 T0 H0 hw 0)
      hw_e822))) = []) \<and>
   (sbq_faults hw_e822_calibrated = [] \<and>
    sbq_regs hw_e822_calibrated (E822_PORT 0 P_REG_RX_OR) = 0 \<and>
    sbq_regs hw_e822_calibrated (E822_PORT 0 P_REG_RX_OV_STATUS) AND
      H0 ''P_REG_RX_OV_STATUS_OV_M'' \<noteq> 0 \<and>
    link_spd_of_serdes H0
      (P_REG_LINK_SPEED_FEC_MODE T0 (sbq_regs hw_e822_calibrated (E822_PORT 0 P_REG_LINK_SPEED)))
      (sbq_regs hw_e822_calibrated (E822_PORT 0 P_REG_LINK_SPEED) AND
         H0 ''P_REG_LINK_SPEED_SERDES_M'') \<noteq> None \<and>
    fst (call_n 3 (\<lambda>hw. ice_phy_cfg_rx_offset_e822 T0 H0 hw 0) hw_e822_calibrated) =
      replicate 3 0 \<and>
    (\<exists>total. filter is_write (new_events hw_e822_calibrated
         (snd (call_n 3 (\<lambda>hw. ice_phy_cfg_rx_offset_e822 T0 H0 hw 0) hw_e822_calibrated))) =
       [SbqWr (E822_PORT 0 (REG64_L P_REG_TOTAL_RX_OFFSET)) (lower_32_bits total) 0,
        SbqWr (E822_PORT 0 (REG64_U P_REG_TOTAL_RX_OFFSET)) (upper_32_bits total) 0,
        SbqWr (E822_PORT 0 P_REG_RX_OR) 1 0])) \<and>
   (sbq_faults hw_eth56g = [] \<and> phy_ports hw_eth56g \<noteq> 0 \<and> 0 < max_phy_port hw_eth56g \<and>
    fst (call_n 2 (\<lambda>hw. ice_phy_cfg_rx_offset_eth56g hw 0) hw_eth56g) = replicate 2 0 \<and>
    length (trace (snd (call_n 2 (\<lambda>hw. ice_phy_cfg_rx_offset_eth56g hw 0) hw_eth56g))) = 6)"
proof -
  have a1: "sbq_faults hw_e822 = []" by code_simp
  have a2: "sbq_regs hw_e822 (E822_PORT 0 P_REG_TX_OR) = 0" by code_simp
  have a3: "sbq_regs hw_e822 (E822_PORT 0 P_REG_TX_OV_STATUS) AND
              H0 ''P_REG_TX_OV_STATUS_OV_M'' = 0" by code_simp
  have a4: "trace hw_e822 = []" by code_simp
  note a = cfg_offset_once[where hw=hw_e822 and port=0 and H=H0 and T=T0 and n=3, OF a1,
      THEN conjunct1, rule_format, OF a2 a3]
  have a5: "fst (call_n 3 (\<lambda>hw. ice_phy_cfg_tx_offset_e822 T0 H0 hw 0) hw_e822) =
      replicate 3 (- EBUSY)" unfolding a by simp
  have a6: "filter is_write (trace (snd (call_n 3 (\<lambda>hw. ice_phy_cfg_tx_offset_e822 T0 H0 hw 0)
      hw_e822))) = []" unfolding a by (simp add: a4 is_write_def)
  have b1: "sbq_faults hw_e822_calibrated = []" by code_simp
  have b2: "sbq_regs hw_e822_calibrated (E822_PORT 0 P_REG_RX_OR) = 0" by code_simp
  have b3: "sbq_regs hw_e822_calibrated (E822_PORT 0 P_REG_RX_OV_STATUS) AND
      H0 ''P_REG_RX_OV_STATUS_OV_M'' \<noteq> 0" by code_simp
  have b4: "link_spd_of_serdes H0
      (P_REG_LINK_SPEED_FEC_MODE T0 (sbq_regs hw_e822_calibrated (E822_PORT 0 P_REG_LINK_SPEED)))
      (sbq_regs hw_e822_calibrated (E822_PORT 0 P_REG_LINK_SPEED) AND
         H0 ''P_REG_LINK_SPEED_SERDES_M'') \<noteq> None" by code_simp
  note b = cfg_offset_once[where hw=hw_e822_calibrated and port=0 and H=H0 and T=T0 and n=2,
      OF b1, THEN conjunct2, THEN conjunct2, THEN conjunct2, THEN conjunct1, rule_format,
      OF b2 b3 b4]
  have n3: "Suc 2 = 3" by simp
  note b' = b[unfolded n3]
  have c1: "sbq_faults hw_eth56g = []" by code_simp
  have c2: "phy_ports hw_eth56g \<noteq> 0" by code_simp
  have c3: "0 < max_phy_port hw_eth56g" by code_simp
  have c4: "trace hw_eth56g = []" by code_simp
  note c = cfg_offset_once[where hw=hw_eth56g and port=0 and H=H0 and T=T0 and n=2,
      OF c1, THEN conjunct2, THEN conjunct2, THEN conjunct2, THEN conjunct2, THEN conjunct2,
      rule_format, OF c2 c3]
  have c5: "length (trace (snd (call_n 2 (\<lambda>hw. ice_phy_cfg_rx_offset_eth56g hw 0) hw_eth56g))) = 6"
    unfolding c[THEN conjunct2] by (simp add: c4 numeral_2_eq_2)
  show ?thesis
    by (intro conjI a1 a2 a3 a5 a6 b1 b2 b3 b4 b'[THEN conjunct1] b'[THEN conjunct2]
        c1 c2 c3 c[THEN conjunct1] c5)
qed


section \<open>The PMD adjustment of the Rx offset\<close>

lemma src_incval_update [simp]:
  "src_incval H (hw\<lparr>trace := t\<rparr>) = src_incval H hw"
  "src_incval H (hw\<lparr>rd32_script := r\<rparr>) = src_incval H hw"
  by (simp_all add: src_incval_def)

lemma rx_pmd_adjustment_update [simp]:
  "rx_pmd_adjustment T H (hw\<lparr>trace := t\<rparr>) port spd fec = rx_pmd_adjustment T H hw port spd fec"
  by (simp add: rx_pmd_adjustment_def)

lemma read_src_incval_ok:
  "rd32_script hw = [] \<Longrightarrow>
     ice_ptp_read_src_incval H hw =
       (src_incval H hw,
        hw\<lparr>trace := trace hw @
          [Rd32 (GLTSYN_INCVAL_L (tmr_index_assoc hw)) (mmio hw (GLTSYN_INCVAL_L (tmr_index_assoc hw))),
           Rd32 (GLTSYN_INCVAL_H (tmr_index_assoc hw)) (mmio hw (GLTSYN_INCVAL_H (tmr_index_assoc hw)))]\<rparr>)"
  by (simp add: ice_ptp_read_src_incval_def rd32_def log_event_def src_incval_def Let_def
        ice_get_ptp_src_clock_index_def)

lemma calc_fixed_rx_ok:
  "rd32_script hw = [] \<Longrightarrow>
     ice_calc_fixed_rx_offset_e822 T H hw spd =
       (scale_latency (ice_e822_pll_freq T (time_ref hw) * src_incval H hw)
          (ucast (rx_fixed_delay (e822_vernier T spd))),
        hw\<lparr>trace := trace hw @
          [Rd32 (GLTSYN_INCVAL_L (tmr_index_assoc hw)) (mmio hw (GLTSYN_INCVAL_L (tmr_index_assoc hw))),
           Rd32 (GLTSYN_INCVAL_H (tmr_index_assoc hw)) (mmio hw (GLTSYN_INCVAL_H (tmr_index_assoc hw)))]\<rparr>)"
  by (simp add: ice_calc_fixed_rx_offset_e822_def read_src_incval_ok scale_latency_def
        div64_u64_def Let_def)

lemma calc_pmd_adj_value:
  assumes "sbq_faults hw = []" "rd32_script hw = []"
  shows "fst (ice_phy_calc_pmd_adj_e822 T H hw port spd fec) =
           Inr (rx_pmd_adjustment T H hw port spd fec)"
  using assms
  by (simp add: ice_phy_calc_pmd_adj_e822_def e822_acc_defs sbq_read_ok log_event_def
        read_src_incval_ok Let_def rx_pmd_adjustment_def)


text \<open>
  Claim C9. On a sideband queue without faults, with the source timer read from its
  registers, for an E822 port whose Rx ready flag is clear and whose Rx offset-valid bit is
  set, on a link whose speed decodes to \<open>spd\<close> with FEC mode \<open>fec\<close> (and a nonzero PMD
  divisor for that speed): \<^verbatim>\<open>ice_phy_cfg_rx_offset_e822\<close> returns 0, sets the ready flag and
  writes as total Rx offset \<open>rx_base_offset\<close> plus \<open>rx_pmd_adjustment\<close> when the FEC mode is
  RS-FEC, and \<open>rx_base_offset\<close> minus \<open>rx_pmd_adjustment\<close> for every other FEC mode. The
  adjustment is the one \<open>rx_pmd_adjustment\<close> defines from the alignment counter, the link
  speed and, for 25G-RS and 50G-RS, the Rx cycle count.
\<close>

theorem cfg_rx_offset_e822_pmd_sign:
  assumes f: "sbq_faults hw = []" and r: "rd32_script hw = []"
    and o: "sbq_regs hw (E822_PORT port P_REG_RX_OR) = 0"
    and v: "sbq_regs hw (E822_PORT port P_REG_RX_OV_STATUS) AND H ''P_REG_RX_OV_STATUS_OV_M'' \<noteq> 0"
    and fec: "fec = P_REG_LINK_SPEED_FEC_MODE T (sbq_regs hw (E822_PORT port P_REG_LINK_SPEED))"
    and s: "link_spd_of_serdes H fec
       (sbq_regs hw (E822_PORT port P_REG_LINK_SPEED) AND H ''P_REG_LINK_SPEED_SERDES_M'') = Some spd"
    and d: "pmd_adj_divisor (e822_vernier T spd) \<noteq> 0"
    and total: "total_offset = (if fec = H ''ICE_PTP_FEC_MODE_RS_FEC''
                         then rx_base_offset T H hw port spd + rx_pmd_adjustment T H hw port spd fec
                         else rx_base_offset T H hw port spd - rx_pmd_adjustment T H hw port spd fec)"
  shows "fst (ice_phy_cfg_rx_offset_e822 T H hw port) = 0 \<and>
         sbq_regs (snd (ice_phy_cfg_rx_offset_e822 T H hw port)) =
           (sbq_regs hw)
              (E822_PORT port (REG64_L P_REG_TOTAL_RX_OFFSET) := lower_32_bits total_offset,
               E822_PORT port (REG64_U P_REG_TOTAL_RX_OFFSET) := upper_32_bits total_offset,
               E822_PORT port P_REG_RX_OR := 1)"
proof -
  let ?hw3 = "hw\<lparr>trace := trace hw @ [SbqRd (E822_PORT port P_REG_RX_OR) 0,
                                        SbqRd (E822_PORT port P_REG_RX_OV_STATUS) 0,
                                        SbqRd (E822_PORT port P_REG_LINK_SPEED) 0]\<rparr>"
  let ?hw4 = "?hw3\<lparr>trace := trace ?hw3 @
          [Rd32 (GLTSYN_INCVAL_L (tmr_index_assoc hw)) (mmio hw (GLTSYN_INCVAL_L (tmr_index_assoc hw))),
           Rd32 (GLTSYN_INCVAL_H (tmr_index_assoc hw)) (mmio hw (GLTSYN_INCVAL_H (tmr_index_assoc hw)))]\<rparr>"
  let ?hw5 = "?hw4\<lparr>trace := trace ?hw4 @
                 [SbqRd (E822_PORT port (REG64_L P_REG_PAR_PCS_RX_OFFSET)) 0,
                  SbqRd (E822_PORT port (REG64_U P_REG_PAR_PCS_RX_OFFSET)) 0]\<rparr>"
  let ?multi = "spd = ICE_PTP_LNK_SPD_40G \<or> spd = ICE_PTP_LNK_SPD_50G \<or>
                spd = ICE_PTP_LNK_SPD_50G_RS \<or> spd = ICE_PTP_LNK_SPD_100G_RS"
  let ?hw6 = "if ?multi then ?hw5\<lparr>trace := trace ?hw5 @
                 [SbqRd (E822_PORT port (REG64_L P_REG_PAR_RX_TIME)) 0,
                  SbqRd (E822_PORT port (REG64_U P_REG_PAR_RX_TIME)) 0]\<rparr> else ?hw5"
  have s': "link_spd_of_serdes H
       (P_REG_LINK_SPEED_FEC_MODE T (sbq_regs hw (E822_PORT port P_REG_LINK_SPEED)))
       (sbq_regs hw (E822_PORT port P_REG_LINK_SPEED) AND H ''P_REG_LINK_SPEED_SERDES_M'') = Some spd"
    using s fec by simp
  have c: "ice_calc_fixed_rx_offset_e822 T H ?hw3 spd =
             (scale_latency (ice_e822_pll_freq T (time_ref hw) * src_incval H hw)
                (ucast (rx_fixed_delay (e822_vernier T spd))), ?hw4)"
    using r by (simp add: calc_fixed_rx_ok)
  have f6: "sbq_faults ?hw6 = []" and r6: "rd32_script ?hw6 = []" using f r by simp_all
  from calc_pmd_adj_ok[OF f6, of T H port spd fec] obtain pmd hw7 where
    p: "ice_phy_calc_pmd_adj_e822 T H ?hw6 port spd fec = (Inr pmd, hw7)"
    and ro: "reads_only ?hw6 hw7" by blast
  from calc_pmd_adj_value[OF f6 r6, of T H port spd fec] p
  have pv: "pmd = rx_pmd_adjustment T H hw port spd fec"
    by (simp split: if_splits)
  from ro have f7: "sbq_faults hw7 = []" and r7: "sbq_regs hw7 = sbq_regs hw"
    using f by (auto simp: reads_only_def split: if_splits)
  show ?thesis
  proof (cases ?multi)
    case True
    with p have p': "ice_phy_calc_pmd_adj_e822 T H (?hw5\<lparr>trace := trace ?hw5 @
                 [SbqRd (E822_PORT port (REG64_L P_REG_PAR_RX_TIME)) 0,
                  SbqRd (E822_PORT port (REG64_U P_REG_PAR_RX_TIME)) 0]\<rparr>) port spd fec =
                  (Inr pmd, hw7)" by (simp only: if_True)
    show ?thesis
      using f o v s' c True p' f7 r7 fec
      apply (simp add: ice_phy_cfg_rx_offset_e822_def sbq_read_ok speed_and_fec_ok
        ice_read_phy_reg_e822_def ice_read_phy_reg_e822_lp_def
        ice_write_phy_reg_e822_def ice_write_phy_reg_e822_lp_def log_event_def
        read_64b_e822_ok write_64b_e822_ok sbq_write_ok Let_def)
      apply (auto simp: total pv rx_base_offset_def reg64_e822_def fun_upd_twist)
      done
  next
    case False
    with p have p': "ice_phy_calc_pmd_adj_e822 T H ?hw5 port spd fec = (Inr pmd, hw7)"
      by (simp only: if_False)
    show ?thesis
      using f o v s' c False p' f7 r7 fec
      apply (simp add: ice_phy_cfg_rx_offset_e822_def sbq_read_ok speed_and_fec_ok
        ice_read_phy_reg_e822_def ice_read_phy_reg_e822_lp_def
        ice_write_phy_reg_e822_def ice_write_phy_reg_e822_lp_def log_event_def
        read_64b_e822_ok write_64b_e822_ok sbq_write_ok Let_def)
      apply (auto simp: total pv rx_base_offset_def reg64_e822_def fun_upd_twist)
      done
  qed
qed


theorem cfg_rx_offset_e822_pmd_sign_witness:
  "sbq_faults hw_e822_calibrated = [] \<and> rd32_script hw_e822_calibrated = [] \<and>
   sbq_regs hw_e822_calibrated (E822_PORT 0 P_REG_RX_OR) = 0 \<and>
   sbq_regs hw_e822_calibrated (E822_PORT 0 P_REG_RX_OV_STATUS) AND
     H0 ''P_REG_RX_OV_STATUS_OV_M'' \<noteq> 0 \<and>
   P_REG_LINK_SPEED_FEC_MODE T0 (sbq_regs hw_e822_calibrated (E822_PORT 0 P_REG_LINK_SPEED)) =
     H0 ''ICE_PTP_FEC_MODE_RS_FEC'' \<and>
   link_spd_of_serdes H0 (H0 ''ICE_PTP_FEC_MODE_RS_FEC'')
     (sbq_regs hw_e822_calibrated (E822_PORT 0 P_REG_LINK_SPEED) AND
        H0 ''P_REG_LINK_SPEED_SERDES_M'') = Some ICE_PTP_LNK_SPD_25G_RS \<and>
   pmd_adj_divisor (e822_vernier T0 ICE_PTP_LNK_SPD_25G_RS) \<noteq> 0 \<and>
   rx_base_offset T0 H0 hw_e822_calibrated 0 ICE_PTP_LNK_SPD_25G_RS = 746121719731 \<and>
   rx_pmd_adjustment T0 H0 hw_e822_calibrated 0 ICE_PTP_LNK_SPD_25G_RS
     (H0 ''ICE_PTP_FEC_MODE_RS_FEC'') = 566935683125 \<and>
   fst (ice_phy_cfg_rx_offset_e822 T0 H0 hw_e822_calibrated 0) = 0 \<and>
   sbq_regs (snd (ice_phy_cfg_rx_offset_e822 T0 H0 hw_e822_calibrated 0)) =
     (sbq_regs hw_e822_calibrated)
        (E822_PORT 0 (REG64_L P_REG_TOTAL_RX_OFFSET) := lower_32_bits (746121719731 + 566935683125),
         E822_PORT 0 (REG64_U P_REG_TOTAL_RX_OFFSET) := upper_32_bits (746121719731 + 566935683125),
         E822_PORT 0 P_REG_RX_OR := 1) \<and>
   P_REG_LINK_SPEED_FEC_MODE T0 (sbq_regs hw_e822_10g (E822_PORT 0 P_REG_LINK_SPEED)) \<noteq>
     H0 ''ICE_PTP_FEC_MODE_RS_FEC'' \<and>
   rx_pmd_adjustment T0 H0 hw_e822_10g 0 ICE_PTP_LNK_SPD_10G 0 = 17179869185 \<and>
   sbq_regs (snd (ice_phy_cfg_rx_offset_e822 T0 H0 hw_e822_10g 0)) =
     (sbq_regs hw_e822_10g)
        (E822_PORT 0 (REG64_L P_REG_TOTAL_RX_OFFSET) := lower_32_bits (746121719731 - 17179869185),
         E822_PORT 0 (REG64_U P_REG_TOTAL_RX_OFFSET) := upper_32_bits (746121719731 - 17179869185),
         E822_PORT 0 P_REG_RX_OR := 1)"
proof -
  let ?hw = hw_e822_calibrated
  have a1: "sbq_faults ?hw = []" by code_simp
  have a2: "rd32_script ?hw = []" by code_simp
  have a3: "sbq_regs ?hw (E822_PORT 0 P_REG_RX_OR) = 0" by code_simp
  have a4: "sbq_regs ?hw (E822_PORT 0 P_REG_RX_OV_STATUS) AND H0 ''P_REG_RX_OV_STATUS_OV_M'' \<noteq> 0"
    by code_simp
  have a5: "P_REG_LINK_SPEED_FEC_MODE T0 (sbq_regs ?hw (E822_PORT 0 P_REG_LINK_SPEED)) =
     H0 ''ICE_PTP_FEC_MODE_RS_FEC''" by code_simp
  have a6: "link_spd_of_serdes H0 (H0 ''ICE_PTP_FEC_MODE_RS_FEC'')
     (sbq_regs ?hw (E822_PORT 0 P_REG_LINK_SPEED) AND
        H0 ''P_REG_LINK_SPEED_SERDES_M'') = Some ICE_PTP_LNK_SPD_25G_RS" by code_simp
  have a7: "pmd_adj_divisor (e822_vernier T0 ICE_PTP_LNK_SPD_25G_RS) \<noteq> 0" by code_simp
  have b: "rx_base_offset T0 H0 ?hw 0 ICE_PTP_LNK_SPD_25G_RS = 746121719731" by code_simp
  have p: "rx_pmd_adjustment T0 H0 ?hw 0 ICE_PTP_LNK_SPD_25G_RS
     (H0 ''ICE_PTP_FEC_MODE_RS_FEC'') = 566935683125" by code_simp
  have t: "(746121719731 + 566935683125 :: u64) =
      (if H0 ''ICE_PTP_FEC_MODE_RS_FEC'' = H0 ''ICE_PTP_FEC_MODE_RS_FEC''
       then rx_base_offset T0 H0 ?hw 0 ICE_PTP_LNK_SPD_25G_RS +
            rx_pmd_adjustment T0 H0 ?hw 0 ICE_PTP_LNK_SPD_25G_RS (H0 ''ICE_PTP_FEC_MODE_RS_FEC'')
       else rx_base_offset T0 H0 ?hw 0 ICE_PTP_LNK_SPD_25G_RS -
            rx_pmd_adjustment T0 H0 ?hw 0 ICE_PTP_LNK_SPD_25G_RS (H0 ''ICE_PTP_FEC_MODE_RS_FEC''))"
    unfolding b p by simp
  note th = cfg_rx_offset_e822_pmd_sign[OF a1 a2 a3 a4 a5[symmetric] a6 a7 t]
  let ?g = hw_e822_10g
  have c1: "sbq_faults ?g = []" by code_simp
  have c2: "rd32_script ?g = []" by code_simp
  have c3: "sbq_regs ?g (E822_PORT 0 P_REG_RX_OR) = 0" by code_simp
  have c4: "sbq_regs ?g (E822_PORT 0 P_REG_RX_OV_STATUS) AND H0 ''P_REG_RX_OV_STATUS_OV_M'' \<noteq> 0"
    by code_simp
  have c5: "P_REG_LINK_SPEED_FEC_MODE T0 (sbq_regs ?g (E822_PORT 0 P_REG_LINK_SPEED)) = 0"
    by code_simp
  have c5': "P_REG_LINK_SPEED_FEC_MODE T0 (sbq_regs ?g (E822_PORT 0 P_REG_LINK_SPEED)) \<noteq>
     H0 ''ICE_PTP_FEC_MODE_RS_FEC''" by code_simp
  have c6: "link_spd_of_serdes H0 0
     (sbq_regs ?g (E822_PORT 0 P_REG_LINK_SPEED) AND
        H0 ''P_REG_LINK_SPEED_SERDES_M'') = Some ICE_PTP_LNK_SPD_10G" by code_simp
  have c7: "pmd_adj_divisor (e822_vernier T0 ICE_PTP_LNK_SPD_10G) \<noteq> 0" by code_simp
  have c8: "(0 :: u32) \<noteq> H0 ''ICE_PTP_FEC_MODE_RS_FEC''" by code_simp
  have gb: "rx_base_offset T0 H0 ?g 0 ICE_PTP_LNK_SPD_10G = 746121719731" by code_simp
  have gp: "rx_pmd_adjustment T0 H0 ?g 0 ICE_PTP_LNK_SPD_10G 0 = 17179869185" by code_simp
  have gt: "(746121719731 - 17179869185 :: u64) =
      (if 0 = H0 ''ICE_PTP_FEC_MODE_RS_FEC''
       then rx_base_offset T0 H0 ?g 0 ICE_PTP_LNK_SPD_10G +
            rx_pmd_adjustment T0 H0 ?g 0 ICE_PTP_LNK_SPD_10G 0
       else rx_base_offset T0 H0 ?g 0 ICE_PTP_LNK_SPD_10G -
            rx_pmd_adjustment T0 H0 ?g 0 ICE_PTP_LNK_SPD_10G 0)"
    unfolding gb gp using c8 by simp
  note tg = cfg_rx_offset_e822_pmd_sign[OF c1 c2 c3 c4 c5[symmetric] c6 c7 gt]
  show ?thesis
    by (intro conjI a1 a2 a3 a4 a5 a6 a7 b p th[THEN conjunct1] th[THEN conjunct2]
        c5' gp tg[THEN conjunct2])
qed

end
